theory Spec2Isabelle
  imports Main "HOL-Library.Product_Lexorder"
begin

section \<open>Values of the JavaScript runtime\<close>

text \<open>
  Strings are lists of characters. \<^verbatim>\<open>String.prototype.includes\<close> is the test for a
  contiguous occurrence. \<^verbatim>\<open>String.prototype.toLowerCase\<close> belongs to the runtime and is
  taken as a parameter \<open>toLowerCase\<close> wherever the code calls it; \<open>ascii_lower\<close> is the
  instance used for evaluation on ASCII text.
\<close>

fun startsWith :: "string \<Rightarrow> string \<Rightarrow> bool" where
  "startsWith s [] = True"
| "startsWith [] (c # t) = False"
| "startsWith (d # s) (c # t) = (d = c \<and> startsWith s t)"

fun str_includes :: "string \<Rightarrow> string \<Rightarrow> bool" where
  "str_includes [] t = (t = [])"
| "str_includes (c # s) t = (startsWith (c # s) t \<or> str_includes s t)"

definition ascii_lower_char :: "char \<Rightarrow> char" where
  "ascii_lower_char c =
     (case map_of (zip ''ABCDEFGHIJKLMNOPQRSTUVWXYZ'' ''abcdefghijklmnopqrstuvwxyz'') c of
        None \<Rightarrow> c
      | Some l \<Rightarrow> l)"

definition ascii_lower :: "string \<Rightarrow> string" where
  "ascii_lower s = map ascii_lower_char s"

text \<open>\<^verbatim>\<open>Array.prototype.slice(start, end)\<close> for non-negative indices.\<close>

definition slice :: "'a list \<Rightarrow> nat \<Rightarrow> nat \<Rightarrow> 'a list" where
  "slice xs start end' = take (end' - start) (drop start xs)"

text \<open>\<^verbatim>\<open>Array.prototype.join(sep)\<close> on an array of strings.\<close>

fun join :: "string list \<Rightarrow> string \<Rightarrow> string" where
  "join [] sep = []"
| "join [x] sep = x"
| "join (x # y # ys) sep = x @ sep @ join (y # ys) sep"

text \<open>Decimal text of numbers, as template literals print them.\<close>

definition digit_char :: "nat \<Rightarrow> char" where
  "digit_char d = ''0123456789'' ! (d mod 10)"

fun show_nat :: "nat \<Rightarrow> string" where
  "show_nat n = (if n < 10 then [digit_char n] else show_nat (n div 10) @ [digit_char (n mod 10)])"

declare show_nat.simps [simp del]

definition show_int :: "int \<Rightarrow> string" where
  "show_int i = (if i < 0 then ''-'' @ show_nat (nat (- i)) else show_nat (nat i))"

text \<open>
  The columns \<^verbatim>\<open>gpa numeric(3, 2)\<close> and \<^verbatim>\<open>acceptance_rate numeric(5, 2)\<close> hold
  decimals with two fractional digits. They are represented by their number of
  hundredths: \<open>350\<close> stands for 3.5. \<open>show_hundredths\<close> is the text JavaScript prints for
  such a number: no trailing zeros, no decimal point for a whole number.
\<close>

definition show_hundredths :: "int \<Rightarrow> string" where
  "show_hundredths h =
     (let m = nat \<bar>h\<bar>; whole = m div 100; frac = m mod 100;
          sign = (if h < 0 then ''-'' else [])
      in if frac = 0 then sign @ show_nat whole
         else if frac mod 10 = 0 then sign @ show_nat whole @ ''.'' @ [digit_char (frac div 10)]
         else sign @ show_nat whole @ ''.'' @ [digit_char (frac div 10), digit_char (frac mod 10)])"

section \<open>Types of the application\<close>

datatype UserRole = user_role | admin_role

datatype UserStage =
    not_started
  | onboarding
  | exploring
  | shortlisting
  | committed
  | applying

datatype UniversityCategory = dream | target | safe

text \<open>
  Identifiers (\<^verbatim>\<open>uuid\<close>) are strings. The time stamps \<^verbatim>\<open>created_at\<close>,
  \<^verbatim>\<open>updated_at\<close> and \<^verbatim>\<open>locked_at\<close> are not fields of the records below: a table
  is the list of its rows in the order of their insertion, which is the order of
  their creation times. A \<^verbatim>\<open>date\<close> is represented by its day number.
\<close>

type_synonym uuid = string

record Profile =
  profile_id :: uuid
  email :: "string option"
  role :: UserRole
  full_name :: "string option"
  current_stage :: UserStage
  onboarding_completed :: bool
  current_education_level :: "string option"
  field_of_study :: "string option"
  gpa :: "int option"
  test_scores :: "(string \<times> int) list"
  target_degree :: "string option"
  preferred_countries :: "string list"
  preferred_fields :: "string list"
  budget_min :: "int option"
  budget_max :: "int option"
  exams_taken :: "string list"
  exams_planned :: "string list"

record University =
  uni_id :: uuid
  name :: string
  country :: string
  city :: "string option"
  ranking :: "int option"
  acceptance_rate :: "int option"
  tuition_fee_min :: "int option"
  tuition_fee_max :: "int option"
  currency :: string
  programs :: "string list"
  description :: "string option"
  website :: "string option"

record ShortlistedUniversity =
  s_id :: uuid
  s_user_id :: uuid
  s_university_id :: uuid
  category :: UniversityCategory
  s_notes :: "string option"
  s_university :: "University option"

record LockedUniversity =
  l_id :: uuid
  l_user_id :: uuid
  l_university_id :: uuid
  l_university :: "University option"

record Task =
  t_id :: uuid
  t_user_id :: uuid
  t_university_id :: "uuid option"
  title :: string
  t_description :: "string option"
  completed :: bool
  due_date :: "nat option"
  priority :: string
  t_university :: "University option"

datatype ChatRole = user_msg | assistant_msg

record ChatMessage =
  c_id :: uuid
  c_user_id :: uuid
  c_role :: ChatRole
  content :: string
  metadata :: "(string \<times> string) list"

record OnboardingData =
  o_full_name :: string
  o_current_education_level :: string
  o_field_of_study :: string
  o_gpa :: int
  o_test_scores :: "(string \<times> int) list"
  o_target_degree :: string
  o_preferred_countries :: "string list"
  o_preferred_fields :: "string list"
  o_budget_min :: int
  o_budget_max :: int
  o_exams_taken :: "string list"
  o_exams_planned :: "string list"

section \<open>The data-access layer\<close>

text \<open>
  The Supabase client is not part of the sources. An awaited query of the client is
  a function from the state \<open>'w\<close> of the remote side to the response
  \<^verbatim>\<open>{ data, error }\<close> and the new state; each data-access function takes the queries it
  awaits as parameters, applied to the values the code passes to the query builder.
  A \<^verbatim>\<open>throw\<close> is the result \<open>Inl\<close>, a \<^verbatim>\<open>return\<close> is \<open>Inr\<close>.
\<close>

datatype PostgrestError = PostgrestError (code: string)

datatype 'a response = Response (data: "'a option") (error: "PostgrestError option")

type_synonym ('a, 'w) query = "'w \<Rightarrow> 'a response \<times> 'w"

type_synonym ('a, 'w) async = "'w \<Rightarrow> (PostgrestError + 'a) \<times> 'w"

text \<open>The columns a profile update of the application writes.\<close>

datatype profile_column =
    Set_full_name string
  | Set_current_education_level string
  | Set_field_of_study string
  | Set_gpa int
  | Set_test_scores "(string \<times> int) list"
  | Set_target_degree string
  | Set_preferred_countries "string list"
  | Set_preferred_fields "string list"
  | Set_budget_min int
  | Set_budget_max int
  | Set_exams_taken "string list"
  | Set_exams_planned "string list"
  | Set_onboarding_completed bool
  | Set_current_stage UserStage

subsection \<open>Profile APIs\<close>

definition getProfile ::
  "(uuid \<Rightarrow> (Profile, 'w) query) \<Rightarrow> uuid \<Rightarrow> (Profile option, 'w) async" where
  "getProfile profiles_select userId w =
     (case profiles_select userId w of
        (r, w') \<Rightarrow> (case error r of Some e \<Rightarrow> (Inl e, w') | None \<Rightarrow> (Inr (data r), w')))"

definition updateProfile ::
  "(uuid \<Rightarrow> 'u \<Rightarrow> (Profile, 'w) query) \<Rightarrow> uuid \<Rightarrow> 'u \<Rightarrow> (Profile option, 'w) async" where
  "updateProfile profiles_update_select userId updates w =
     (case profiles_update_select userId updates w of
        (r, w') \<Rightarrow> (case error r of Some e \<Rightarrow> (Inl e, w') | None \<Rightarrow> (Inr (data r), w')))"

definition onboarding_columns :: "OnboardingData \<Rightarrow> profile_column list" where
  "onboarding_columns d =
     [Set_full_name (o_full_name d),
      Set_current_education_level (o_current_education_level d),
      Set_field_of_study (o_field_of_study d),
      Set_gpa (o_gpa d),
      Set_test_scores (o_test_scores d),
      Set_target_degree (o_target_degree d),
      Set_preferred_countries (o_preferred_countries d),
      Set_preferred_fields (o_preferred_fields d),
      Set_budget_min (o_budget_min d),
      Set_budget_max (o_budget_max d),
      Set_exams_taken (o_exams_taken d),
      Set_exams_planned (o_exams_planned d)]"

definition completeOnboarding ::
  "(uuid \<Rightarrow> profile_column list \<Rightarrow> (Profile, 'w) query) \<Rightarrow> uuid \<Rightarrow> OnboardingData \<Rightarrow>
   (Profile option, 'w) async" where
  "completeOnboarding profiles_update_select userId onboardingData w =
     (case profiles_update_select userId
             (onboarding_columns onboardingData @
              [Set_onboarding_completed True, Set_current_stage exploring]) w of
        (r, w') \<Rightarrow> (case error r of Some e \<Rightarrow> (Inl e, w') | None \<Rightarrow> (Inr (data r), w')))"

definition updateUserStage ::
  "(uuid \<Rightarrow> profile_column list \<Rightarrow> (unit, 'w) query) \<Rightarrow> uuid \<Rightarrow> UserStage \<Rightarrow> (unit, 'w) async" where
  "updateUserStage profiles_update userId stage w =
     (case profiles_update userId [Set_current_stage stage] w of
        (r, w') \<Rightarrow> (case error r of Some e \<Rightarrow> (Inl e, w') | None \<Rightarrow> (Inr (), w')))"

subsection \<open>University APIs\<close>

record Filters =
  countries :: "string list option"
  fprograms :: "string list option"
  budgetMax :: "int option"

text \<open>
  The query \<open>universities_select\<close> is \<^verbatim>\<open>from('universities').select('*').order('ranking')\<close>
  with the optional filters \<^verbatim>\<open>in('country', _)\<close>, \<^verbatim>\<open>overlaps('programs', _)\<close> and
  \<^verbatim>\<open>lte('tuition_fee_min', _)\<close>; a filter the code does not add is \<open>None\<close>.
  \<^verbatim>\<open>filters.budgetMax\<close> is tested for truthiness, so the budget 0 adds no filter.
\<close>

definition getUniversities ::
  "(string list option \<Rightarrow> string list option \<Rightarrow> int option \<Rightarrow> (University list, 'w) query) \<Rightarrow>
   Filters option \<Rightarrow> (University list, 'w) async" where
  "getUniversities universities_select filters w =
     (let in_country =
            (case filters of None \<Rightarrow> None
             | Some f \<Rightarrow> (case countries f of None \<Rightarrow> None
                          | Some cs \<Rightarrow> if length cs > 0 then Some cs else None));
          overlaps_programs =
            (case filters of None \<Rightarrow> None
             | Some f \<Rightarrow> (case fprograms f of None \<Rightarrow> None
                          | Some ps \<Rightarrow> if length ps > 0 then Some ps else None));
          lte_tuition =
            (case filters of None \<Rightarrow> None
             | Some f \<Rightarrow> (case budgetMax f of None \<Rightarrow> None
                          | Some b \<Rightarrow> if b \<noteq> 0 then Some b else None))
      in case universities_select in_country overlaps_programs lte_tuition w of
           (r, w') \<Rightarrow>
             (case error r of Some e \<Rightarrow> (Inl e, w')
              | None \<Rightarrow> (Inr (case data r of Some rows \<Rightarrow> rows | None \<Rightarrow> []), w')))"

definition getUniversity ::
  "(uuid \<Rightarrow> (University, 'w) query) \<Rightarrow> uuid \<Rightarrow> (University option, 'w) async" where
  "getUniversity universities_select_eq ident w =
     (case universities_select_eq ident w of
        (r, w') \<Rightarrow> (case error r of Some e \<Rightarrow> (Inl e, w') | None \<Rightarrow> (Inr (data r), w')))"

definition searchUniversities ::
  "(string \<Rightarrow> (University list, 'w) query) \<Rightarrow> string \<Rightarrow> (University list, 'w) async" where
  "searchUniversities universities_or searchTerm w =
     (case universities_or
             (''name.ilike.%'' @ searchTerm @ ''%,country.ilike.%'' @ searchTerm @
              ''%,city.ilike.%'' @ searchTerm @ ''%'') w of
        (r, w') \<Rightarrow>
          (case error r of Some e \<Rightarrow> (Inl e, w')
           | None \<Rightarrow> (Inr (case data r of Some rows \<Rightarrow> rows | None \<Rightarrow> []), w')))"

subsection \<open>Shortlist APIs\<close>

definition getShortlistedUniversities ::
  "(uuid \<Rightarrow> (ShortlistedUniversity list, 'w) query) \<Rightarrow> uuid \<Rightarrow>
   (ShortlistedUniversity list, 'w) async" where
  "getShortlistedUniversities shortlisted_select userId w =
     (case shortlisted_select userId w of
        (r, w') \<Rightarrow>
          (case error r of Some e \<Rightarrow> (Inl e, w')
           | None \<Rightarrow> (Inr (case data r of Some rows \<Rightarrow> rows | None \<Rightarrow> []), w')))"

text \<open>\<^verbatim>\<open>notes || null\<close>: an absent or empty text is stored as null.\<close>

definition or_null :: "string option \<Rightarrow> string option" where
  "or_null s = (case s of None \<Rightarrow> None | Some t \<Rightarrow> if t = [] then None else Some t)"

definition addToShortlist ::
  "(uuid \<Rightarrow> uuid \<Rightarrow> UniversityCategory \<Rightarrow> string option \<Rightarrow> (unit, 'w) query) \<Rightarrow>
   uuid \<Rightarrow> uuid \<Rightarrow> UniversityCategory \<Rightarrow> string option \<Rightarrow> (unit, 'w) async" where
  "addToShortlist shortlisted_insert userId universityId cat note w =
     (case shortlisted_insert userId universityId cat (or_null note) w of
        (r, w') \<Rightarrow> (case error r of Some e \<Rightarrow> (Inl e, w') | None \<Rightarrow> (Inr (), w')))"

definition removeFromShortlist ::
  "(uuid \<Rightarrow> uuid \<Rightarrow> (unit, 'w) query) \<Rightarrow> uuid \<Rightarrow> uuid \<Rightarrow> (unit, 'w) async" where
  "removeFromShortlist shortlisted_delete userId universityId w =
     (case shortlisted_delete userId universityId w of
        (r, w') \<Rightarrow> (case error r of Some e \<Rightarrow> (Inl e, w') | None \<Rightarrow> (Inr (), w')))"

definition updateShortlistCategory ::
  "(uuid \<Rightarrow> uuid \<Rightarrow> UniversityCategory \<Rightarrow> (unit, 'w) query) \<Rightarrow>
   uuid \<Rightarrow> uuid \<Rightarrow> UniversityCategory \<Rightarrow> (unit, 'w) async" where
  "updateShortlistCategory shortlisted_update_category userId universityId cat w =
     (case shortlisted_update_category userId universityId cat w of
        (r, w') \<Rightarrow> (case error r of Some e \<Rightarrow> (Inl e, w') | None \<Rightarrow> (Inr (), w')))"

subsection \<open>Locked Universities APIs\<close>

definition getLockedUniversities ::
  "(uuid \<Rightarrow> (LockedUniversity list, 'w) query) \<Rightarrow> uuid \<Rightarrow> (LockedUniversity list, 'w) async" where
  "getLockedUniversities locked_select userId w =
     (case locked_select userId w of
        (r, w') \<Rightarrow>
          (case error r of Some e \<Rightarrow> (Inl e, w')
           | None \<Rightarrow> (Inr (case data r of Some rows \<Rightarrow> rows | None \<Rightarrow> []), w')))"

text \<open>
  \<open>lockUniversity\<close> awaits the insert, then \<open>getProfile\<close>, then, for a profile whose
  stage is neither \<open>committed\<close> nor \<open>applying\<close>, \<open>updateUserStage\<close>.
\<close>

definition lockUniversity ::
  "(uuid \<Rightarrow> uuid \<Rightarrow> (unit, 'w) query) \<Rightarrow> (uuid \<Rightarrow> (Profile, 'w) query) \<Rightarrow>
   (uuid \<Rightarrow> profile_column list \<Rightarrow> (unit, 'w) query) \<Rightarrow> uuid \<Rightarrow> uuid \<Rightarrow> (unit, 'w) async" where
  "lockUniversity locked_insert profiles_select profiles_update userId universityId w =
     (case locked_insert userId universityId w of
        (r, w1) \<Rightarrow>
          (case error r of Some e \<Rightarrow> (Inl e, w1)
           | None \<Rightarrow>
               (case getProfile profiles_select userId w1 of
                  (Inl e, w2) \<Rightarrow> (Inl e, w2)
                | (Inr None, w2) \<Rightarrow> (Inr (), w2)
                | (Inr (Some profile), w2) \<Rightarrow>
                    if current_stage profile \<noteq> committed \<and> current_stage profile \<noteq> applying
                    then updateUserStage profiles_update userId committed w2
                    else (Inr (), w2))))"

definition unlockUniversity ::
  "(uuid \<Rightarrow> uuid \<Rightarrow> (unit, 'w) query) \<Rightarrow> uuid \<Rightarrow> uuid \<Rightarrow> (unit, 'w) async" where
  "unlockUniversity locked_delete userId universityId w =
     (case locked_delete userId universityId w of
        (r, w') \<Rightarrow> (case error r of Some e \<Rightarrow> (Inl e, w') | None \<Rightarrow> (Inr (), w')))"

subsection \<open>Tasks APIs\<close>

record NewTask =
  n_title :: string
  n_description :: "string option"
  n_university_id :: "uuid option"
  n_due_date :: "nat option"
  n_priority :: "string option"

record TaskInsert =
  i_user_id :: uuid
  i_title :: string
  i_description :: "string option"
  i_university_id :: "uuid option"
  i_due_date :: "nat option"
  i_priority :: string

definition getTasks ::
  "(uuid \<Rightarrow> (Task list, 'w) query) \<Rightarrow> uuid \<Rightarrow> (Task list, 'w) async" where
  "getTasks tasks_select userId w =
     (case tasks_select userId w of
        (r, w') \<Rightarrow>
          (case error r of Some e \<Rightarrow> (Inl e, w')
           | None \<Rightarrow> (Inr (case data r of Some rows \<Rightarrow> rows | None \<Rightarrow> []), w')))"

definition createTask ::
  "(TaskInsert \<Rightarrow> (Task, 'w) query) \<Rightarrow> uuid \<Rightarrow> NewTask \<Rightarrow> (Task option, 'w) async" where
  "createTask tasks_insert_select userId task w =
     (case tasks_insert_select
             \<lparr>i_user_id = userId,
              i_title = n_title task,
              i_description = or_null (n_description task),
              i_university_id = or_null (n_university_id task),
              i_due_date = n_due_date task,
              i_priority = (case or_null (n_priority task) of None \<Rightarrow> ''medium'' | Some p \<Rightarrow> p)\<rparr> w of
        (r, w') \<Rightarrow> (case error r of Some e \<Rightarrow> (Inl e, w') | None \<Rightarrow> (Inr (data r), w')))"

definition updateTask ::
  "(uuid \<Rightarrow> 'u \<Rightarrow> (unit, 'w) query) \<Rightarrow> uuid \<Rightarrow> 'u \<Rightarrow> (unit, 'w) async" where
  "updateTask tasks_update taskId updates w =
     (case tasks_update taskId updates w of
        (r, w') \<Rightarrow> (case error r of Some e \<Rightarrow> (Inl e, w') | None \<Rightarrow> (Inr (), w')))"

definition toggleTaskCompletion ::
  "(uuid \<Rightarrow> bool \<Rightarrow> (unit, 'w) query) \<Rightarrow> uuid \<Rightarrow> bool \<Rightarrow> (unit, 'w) async" where
  "toggleTaskCompletion tasks_update_completed taskId done' w =
     (case tasks_update_completed taskId done' w of
        (r, w') \<Rightarrow> (case error r of Some e \<Rightarrow> (Inl e, w') | None \<Rightarrow> (Inr (), w')))"

definition deleteTask :: "(uuid \<Rightarrow> (unit, 'w) query) \<Rightarrow> uuid \<Rightarrow> (unit, 'w) async" where
  "deleteTask tasks_delete taskId w =
     (case tasks_delete taskId w of
        (r, w') \<Rightarrow> (case error r of Some e \<Rightarrow> (Inl e, w') | None \<Rightarrow> (Inr (), w')))"

subsection \<open>Chat Messages APIs\<close>

text \<open>The parameter \<^verbatim>\<open>limit = 50\<close>: an omitted argument is \<open>None\<close>.\<close>

definition getChatMessages ::
  "(uuid \<Rightarrow> nat \<Rightarrow> (ChatMessage list, 'w) query) \<Rightarrow> uuid \<Rightarrow> nat option \<Rightarrow>
   (ChatMessage list, 'w) async" where
  "getChatMessages chat_select userId limit w =
     (case chat_select userId (case limit of None \<Rightarrow> 50 | Some n \<Rightarrow> n) w of
        (r, w') \<Rightarrow>
          (case error r of Some e \<Rightarrow> (Inl e, w')
           | None \<Rightarrow> (Inr (case data r of Some rows \<Rightarrow> rows | None \<Rightarrow> []), w')))"

definition createChatMessage ::
  "(uuid \<Rightarrow> ChatRole \<Rightarrow> string \<Rightarrow> (string \<times> string) list \<Rightarrow> (ChatMessage, 'w) query) \<Rightarrow>
   uuid \<Rightarrow> ChatRole \<Rightarrow> string \<Rightarrow> (string \<times> string) list option \<Rightarrow> (ChatMessage option, 'w) async" where
  "createChatMessage chat_insert_select userId r text meta w =
     (case chat_insert_select userId r text (case meta of None \<Rightarrow> [] | Some m \<Rightarrow> m) w of
        (res, w') \<Rightarrow>
          (case error res of Some e \<Rightarrow> (Inl e, w') | None \<Rightarrow> (Inr (data res), w')))"

section \<open>Counting round trips\<close>

text \<open>
  \<open>counted q\<close> is the query \<open>q\<close> on a remote side that also counts the operations it
  has received. \<open>single_round_trip result q\<close> is the behaviour the data-access layer is
  described by: the operation \<open>q\<close> is performed once, its error is thrown when it
  reports one, and otherwise \<open>result\<close> of its data is returned.
\<close>

definition counted :: "('a, 'w) query \<Rightarrow> ('a, 'w \<times> nat) query" where
  "counted q = (\<lambda>(w, n). case q w of (r, w') \<Rightarrow> (r, (w', Suc n)))"

definition rows_or_empty :: "'a list option \<Rightarrow> 'a list" where
  "rows_or_empty d = (case d of Some rows \<Rightarrow> rows | None \<Rightarrow> [])"

definition single_round_trip :: "('a option \<Rightarrow> 'b) \<Rightarrow> ('a, 'w) query \<Rightarrow> ('b, 'w \<times> nat) async" where
  "single_round_trip result q =
     (\<lambda>(w, n). case q w of
        (r, w') \<Rightarrow>
          ((case error r of Some e \<Rightarrow> Inl e | None \<Rightarrow> Inr (result (data r))), (w', Suc n)))"

section \<open>The remote side\<close>

text \<open>
  The tables are those of the migration \<^verbatim>\<open>00001_create_initial_schema.sql\<close>.
  \<open>profiles_table\<close> is keyed by its primary key; the other tables are lists of rows in
  insertion order. Each request is recorded in \<open>log\<close>. \<open>faults\<close> lists, request by
  request, the errors that arise outside the tables (network, session): a request
  whose entry is \<open>Some e\<close> reports \<open>e\<close> and leaves the tables as they are. The requests
  are those of the signed-in user about the rows of that user, which the row-level
  policies of the migration admit.
\<close>

datatype request =
    Select_profiles uuid
  | Update_profiles uuid "profile_column list"
  | Select_universities "string list option" "string list option" "int option"
  | Select_shortlisted uuid
  | Insert_shortlisted uuid uuid UniversityCategory "string option"
  | Delete_shortlisted uuid uuid
  | Update_shortlisted uuid uuid UniversityCategory
  | Select_locked uuid
  | Insert_locked uuid uuid
  | Delete_locked uuid uuid
  | Select_tasks uuid
  | Insert_tasks TaskInsert

record world =
  profiles_table :: "uuid \<rightharpoonup> Profile"
  universities_table :: "University list"
  shortlisted_table :: "ShortlistedUniversity list"
  locked_table :: "LockedUniversity list"
  tasks_table :: "Task list"
  next_uuid :: nat
  faults :: "PostgrestError option list"
  log :: "request list"

definition next_fault :: "world \<Rightarrow> PostgrestError option" where
  "next_fault w = (case faults w of [] \<Rightarrow> None | f # rest \<Rightarrow> f)"

definition sent :: "request \<Rightarrow> world \<Rightarrow> world" where
  "sent rq w = w\<lparr>faults := tl (faults w), log := log w @ [rq]\<rparr>"

definition round_trip :: "request \<Rightarrow> (world \<Rightarrow> 'a response \<times> world) \<Rightarrow> ('a, world) query" where
  "round_trip rq run w =
     (case next_fault w of
        Some e \<Rightarrow> (Response None (Some e), sent rq w)
      | None \<Rightarrow> run (sent rq w))"

text \<open>
  SQLSTATE 23505 is a unique violation, 23503 a foreign-key violation, 22003 a numeric
  value out of range.
\<close>

definition unique_violation :: PostgrestError where
  "unique_violation = PostgrestError ''23505''"

definition foreign_key_violation :: PostgrestError where
  "foreign_key_violation = PostgrestError ''23503''"

definition numeric_value_out_of_range :: PostgrestError where
  "numeric_value_out_of_range = PostgrestError ''22003''"

subsection \<open>Table \<^verbatim>\<open>profiles\<close>\<close>

text \<open>
  The values a column refuses: \<^verbatim>\<open>gpa numeric(3, 2)\<close> holds the decimals from -9.99 to
  9.99, \<^verbatim>\<open>budget_min integer\<close> and \<^verbatim>\<open>budget_max integer\<close> hold the integers of 32 bits.
  The other columns the application writes are texts, arrays of texts, \<^verbatim>\<open>jsonb\<close>, a
  boolean and the enumeration of the stages, which take every value of their type.
  A \<^verbatim>\<open>gpa\<close> is the number of hundredths the column rounds the value to. An update
  with a value its column refuses reports an error and writes nothing.
\<close>

fun out_of_range :: "profile_column \<Rightarrow> bool" where
  "out_of_range (Set_gpa v) = (v \<le> - 1000 \<or> 1000 \<le> v)"
| "out_of_range (Set_budget_min v) = (v < - 2147483648 \<or> 2147483647 < v)"
| "out_of_range (Set_budget_max v) = (v < - 2147483648 \<or> 2147483647 < v)"
| "out_of_range c = False"

fun apply_column :: "profile_column \<Rightarrow> Profile \<Rightarrow> Profile" where
  "apply_column (Set_full_name v) p = p\<lparr>full_name := Some v\<rparr>"
| "apply_column (Set_current_education_level v) p = p\<lparr>current_education_level := Some v\<rparr>"
| "apply_column (Set_field_of_study v) p = p\<lparr>field_of_study := Some v\<rparr>"
| "apply_column (Set_gpa v) p = p\<lparr>gpa := Some v\<rparr>"
| "apply_column (Set_test_scores v) p = p\<lparr>test_scores := v\<rparr>"
| "apply_column (Set_target_degree v) p = p\<lparr>target_degree := Some v\<rparr>"
| "apply_column (Set_preferred_countries v) p = p\<lparr>preferred_countries := v\<rparr>"
| "apply_column (Set_preferred_fields v) p = p\<lparr>preferred_fields := v\<rparr>"
| "apply_column (Set_budget_min v) p = p\<lparr>budget_min := Some v\<rparr>"
| "apply_column (Set_budget_max v) p = p\<lparr>budget_max := Some v\<rparr>"
| "apply_column (Set_exams_taken v) p = p\<lparr>exams_taken := v\<rparr>"
| "apply_column (Set_exams_planned v) p = p\<lparr>exams_planned := v\<rparr>"
| "apply_column (Set_onboarding_completed v) p = p\<lparr>onboarding_completed := v\<rparr>"
| "apply_column (Set_current_stage v) p = p\<lparr>current_stage := v\<rparr>"

fun apply_columns :: "profile_column list \<Rightarrow> Profile \<Rightarrow> Profile" where
  "apply_columns [] p = p"
| "apply_columns (c # cs) p = apply_columns cs (apply_column c p)"

text \<open>\<^verbatim>\<open>from('profiles').select('*').eq('id', userId).maybeSingle()\<close>\<close>

definition profiles_select :: "uuid \<Rightarrow> (Profile, world) query" where
  "profiles_select userId =
     round_trip (Select_profiles userId) (\<lambda>w. (Response (profiles_table w userId) None, w))"

definition update_profile_row :: "uuid \<Rightarrow> profile_column list \<Rightarrow> world \<Rightarrow> world" where
  "update_profile_row userId cols w =
     (case profiles_table w userId of
        None \<Rightarrow> w
      | Some p \<Rightarrow> w\<lparr>profiles_table := (profiles_table w)(userId \<mapsto> apply_columns cols p)\<rparr>)"

text \<open>\<^verbatim>\<open>from('profiles').update(cols).eq('id', userId)\<close>\<close>

definition profiles_update :: "uuid \<Rightarrow> profile_column list \<Rightarrow> (unit, world) query" where
  "profiles_update userId cols =
     round_trip (Update_profiles userId cols)
       (\<lambda>w. if list_ex out_of_range cols
             then (Response None (Some numeric_value_out_of_range), w)
             else (Response None None, update_profile_row userId cols w))"

text \<open>\<^verbatim>\<open>from('profiles').update(cols).eq('id', userId).select().maybeSingle()\<close>\<close>

definition profiles_update_select :: "uuid \<Rightarrow> profile_column list \<Rightarrow> (Profile, world) query" where
  "profiles_update_select userId cols =
     round_trip (Update_profiles userId cols)
       (\<lambda>w. if list_ex out_of_range cols
             then (Response None (Some numeric_value_out_of_range), w)
             else (Response (profiles_table (update_profile_row userId cols w) userId) None,
                   update_profile_row userId cols w))"

subsection \<open>Table \<^verbatim>\<open>universities\<close>\<close>

definition find_university :: "world \<Rightarrow> uuid \<Rightarrow> University option" where
  "find_university w x = find (\<lambda>u. uni_id u = x) (universities_table w)"

definition matches_filters ::
  "string list option \<Rightarrow> string list option \<Rightarrow> int option \<Rightarrow> University \<Rightarrow> bool" where
  "matches_filters in_country overlaps_programs lte_tuition u =
     ((case in_country of None \<Rightarrow> True | Some cs \<Rightarrow> country u \<in> set cs)
      \<and> (case overlaps_programs of None \<Rightarrow> True | Some ps \<Rightarrow> set ps \<inter> set (programs u) \<noteq> {})
      \<and> (case lte_tuition of None \<Rightarrow> True
         | Some b \<Rightarrow> (case tuition_fee_min u of None \<Rightarrow> False | Some t \<Rightarrow> t \<le> b)))"

text \<open>Ascending \<^verbatim>\<open>order('ranking')\<close> puts the rows without a ranking last.\<close>

definition ranking_key :: "University \<Rightarrow> nat \<times> int" where
  "ranking_key u = (case ranking u of None \<Rightarrow> (1, 0) | Some r \<Rightarrow> (0, r))"

definition universities_select ::
  "string list option \<Rightarrow> string list option \<Rightarrow> int option \<Rightarrow> (University list, world) query" where
  "universities_select in_country overlaps_programs lte_tuition =
     round_trip (Select_universities in_country overlaps_programs lte_tuition)
       (\<lambda>w. (Response
                (Some (sort_key ranking_key
                         (filter (matches_filters in_country overlaps_programs lte_tuition)
                            (universities_table w))))
                None, w))"

subsection \<open>Table \<^verbatim>\<open>user_shortlisted_universities\<close>\<close>

text \<open>
  The select embeds the university of each row and orders by \<^verbatim>\<open>created_at\<close>,
  descending. The insert is refused for a pair \<^verbatim>\<open>(user_id, university_id)\<close> the
  table holds (\<^verbatim>\<open>UNIQUE(user_id, university_id)\<close>) and for a user or a university that
  does not exist (\<^verbatim>\<open>REFERENCES\<close>).
\<close>

definition is_shortlisted :: "world \<Rightarrow> uuid \<Rightarrow> uuid \<Rightarrow> bool" where
  "is_shortlisted w userId universityId =
     ((userId, universityId) \<in>
        set (map (\<lambda>s. (s_user_id s, s_university_id s)) (shortlisted_table w)))"

definition fetch_shortlisted :: "world \<Rightarrow> uuid \<Rightarrow> ShortlistedUniversity list" where
  "fetch_shortlisted w userId =
     map (\<lambda>s. s\<lparr>s_university := find_university w (s_university_id s)\<rparr>)
       (rev (filter (\<lambda>s. s_user_id s = userId) (shortlisted_table w)))"

definition shortlisted_select :: "uuid \<Rightarrow> (ShortlistedUniversity list, world) query" where
  "shortlisted_select userId =
     round_trip (Select_shortlisted userId)
       (\<lambda>w. (Response (Some (fetch_shortlisted w userId)) None, w))"

definition shortlisted_insert ::
  "uuid \<Rightarrow> uuid \<Rightarrow> UniversityCategory \<Rightarrow> string option \<Rightarrow> (unit, world) query" where
  "shortlisted_insert userId universityId cat note =
     round_trip (Insert_shortlisted userId universityId cat note)
       (\<lambda>w. if is_shortlisted w userId universityId
             then (Response None (Some unique_violation), w)
             else if profiles_table w userId = None \<or> find_university w universityId = None
             then (Response None (Some foreign_key_violation), w)
             else (Response None None,
                   w\<lparr>shortlisted_table :=
                        shortlisted_table w @
                        [\<lparr>s_id = show_nat (next_uuid w), s_user_id = userId,
                          s_university_id = universityId, category = cat, s_notes = note,
                          s_university = None\<rparr>],
                      next_uuid := Suc (next_uuid w)\<rparr>))"

definition shortlisted_delete :: "uuid \<Rightarrow> uuid \<Rightarrow> (unit, world) query" where
  "shortlisted_delete userId universityId =
     round_trip (Delete_shortlisted userId universityId)
       (\<lambda>w. (Response None None,
              w\<lparr>shortlisted_table :=
                   filter (\<lambda>s. \<not> (s_user_id s = userId \<and> s_university_id s = universityId))
                     (shortlisted_table w)\<rparr>))"

definition shortlisted_update_category :: "uuid \<Rightarrow> uuid \<Rightarrow> UniversityCategory \<Rightarrow> (unit, world) query" where
  "shortlisted_update_category userId universityId cat =
     round_trip (Update_shortlisted userId universityId cat)
       (\<lambda>w. (Response None None,
              w\<lparr>shortlisted_table :=
                   map (\<lambda>s. if s_user_id s = userId \<and> s_university_id s = universityId
                            then s\<lparr>category := cat\<rparr> else s)
                     (shortlisted_table w)\<rparr>))"

subsection \<open>Table \<^verbatim>\<open>user_locked_universities\<close>\<close>

definition is_locked :: "world \<Rightarrow> uuid \<Rightarrow> uuid \<Rightarrow> bool" where
  "is_locked w userId universityId =
     ((userId, universityId) \<in>
        set (map (\<lambda>l. (l_user_id l, l_university_id l)) (locked_table w)))"

definition fetch_locked :: "world \<Rightarrow> uuid \<Rightarrow> LockedUniversity list" where
  "fetch_locked w userId =
     map (\<lambda>l. l\<lparr>l_university := find_university w (l_university_id l)\<rparr>)
       (rev (filter (\<lambda>l. l_user_id l = userId) (locked_table w)))"

definition locked_select :: "uuid \<Rightarrow> (LockedUniversity list, world) query" where
  "locked_select userId =
     round_trip (Select_locked userId) (\<lambda>w. (Response (Some (fetch_locked w userId)) None, w))"

definition locked_insert :: "uuid \<Rightarrow> uuid \<Rightarrow> (unit, world) query" where
  "locked_insert userId universityId =
     round_trip (Insert_locked userId universityId)
       (\<lambda>w. if is_locked w userId universityId
             then (Response None (Some unique_violation), w)
             else if profiles_table w userId = None \<or> find_university w universityId = None
             then (Response None (Some foreign_key_violation), w)
             else (Response None None,
                   w\<lparr>locked_table :=
                        locked_table w @
                        [\<lparr>l_id = show_nat (next_uuid w), l_user_id = userId,
                          l_university_id = universityId, l_university = None\<rparr>],
                      next_uuid := Suc (next_uuid w)\<rparr>))"

definition locked_delete :: "uuid \<Rightarrow> uuid \<Rightarrow> (unit, world) query" where
  "locked_delete userId universityId =
     round_trip (Delete_locked userId universityId)
       (\<lambda>w. (Response None None,
              w\<lparr>locked_table :=
                   filter (\<lambda>l. \<not> (l_user_id l = userId \<and> l_university_id l = universityId))
                     (locked_table w)\<rparr>))"

subsection \<open>Table \<^verbatim>\<open>tasks\<close>\<close>

text \<open>
  The select orders by \<^verbatim>\<open>due_date\<close> ascending with nulls last, then by
  \<^verbatim>\<open>created_at\<close> descending.
\<close>

definition due_key :: "Task \<Rightarrow> nat \<times> nat" where
  "due_key t = (case due_date t of None \<Rightarrow> (1, 0) | Some d \<Rightarrow> (0, d))"

definition fetch_tasks :: "world \<Rightarrow> uuid \<Rightarrow> Task list" where
  "fetch_tasks w userId =
     map (\<lambda>t. t\<lparr>t_university := (case t_university_id t of None \<Rightarrow> None
                                   | Some x \<Rightarrow> find_university w x)\<rparr>)
       (sort_key due_key (rev (filter (\<lambda>t. t_user_id t = userId) (tasks_table w))))"

definition tasks_select :: "uuid \<Rightarrow> (Task list, world) query" where
  "tasks_select userId =
     round_trip (Select_tasks userId) (\<lambda>w. (Response (Some (fetch_tasks w userId)) None, w))"

definition new_task_row :: "world \<Rightarrow> TaskInsert \<Rightarrow> Task" where
  "new_task_row w ins =
     \<lparr>t_id = show_nat (next_uuid w), t_user_id = i_user_id ins,
      t_university_id = i_university_id ins, title = i_title ins,
      t_description = i_description ins, completed = False, due_date = i_due_date ins,
      priority = i_priority ins, t_university = None\<rparr>"

definition tasks_insert_select :: "TaskInsert \<Rightarrow> (Task, world) query" where
  "tasks_insert_select ins =
     round_trip (Insert_tasks ins)
       (\<lambda>w. if profiles_table w (i_user_id ins) = None
                \<or> (case i_university_id ins of None \<Rightarrow> False
                    | Some x \<Rightarrow> find_university w x = None)
             then (Response None (Some foreign_key_violation), w)
             else (Response (Some (new_task_row w ins)) None,
                   w\<lparr>tasks_table := tasks_table w @ [new_task_row w ins],
                     next_uuid := Suc (next_uuid w)\<rparr>))"

section \<open>The counsellor page\<close>

text \<open>
  \<open>generateAIResponse\<close> of \<^verbatim>\<open>CounsellorPage.tsx\<close>. The text of a reply is the sequence of
  the UTF-8 bytes of the JavaScript string.
\<close>

definition no_profile_text :: string where
  "no_profile_text =
     ''I'm having trouble accessing your profile. Please try again.''"

definition broaden_text :: string where
  "broaden_text =
     ''I couldn't find universities matching your exact criteria. '' @
     ''Let me broaden the search. Could you tell me more about what's '' @
     ''most important to you - location, program, or budget?''"

text \<open>\<^verbatim>\<open>profile.gpa || 'N/A'\<close>, \<^verbatim>\<open>profile.budget_min || 0\<close>, \<^verbatim>\<open>profile.field_of_study || 'background'\<close>\<close>

definition gpa_or_NA :: "Profile \<Rightarrow> string" where
  "gpa_or_NA profile =
     (case gpa profile of None \<Rightarrow> ''N/A'' | Some h \<Rightarrow> if h = 0 then ''N/A'' else show_hundredths h)"

definition or_zero :: "int option \<Rightarrow> int" where
  "or_zero v = (case v of None \<Rightarrow> 0 | Some n \<Rightarrow> n)"

definition field_or_background :: "Profile \<Rightarrow> string" where
  "field_or_background profile =
     (case field_of_study profile of None \<Rightarrow> ''background''
      | Some f \<Rightarrow> if f = [] then ''background'' else f)"

text \<open>\<^verbatim>\<open>${uni.acceptance_rate}\<close> prints \<^verbatim>\<open>null\<close> for a missing rate.\<close>

definition show_rate :: "University \<Rightarrow> string" where
  "show_rate uni = (case acceptance_rate uni of None \<Rightarrow> ''null'' | Some h \<Rightarrow> show_hundredths h)"

definition uni_line_head :: "University \<Rightarrow> string" where
  "uni_line_head uni =
     ''- **'' @ name uni @ ''** ('' @ country uni @ ''): Acceptance rate '' @ show_rate uni"

definition dream_line :: "Profile \<Rightarrow> University \<Rightarrow> string" where
  "dream_line profile uni =
     uni_line_head uni @ ''%. This is a reach school but your '' @ field_or_background profile @
     '' makes you competitive.\<newline>''"

definition target_line :: "University \<Rightarrow> string" where
  "target_line uni =
     uni_line_head uni @ ''%. Your profile aligns well with their requirements.\<newline>''"

definition safe_line :: "University \<Rightarrow> string" where
  "safe_line uni = uni_line_head uni @ ''%. Strong likelihood of admission.\<newline>''"

text \<open>
  The three groups \<^verbatim>\<open>universities.slice(0, 2)\<close>, \<^verbatim>\<open>universities.slice(2, 5)\<close> and
  \<^verbatim>\<open>universities.slice(5, 8)\<close>.
\<close>

definition dream_schools :: "University list \<Rightarrow> University list" where
  "dream_schools universities = slice universities 0 2"

definition target_schools :: "University list \<Rightarrow> University list" where
  "target_schools universities = slice universities 2 5"

definition safe_schools :: "University list \<Rightarrow> University list" where
  "safe_schools universities = slice universities 5 8"

definition dream_heading :: string where
  "dream_heading =
     [CHR 0xF0, CHR 0x9F, CHR 0x8C, CHR 0x9F] @
     '' **Dream Schools** (Reach):\<newline>''"

definition target_heading :: string where
  "target_heading =
     ''\<newline>'' @
     [CHR 0xF0, CHR 0x9F, CHR 0x8E, CHR 0xAF] @
     '' **Target Schools** (Match):\<newline>''"

definition safe_heading :: string where
  "safe_heading =
     ''\<newline>'' @
     [CHR 0xE2, CHR 0x9C, CHR 0x85] @
     '' **Safe Schools** (Likely):\<newline>''"

definition recommendations_intro :: "Profile \<Rightarrow> string" where
  "recommendations_intro profile =
     ''Based on your profile (GPA: '' @ gpa_or_NA profile @ '', Budget: $'' @
     show_int (or_zero (budget_min profile)) @ ''-'' @ show_int (or_zero (budget_max profile)) @
     ''), here are my recommendations:\<newline>\<newline>''"

definition recommendations_outro :: string where
  "recommendations_outro =
     ''\<newline>Would you like me to add any of these to your shortlist?''"

definition recommendations_text :: "Profile \<Rightarrow> University list \<Rightarrow> string" where
  "recommendations_text profile universities =
     recommendations_intro profile @
     dream_heading @ concat (map (dream_line profile) (dream_schools universities)) @
     target_heading @ concat (map target_line (target_schools universities)) @
     safe_heading @ concat (map safe_line (safe_schools universities)) @
     recommendations_outro"

text \<open>\<^verbatim>\<open>profile.gpa && profile.gpa >= 3.5\<close>\<close>

definition gpa_strong :: "Profile \<Rightarrow> bool" where
  "gpa_strong profile = (case gpa profile of None \<Rightarrow> False | Some h \<Rightarrow> h \<noteq> 0 \<and> h \<ge> 350)"

text \<open>\<^verbatim>\<open>!profile.gpa || profile.gpa < 3.5\<close>\<close>

definition gpa_weak :: "Profile \<Rightarrow> bool" where
  "gpa_weak profile = (case gpa profile of None \<Rightarrow> True | Some h \<Rightarrow> h = 0 \<or> h < 350)"

definition profile_analysis_text :: "Profile \<Rightarrow> string" where
  "profile_analysis_text profile =
     ''Let me analyze your profile:\<newline>\<newline>'' @
     ''**Strengths:**\<newline>'' @
     (if gpa_strong profile
      then ''- Strong GPA of '' @ show_hundredths (the (gpa profile)) @
           '' - this is competitive for most universities\<newline>''
      else []) @
     (if length (exams_taken profile) > 0
      then ''- You've completed '' @ join (exams_taken profile) '', '' @
           '' - great preparation!\<newline>''
      else []) @
     ''- Clear focus on '' @ join (preferred_fields profile) '', '' @ ''\<newline>'' @
     ''\<newline>**Areas to Strengthen:**\<newline>'' @
     (if length (exams_planned profile) > 0
      then ''- Complete your planned exams: '' @ join (exams_planned profile) '', '' @ ''\<newline>''
      else []) @
     (if gpa_weak profile
      then ''- Consider ways to improve your academic standing\<newline>''
      else []) @
     ''\<newline>Your profile is '' @ (if gpa_strong profile then ''strong'' else ''developing'') @
     ''. Would you like specific advice on improving your application?''"

definition budget_text :: "Profile \<Rightarrow> string" where
  "budget_text profile =
     ''Based on your budget of $'' @ show_int (or_zero (budget_min profile)) @ ''-'' @
     show_int (or_zero (budget_max profile)) @
     '' per year, I can help you find affordable options. Countries '' @
     ''like Germany and some European nations offer low or no tuition '' @
     ''fees. Would you like me to show you universities within your '' @
     ''budget range?''"

definition timeline_text :: string where
  "timeline_text =
     ''Here's a typical application timeline:\<newline>\<newline>- '' @
     ''**Now**: Research universities and prepare documents\<newline>- '' @
     ''**3-6 months before**: Complete standardized tests\<newline>- '' @
     ''**2-4 months before**: Write essays and get recommendations\<newline>- '' @
     ''**1-2 months before**: Submit applications\<newline>\<newline>Most '' @
     ''universities have deadlines between November and February. '' @
     ''Would you like me to create a personalized task list?''"

definition next_exploring_text :: string where
  "next_exploring_text =
     ''Your next step is to explore universities! I recommend:\<newline>1. '' @
     ''Review my university recommendations\<newline>2. Add 6-10 '' @
     ''universities to your shortlist (mix of Dream, Target, and '' @
     ''Safe)\<newline>3. Research each university's specific requirements\<newline>\<newline>'' @
     ''Would you like me to recommend some universities now?''"

definition next_shortlisting_text :: string where
  "next_shortlisting_text =
     ''You're building your shortlist! Make sure to:\<newline>1. '' @
     ''Include a balanced mix of Dream, Target, and Safe schools\<newline>2. '' @
     ''Consider location, program quality, and budget\<newline>3. '' @
     ''Lock at least one university when you're ready to commit\<newline>\<newline>Need '' @
     ''help deciding which universities to add?''"

definition next_committed_text :: string where
  "next_committed_text =
     ''Great! You've locked your choices. Now:\<newline>1. Review '' @
     ''application requirements for each university\<newline>2. Start '' @
     ''working on your tasks\<newline>3. Prepare documents like transcripts '' @
     ''and recommendations\<newline>\<newline>Shall I create some '' @
     ''tasks to get you started?''"

definition default_text :: string where
  "default_text =
     ''I'm here to help you with your university applications! I '' @
     ''can:\<newline>\<newline>- Recommend universities based on '' @
     ''your profile\<newline>- Analyze your strengths and weaknesses\<newline>- '' @
     ''Explain admission requirements\<newline>- Help you build a '' @
     ''balanced shortlist\<newline>- Create application tasks and '' @
     ''timelines\<newline>\<newline>What would you like to know?''"

text \<open>
  The filters of the recommendation request:
  \<^verbatim>\<open>profile.preferred_countries.length > 0 ? profile.preferred_countries : undefined\<close>,
  likewise for the fields, and \<^verbatim>\<open>profile.budget_max || undefined\<close>.
\<close>

definition recommendation_filters :: "Profile \<Rightarrow> Filters" where
  "recommendation_filters profile =
     \<lparr>countries = (if length (preferred_countries profile) > 0
                     then Some (preferred_countries profile) else None),
      fprograms = (if length (preferred_fields profile) > 0
                     then Some (preferred_fields profile) else None),
      budgetMax = (case budget_max profile of None \<Rightarrow> None
                   | Some b \<Rightarrow> if b = 0 then None else Some b)\<rparr>"

definition generateAIResponse ::
  "(string \<Rightarrow> string) \<Rightarrow> (uuid \<Rightarrow> (Profile, 'w) query) \<Rightarrow>
   (string list option \<Rightarrow> string list option \<Rightarrow> int option \<Rightarrow> (University list, 'w) query) \<Rightarrow>
   string \<Rightarrow> uuid \<Rightarrow> (string, 'w) async" where
  "generateAIResponse toLowerCase from_profiles from_universities userMessage userId w =
     (let lowerMessage = toLowerCase userMessage
      in case getProfile from_profiles userId w of
           (Inl e, w1) \<Rightarrow> (Inl e, w1)
         | (Inr None, w1) \<Rightarrow> (Inr no_profile_text, w1)
         | (Inr (Some profile), w1) \<Rightarrow>
             if str_includes lowerMessage ''recommend'' \<or> str_includes lowerMessage ''suggest''
                \<or> str_includes lowerMessage ''university''
                \<or> str_includes lowerMessage ''universities''
             then (case getUniversities from_universities
                          (Some (recommendation_filters profile)) w1 of
                     (Inl e, w2) \<Rightarrow> (Inl e, w2)
                   | (Inr universities, w2) \<Rightarrow>
                       if length universities = 0 then (Inr broaden_text, w2)
                       else (Inr (recommendations_text profile universities), w2))
             else if str_includes lowerMessage ''profile'' \<or> str_includes lowerMessage ''chances''
                     \<or> str_includes lowerMessage ''strength''
             then (Inr (profile_analysis_text profile), w1)
             else if str_includes lowerMessage ''budget'' \<or> str_includes lowerMessage ''cost''
                     \<or> str_includes lowerMessage ''afford''
                     \<or> str_includes lowerMessage ''expensive''
             then (Inr (budget_text profile), w1)
             else if str_includes lowerMessage ''timeline'' \<or> str_includes lowerMessage ''when''
                     \<or> str_includes lowerMessage ''deadline''
             then (Inr timeline_text, w1)
             else if str_includes lowerMessage ''next''
                     \<or> str_includes lowerMessage ''what should''
                     \<or> str_includes lowerMessage ''help''
             then (let stage = current_stage profile
                   in if stage = exploring then (Inr next_exploring_text, w1)
                      else if stage = shortlisting then (Inr next_shortlisting_text, w1)
                      else if stage = committed then (Inr next_committed_text, w1)
                      else (Inr default_text, w1))
             else (Inr default_text, w1))"

section \<open>The pages\<close>

text \<open>
  \<open>Auth\<close> is what a page reads from \<^verbatim>\<open>useAuth()\<close> when it renders: the signed-in user
  and the profile the context holds. A handler reads the \<open>profile\<close> of the render
  that created it. \<^verbatim>\<open>AuthContext\<close> is not part of the sources; its \<^verbatim>\<open>refreshProfile\<close>
  is modelled where its outcome decides what a handler does next, as a parameter that
  reads the remote side and either fails or not. Toasts, console output, dialogs and
  navigation are not part of the state.
\<close>

record Auth =
  auth_user :: "uuid option"
  auth_profile :: "Profile option"

subsection \<open>\<^verbatim>\<open>OnboardingPage.tsx\<close>\<close>

definition handleSubmit :: "Auth \<Rightarrow> OnboardingData \<Rightarrow> world \<Rightarrow> world" where
  "handleSubmit auth formData w =
     (case auth_user auth of
        None \<Rightarrow> w
      | Some userId \<Rightarrow> snd (completeOnboarding profiles_update_select userId formData w))"

subsection \<open>\<^verbatim>\<open>UniversitiesPage.tsx\<close>\<close>

record UniversitiesPage =
  st_universities :: "University list"
  shortlisted :: "ShortlistedUniversity list"
  locked :: "LockedUniversity list"
  loading :: bool

text \<open>
  \<^verbatim>\<open>Promise.all\<close> sends the three requests and rejects when one of them does; the
  state is set only when all three are fulfilled.
\<close>

definition Universities_loadData :: "Auth \<Rightarrow> UniversitiesPage \<Rightarrow> world \<Rightarrow> UniversitiesPage \<times> world" where
  "Universities_loadData auth page w =
     (case auth_user auth of
        None \<Rightarrow> (page, w)
      | Some userId \<Rightarrow>
          (case getUniversities universities_select None w of
             (r1, w1) \<Rightarrow>
               (case getShortlistedUniversities shortlisted_select userId w1 of
                  (r2, w2) \<Rightarrow>
                    (case getLockedUniversities locked_select userId w2 of
                       (r3, w3) \<Rightarrow>
                         (case (r1, r2, r3) of
                            (Inr unis, Inr short, Inr lock) \<Rightarrow>
                              (page\<lparr>st_universities := unis, shortlisted := short,
                                    locked := lock, loading := False\<rparr>, w3)
                          | _ \<Rightarrow> (page\<lparr>loading := False\<rparr>, w3))))))"

definition isShortlisted :: "UniversitiesPage \<Rightarrow> uuid \<Rightarrow> bool" where
  "isShortlisted page universityId =
     list_ex (\<lambda>s. s_university_id s = universityId) (shortlisted page)"

definition isLocked :: "UniversitiesPage \<Rightarrow> uuid \<Rightarrow> bool" where
  "isLocked page universityId =
     list_ex (\<lambda>l. l_university_id l = universityId) (locked page)"

text \<open>
  The list the page shows. \<^verbatim>\<open>uni.city?.toLowerCase().includes(_)\<close> is
  \<^verbatim>\<open>undefined\<close>, which counts as false, for a university without a city.
\<close>

definition filteredUniversities ::
  "(string \<Rightarrow> string) \<Rightarrow> University list \<Rightarrow> string \<Rightarrow> string \<Rightarrow> University list" where
  "filteredUniversities toLowerCase universities searchTerm countryFilter =
     filter
       (\<lambda>uni.
          let matchesSearch =
                (str_includes (toLowerCase (name uni)) (toLowerCase searchTerm)
                 \<or> str_includes (toLowerCase (country uni)) (toLowerCase searchTerm)
                 \<or> (case city uni of None \<Rightarrow> False
                     | Some c \<Rightarrow> str_includes (toLowerCase c) (toLowerCase searchTerm)));
              matchesCountry = (countryFilter = ''all'' \<or> country uni = countryFilter)
          in matchesSearch \<and> matchesCountry)
       universities"

definition handleAddToShortlist ::
  "Auth \<Rightarrow> University \<Rightarrow> UniversityCategory \<Rightarrow> UniversitiesPage \<Rightarrow> world \<Rightarrow>
   UniversitiesPage \<times> world" where
  "handleAddToShortlist auth university cat page w =
     (case auth_user auth of
        None \<Rightarrow> (page, w)
      | Some userId \<Rightarrow>
          (case addToShortlist shortlisted_insert userId (uni_id university) cat None w of
             (Inl e, w1) \<Rightarrow> (page, w1)
           | (Inr u, w1) \<Rightarrow>
               (case Universities_loadData auth page w1 of
                  (page1, w2) \<Rightarrow>
                    if (case auth_profile auth of None \<Rightarrow> False
                        | Some p \<Rightarrow> current_stage p = exploring)
                    then (page1, snd (updateUserStage profiles_update userId shortlisting w2))
                    else (page1, w2))))"

definition handleRemoveFromShortlist ::
  "Auth \<Rightarrow> uuid \<Rightarrow> UniversitiesPage \<Rightarrow> world \<Rightarrow> UniversitiesPage \<times> world" where
  "handleRemoveFromShortlist auth universityId page w =
     (case auth_user auth of
        None \<Rightarrow> (page, w)
      | Some userId \<Rightarrow>
          (case removeFromShortlist shortlisted_delete userId universityId w of
             (Inl e, w1) \<Rightarrow> (page, w1)
           | (Inr u, w1) \<Rightarrow> Universities_loadData auth page w1))"

definition handleLock ::
  "Auth \<Rightarrow> uuid \<Rightarrow> UniversitiesPage \<Rightarrow> world \<Rightarrow> UniversitiesPage \<times> world" where
  "handleLock auth universityId page w =
     (case auth_user auth of
        None \<Rightarrow> (page, w)
      | Some userId \<Rightarrow>
          (case lockUniversity locked_insert profiles_select profiles_update
                  userId universityId w of
             (Inl e, w1) \<Rightarrow> (page, w1)
           | (Inr u, w1) \<Rightarrow> Universities_loadData auth page w1))"

text \<open>\<open>dialogUniversityId\<close> is \<^verbatim>\<open>unlockDialog.universityId\<close>.\<close>

definition handleUnlock ::
  "Auth \<Rightarrow> uuid option \<Rightarrow> UniversitiesPage \<Rightarrow> world \<Rightarrow> UniversitiesPage \<times> world" where
  "handleUnlock auth dialogUniversityId page w =
     (case auth_user auth of
        None \<Rightarrow> (page, w)
      | Some userId \<Rightarrow>
          (case or_null dialogUniversityId of
             None \<Rightarrow> (page, w)
           | Some universityId \<Rightarrow>
               (case unlockUniversity locked_delete userId universityId w of
                  (Inl e, w1) \<Rightarrow> (page, w1)
                | (Inr u, w1) \<Rightarrow> Universities_loadData auth page w1)))"

text \<open>
  The cards of the page. While \<open>loading\<close> is set the page renders a spinner and
  nothing else. Otherwise the tab ``All Universities'' holds a \<^verbatim>\<open>UniversityCard\<close> for each
  university of \<open>filteredUniversities\<close>, which for the empty search term and the country
  filter \<^verbatim>\<open>all\<close> are the universities the page has fetched, and the tabs ``Shortlisted''
  and ``Locked'' hold one for the university embedded in each of their rows.
\<close>

definition cards :: "UniversitiesPage \<Rightarrow> University list" where
  "cards page =
     (if loading page then []
      else st_universities page @ List.map_filter s_university (shortlisted page) @
           List.map_filter l_university (locked page))"

text \<open>
  The buttons of a \<^verbatim>\<open>UniversityCard\<close>: ``Add to Shortlist'' is rendered for a university
  that is neither shortlisted nor locked in the state of the page, ``Remove'' and
  ``Lock Choice'' for one that is shortlisted and not locked, ``Unlock'' for one that is
  locked. No button is disabled while a handler runs. \<open>Add\<close> stands for the click on
  ``Add to Shortlist'' and the choice of the category in the dialog it opens, \<open>Unlock\<close>
  for the click on ``Unlock'' and the confirmation in its dialog. \<open>Reload\<close> is the effect
  that runs \<open>Universities_loadData\<close> when the page mounts and when the signed-in user
  changes.
\<close>

datatype click =
    Add University UniversityCategory
  | Remove uuid
  | Lock uuid
  | Unlock uuid
  | Reload

fun offered :: "UniversitiesPage \<Rightarrow> click \<Rightarrow> bool" where
  "offered page (Add university cat) =
     (university \<in> set (cards page)
      \<and> \<not> isShortlisted page (uni_id university) \<and> \<not> isLocked page (uni_id university))"
| "offered page (Remove universityId) =
     (universityId \<in> set (map uni_id (cards page))
      \<and> isShortlisted page universityId \<and> \<not> isLocked page universityId)"
| "offered page (Lock universityId) =
     (universityId \<in> set (map uni_id (cards page))
      \<and> isShortlisted page universityId \<and> \<not> isLocked page universityId)"
| "offered page (Unlock universityId) =
     (universityId \<in> set (map uni_id (cards page)) \<and> isLocked page universityId)"
| "offered page Reload = True"

fun perform :: "Auth \<Rightarrow> click \<Rightarrow> UniversitiesPage \<Rightarrow> world \<Rightarrow> UniversitiesPage \<times> world" where
  "perform auth (Add university cat) page w = handleAddToShortlist auth university cat page w"
| "perform auth (Remove universityId) page w = handleRemoveFromShortlist auth universityId page w"
| "perform auth (Lock universityId) page w = handleLock auth universityId page w"
| "perform auth (Unlock universityId) page w = handleUnlock auth (Some universityId) page w"
| "perform auth Reload page w = Universities_loadData auth page w"

text \<open>
  A session of one user on the page, from the state \<open>(page, w)\<close> of the page and of the
  remote side. Each step is a click, made with the profile the context holds at that
  time, on a button of the page as the user sees it: \<open>After_handler\<close> when the handler
  of the previous click has finished and the page shows its result, \<open>During_handler\<close>
  when that handler is still running and the page still shows \<open>seen\<close>, what the
  previous click was made on. The remote side serves the requests of a handler after
  those of the handlers that were started before it, which is the order in which they
  arrive when the click falls between the last response to the earlier handler
  and the render of its result. The result is \<open>None\<close> when a click is on a button the
  page does not show.
\<close>

datatype moment = After_handler | During_handler

fun session ::
  "uuid \<Rightarrow> (moment \<times> Profile option \<times> click) list \<Rightarrow> UniversitiesPage \<Rightarrow>
   UniversitiesPage \<times> world \<Rightarrow> (UniversitiesPage \<times> world) option" where
  "session userId [] seen s = Some s"
| "session userId ((m, p, c) # rest) seen (page, w) =
     (let render = (case m of After_handler \<Rightarrow> page | During_handler \<Rightarrow> seen)
      in if offered render c
         then session userId rest render
                (perform \<lparr>auth_user = Some userId, auth_profile = p\<rparr> c page w)
         else None)"

subsection \<open>\<^verbatim>\<open>ApplicationPage.tsx\<close>\<close>

record ApplicationPage =
  st_tasks :: "Task list"
  lockedUniversities :: "LockedUniversity list"
  a_loading :: bool

definition defaultTasks :: "NewTask list" where
  "defaultTasks =
     [\<lparr>n_title = ''Request Academic Transcripts'',
       n_description = Some ''Contact your institution to request official transcripts'',
       n_university_id = None, n_due_date = None, n_priority = Some ''high''\<rparr>,
      \<lparr>n_title = ''Prepare Statement of Purpose'',
       n_description = Some ''Write a compelling SOP explaining your goals and motivation'',
       n_university_id = None, n_due_date = None, n_priority = Some ''high''\<rparr>,
      \<lparr>n_title = ''Request Letters of Recommendation'',
       n_description = Some ''Ask professors or employers for recommendation letters'',
       n_university_id = None, n_due_date = None, n_priority = Some ''high''\<rparr>,
      \<lparr>n_title = ''Prepare Financial Documents'',
       n_description = Some ''Gather bank statements and financial proof documents'',
       n_university_id = None, n_due_date = None, n_priority = Some ''medium''\<rparr>,
      \<lparr>n_title = ''Complete Application Forms'',
       n_description = Some ''Fill out online application forms for each university'',
       n_university_id = None, n_due_date = None, n_priority = Some ''medium''\<rparr>]"

text \<open>
  The loop \<^verbatim>\<open>for (const task of defaultTasks) await createTask(userId, {...task,
  university_id: locked[0].university_id})\<close>: it stops at the first task whose creation
  throws.
\<close>

fun createDefaultTasks :: "uuid \<Rightarrow> uuid \<Rightarrow> NewTask list \<Rightarrow> (unit, world) async" where
  "createDefaultTasks userId universityId [] w = (Inr (), w)"
| "createDefaultTasks userId universityId (task # rest) w =
     (case createTask tasks_insert_select userId (task\<lparr>n_university_id := Some universityId\<rparr>) w of
        (Inl e, w') \<Rightarrow> (Inl e, w')
      | (Inr t, w') \<Rightarrow> createDefaultTasks userId universityId rest w')"

text \<open>
  The stage update of \<open>Application_loadData\<close>:
  \<^verbatim>\<open>if (locked.length > 0 && profile?.current_stage === 'committed')\<close>.
\<close>

definition update_stage_to_applying ::
  "(world \<Rightarrow> PostgrestError option) \<Rightarrow> Auth \<Rightarrow> uuid \<Rightarrow> LockedUniversity list \<Rightarrow>
   (unit, world) async" where
  "update_stage_to_applying refreshProfile auth userId lockedList w =
     (if length lockedList > 0
         \<and> (case auth_profile auth of None \<Rightarrow> False | Some p \<Rightarrow> current_stage p = committed)
      then (case updateUserStage profiles_update userId applying w of
              (Inl e, w') \<Rightarrow> (Inl e, w')
            | (Inr u, w') \<Rightarrow>
                (case refreshProfile w' of Some e \<Rightarrow> (Inl e, w') | None \<Rightarrow> (Inr (), w')))
      else (Inr (), w))"

definition user_has_tasks :: "world \<Rightarrow> uuid \<Rightarrow> bool" where
  "user_has_tasks w userId = list_ex (\<lambda>t. t_user_id t = userId) (tasks_table w)"


lemma createTask_tasks:
  "createTask tasks_insert_select userId task w = (r, w') \<Longrightarrow>
   (case r of Inl e \<Rightarrow> tasks_table w' = tasks_table w
    | Inr t \<Rightarrow> (\<exists>row. t_user_id row = userId \<and> tasks_table w' = tasks_table w @ [row]))"
  by (auto simp: createTask_def tasks_insert_select_def round_trip_def sent_def new_task_row_def
      split: option.splits if_splits)

lemma createDefaultTasks_mono:
  "createDefaultTasks userId x ts w = (r, w') \<Longrightarrow> user_has_tasks w u \<Longrightarrow> user_has_tasks w' u"
proof (induction ts arbitrary: w)
  case Nil
  then show ?case by simp
next
  case (Cons t ts)
  obtain r1 w1 where c: "createTask tasks_insert_select userId (t\<lparr>n_university_id := Some x\<rparr>) w = (r1, w1)"
    by (cases "createTask tasks_insert_select userId (t\<lparr>n_university_id := Some x\<rparr>) w")
  from createTask_tasks[OF c] Cons.prems(2) have h: "user_has_tasks w1 u"
    by (cases r1) (auto simp: user_has_tasks_def list_ex_iff)
  show ?case
  proof (cases r1)
    case (Inl e)
    with Cons.prems(1) c h show ?thesis by simp
  next
    case (Inr t')
    with Cons.prems(1) c have "createDefaultTasks userId x ts w1 = (r, w')" by simp
    from Cons.IH[OF this h] show ?thesis .
  qed
qed

lemma createDefaultTasks_has_tasks:
  assumes "createDefaultTasks userId x (t # ts) w = (Inr u, w')"
  shows "user_has_tasks w' userId"
proof -
  obtain r1 w1 where c: "createTask tasks_insert_select userId (t\<lparr>n_university_id := Some x\<rparr>) w = (r1, w1)"
    by (cases "createTask tasks_insert_select userId (t\<lparr>n_university_id := Some x\<rparr>) w")
  show ?thesis
  proof (cases r1)
    case (Inl e)
    with assms c show ?thesis by simp
  next
    case (Inr t')
    with createTask_tasks[OF c] have h: "user_has_tasks w1 userId"
      by (auto simp: user_has_tasks_def list_ex_iff)
    from Inr assms c have "createDefaultTasks userId x ts w1 = (Inr u, w')" by simp
    from createDefaultTasks_mono[OF this h] show ?thesis .
  qed
qed

lemma createDefaultTasks_default:
  "(Inr u, w') = createDefaultTasks userId x defaultTasks w \<Longrightarrow> user_has_tasks w' userId"
  unfolding defaultTasks_def by (rule createDefaultTasks_has_tasks [OF sym])

lemma fetch_tasks_empty: "fetch_tasks w u = [] \<Longrightarrow> \<not> user_has_tasks w u"
proof -
  assume "fetch_tasks w u = []"
  then have "length (sort_key due_key (rev (filter (\<lambda>t. t_user_id t = u) (tasks_table w)))) = 0"
    by (simp add: fetch_tasks_def)
  then have "filter (\<lambda>t. t_user_id t = u) (tasks_table w) = []"
    by simp
  then show ?thesis
    by (simp add: user_has_tasks_def list_ex_iff filter_empty_conv)
qed

lemma getTasks_empty:
  "getTasks tasks_select u w = (Inr [], w1) \<Longrightarrow> \<not> user_has_tasks w u"
proof -
  assume a: "getTasks tasks_select u w = (Inr [], w1)"
  then have "fetch_tasks (sent (Select_tasks u) w) u = []"
    by (auto simp: getTasks_def tasks_select_def round_trip_def split: option.splits)
  from fetch_tasks_empty[OF this] show ?thesis
    by (simp add: user_has_tasks_def sent_def)
qed

text \<open>
  \<open>loadData\<close> and \<open>generateDefaultTasks\<close> of the page call each other: a load that finds
  no task and a locked university creates the default tasks, and the creation, when
  every task was created, loads again. \<^verbatim>\<open>locked[0]\<close> of an empty array raises inside the
  \<^verbatim>\<open>try\<close> of \<open>generateDefaultTasks\<close>. The lemmas above show that the second load finds
  tasks, which is why the recursion ends.
\<close>

function Application_loadData ::
    "(world \<Rightarrow> PostgrestError option) \<Rightarrow> Auth \<Rightarrow> ApplicationPage \<Rightarrow> world \<Rightarrow>
     ApplicationPage \<times> world"
  and generateDefaultTasks ::
    "(world \<Rightarrow> PostgrestError option) \<Rightarrow> Auth \<Rightarrow> uuid \<Rightarrow> LockedUniversity list \<Rightarrow>
     ApplicationPage \<Rightarrow> world \<Rightarrow> ApplicationPage \<times> world"
where
  "Application_loadData refreshProfile auth page w =
     (case auth_user auth of
        None \<Rightarrow> (page, w)
      | Some userId \<Rightarrow>
          (case getTasks tasks_select userId w of
             (r1, w1) \<Rightarrow>
               (case getLockedUniversities locked_select userId w1 of
                  (r2, w2) \<Rightarrow>
                    (case (r1, r2) of
                       (Inr tasksList, Inr lockedList) \<Rightarrow>
                         (case update_stage_to_applying refreshProfile auth userId lockedList w2 of
                            (Inl e, w3) \<Rightarrow>
                              (page\<lparr>st_tasks := tasksList, lockedUniversities := lockedList,
                                    a_loading := False\<rparr>, w3)
                          | (Inr u, w3) \<Rightarrow>
                              if length tasksList = 0 \<and> length lockedList > 0
                              then (case generateDefaultTasks refreshProfile auth userId lockedList
                                           (page\<lparr>st_tasks := tasksList,
                                                 lockedUniversities := lockedList\<rparr>) w3 of
                                      (page2, w4) \<Rightarrow> (page2\<lparr>a_loading := False\<rparr>, w4))
                              else (page\<lparr>st_tasks := tasksList, lockedUniversities := lockedList,
                                         a_loading := False\<rparr>, w3))
                     | _ \<Rightarrow> (page\<lparr>a_loading := False\<rparr>, w2)))))"
| "generateDefaultTasks refreshProfile auth userId lockedList page w =
     (case lockedList of
        [] \<Rightarrow> (page, w)
      | l # rest \<Rightarrow>
          (case createDefaultTasks userId (l_university_id l) defaultTasks w of
             (Inl e, w') \<Rightarrow> (page, w')
           | (Inr u, w') \<Rightarrow> Application_loadData refreshProfile auth page w'))"
  by pat_completeness auto
termination
proof (relation "measure (\<lambda>x. case x of
            Inl (r, auth, page, w) \<Rightarrow>
              (case auth_user auth of None \<Rightarrow> 0
               | Some u \<Rightarrow> if user_has_tasks w u then 1 else 3)
          | Inr (r, auth, userId, lockedList, page, w) \<Rightarrow>
              (if auth_user auth = Some userId then 2 else 4))", goal_cases)
  case 1
  show ?case by simp
next
  case 2
  then show ?case
    by (auto dest: getTasks_empty [OF sym])
next
  case 3
  then show ?case
    by (auto split: option.splits dest: createDefaultTasks_default)
qed

declare Application_loadData.simps [simp del] generateDefaultTasks.simps [simp del]

section \<open>Notions of the specification\<close>

text \<open>
  The order of the stages, as the enumeration \<^verbatim>\<open>user_stage\<close> declares them.
\<close>

fun stage_rank :: "UserStage \<Rightarrow> nat" where
  "stage_rank not_started = 0"
| "stage_rank onboarding = 1"
| "stage_rank exploring = 2"
| "stage_rank shortlisting = 3"
| "stage_rank committed = 4"
| "stage_rank applying = 5"

text \<open>
  The keyword groups of the counsellor, in the order in which they are tested, and
  the first group one of whose keywords occurs in the lowercased message.
\<close>

datatype keyword_group = Recommendation | ProfileAnalysis | Budget | Timeline | NextSteps

fun group_keywords :: "keyword_group \<Rightarrow> string list" where
  "group_keywords Recommendation = [''recommend'', ''suggest'', ''university'', ''universities'']"
| "group_keywords ProfileAnalysis = [''profile'', ''chances'', ''strength'']"
| "group_keywords Budget = [''budget'', ''cost'', ''afford'', ''expensive'']"
| "group_keywords Timeline = [''timeline'', ''when'', ''deadline'']"
| "group_keywords NextSteps = [''next'', ''what should'', ''help'']"

definition group_matches :: "string \<Rightarrow> keyword_group \<Rightarrow> bool" where
  "group_matches lowerMessage g = list_ex (str_includes lowerMessage) (group_keywords g)"

definition first_matching_group :: "string \<Rightarrow> keyword_group option" where
  "first_matching_group lowerMessage =
     find (group_matches lowerMessage)
       [Recommendation, ProfileAnalysis, Budget, Timeline, NextSteps]"

text \<open>
  The reply the first matching group stands for, for a user with a profile: the
  recommendation list (or the invitation to broaden the search when no university
  matches), the analysis of the profile, the budget reply, the timeline, the next
  steps of the stage (for the stages \<open>exploring\<close>, \<open>shortlisting\<close> and \<open>committed\<close>; the
  default reply for the others), and the default reply when no group matches.
\<close>

definition counsellor_reply ::
  "(string list option \<Rightarrow> string list option \<Rightarrow> int option \<Rightarrow> (University list, 'w) query) \<Rightarrow>
   string \<Rightarrow> Profile \<Rightarrow> (string, 'w) async" where
  "counsellor_reply from_universities lowerMessage profile w =
     (case first_matching_group lowerMessage of
        Some Recommendation \<Rightarrow>
          (case getUniversities from_universities (Some (recommendation_filters profile)) w of
             (Inl e, w') \<Rightarrow> (Inl e, w')
           | (Inr universities, w') \<Rightarrow>
               (Inr (if universities = [] then broaden_text
                     else recommendations_text profile universities), w'))
      | Some ProfileAnalysis \<Rightarrow> (Inr (profile_analysis_text profile), w)
      | Some Budget \<Rightarrow> (Inr (budget_text profile), w)
      | Some Timeline \<Rightarrow> (Inr timeline_text, w)
      | Some NextSteps \<Rightarrow>
          (Inr (if current_stage profile = exploring then next_exploring_text
                else if current_stage profile = shortlisting then next_shortlisting_text
                else if current_stage profile = committed then next_committed_text
                else default_text), w)
      | None \<Rightarrow> (Inr default_text, w))"

text \<open>\<open>occurs_in t s\<close>: the text \<open>t\<close> occurs in \<open>s\<close> as a contiguous part.\<close>

definition occurs_in :: "string \<Rightarrow> string \<Rightarrow> bool" where
  "occurs_in t s = (\<exists>a b. s = a @ t @ b)"

text \<open>
  The match list of a recommendation request: the universities that pass the filters
  of the profile, in the order of their ranking.
\<close>

definition match_list :: "world \<Rightarrow> Profile \<Rightarrow> University list" where
  "match_list w profile =
     sort_key ranking_key
       (filter (matches_filters (countries (recommendation_filters profile))
                  (fprograms (recommendation_filters profile))
                  (budgetMax (recommendation_filters profile)))
          (universities_table w))"

text \<open>The row an insert into \<^verbatim>\<open>user_locked_universities\<close> adds.\<close>

definition new_locked_row :: "world \<Rightarrow> uuid \<Rightarrow> uuid \<Rightarrow> LockedUniversity" where
  "new_locked_row w userId universityId =
     \<lparr>l_id = show_nat (next_uuid w), l_user_id = userId, l_university_id = universityId,
      l_university = None\<rparr>"

text \<open>
  The pairs \<^verbatim>\<open>(user_id, university_id)\<close> of the shortlist, row by row, and the
  operations of the data-access layer on the remote side: \<open>execute\<close> is the effect of one
  call, whatever it returns or throws, \<open>execute_all\<close> that of a sequence of calls.
\<close>

definition shortlist_keys :: "world \<Rightarrow> (uuid \<times> uuid) list" where
  "shortlist_keys w = map (\<lambda>s. (s_user_id s, s_university_id s)) (shortlisted_table w)"

datatype operation =
    GetProfile uuid
  | CompleteOnboarding uuid OnboardingData
  | UpdateUserStage uuid UserStage
  | GetUniversities "Filters option"
  | GetShortlistedUniversities uuid
  | AddToShortlist uuid uuid UniversityCategory "string option"
  | RemoveFromShortlist uuid uuid
  | UpdateShortlistCategory uuid uuid UniversityCategory
  | GetLockedUniversities uuid
  | LockUniversity uuid uuid
  | UnlockUniversity uuid uuid
  | GetTasks uuid
  | CreateTask uuid NewTask

fun execute :: "operation \<Rightarrow> world \<Rightarrow> world" where
  "execute (GetProfile u) w = snd (getProfile profiles_select u w)"
| "execute (CompleteOnboarding u d) w = snd (completeOnboarding profiles_update_select u d w)"
| "execute (UpdateUserStage u st) w = snd (updateUserStage profiles_update u st w)"
| "execute (GetUniversities f) w = snd (getUniversities universities_select f w)"
| "execute (GetShortlistedUniversities u) w = snd (getShortlistedUniversities shortlisted_select u w)"
| "execute (AddToShortlist u x c n) w = snd (addToShortlist shortlisted_insert u x c n w)"
| "execute (RemoveFromShortlist u x) w = snd (removeFromShortlist shortlisted_delete u x w)"
| "execute (UpdateShortlistCategory u x c) w = snd (updateShortlistCategory shortlisted_update_category u x c w)"
| "execute (GetLockedUniversities u) w = snd (getLockedUniversities locked_select u w)"
| "execute (LockUniversity u x) w =
     snd (lockUniversity locked_insert profiles_select profiles_update u x w)"
| "execute (UnlockUniversity u x) w = snd (unlockUniversity locked_delete u x w)"
| "execute (GetTasks u) w = snd (getTasks tasks_select u w)"
| "execute (CreateTask u t) w = snd (createTask tasks_insert_select u t w)"

fun execute_all :: "operation list \<Rightarrow> world \<Rightarrow> world" where
  "execute_all [] w = w"
| "execute_all (operation # rest) w = execute_all rest (execute operation w)"

text \<open>
  Every university the user has locked is on the shortlist of the user; the lists of a
  page agree with the tables.
\<close>

definition locked_are_shortlisted :: "world \<Rightarrow> uuid \<Rightarrow> bool" where
  "locked_are_shortlisted w userId =
     list_all (\<lambda>l. l_user_id l \<noteq> userId \<or> is_shortlisted w userId (l_university_id l))
       (locked_table w)"

definition in_sync :: "UniversitiesPage \<Rightarrow> world \<Rightarrow> uuid \<Rightarrow> bool" where
  "in_sync page w userId =
     (shortlisted page = fetch_shortlisted w userId \<and> locked page = fetch_locked w userId)"

text \<open>
  The requests a step has sent are those the log has gained. A step sends no profile
  update when the profiles are as before and none of its requests is an update of
  \<^verbatim>\<open>profiles\<close>. \<open>stage_never_earlier\<close>: every profile is still there and its stage is not
  earlier in the order of the stages.
\<close>

fun is_profile_update :: "request \<Rightarrow> bool" where
  "is_profile_update (Update_profiles u cols) = True"
| "is_profile_update rq = False"

definition issued :: "world \<Rightarrow> world \<Rightarrow> request list" where
  "issued w w' = drop (length (log w)) (log w')"

definition log_extends :: "world \<Rightarrow> world \<Rightarrow> bool" where
  "log_extends w w' = (take (length (log w)) (log w') = log w)"

definition no_profile_update :: "world \<Rightarrow> world \<Rightarrow> bool" where
  "no_profile_update w w' =
     (profiles_table w' = profiles_table w \<and> log_extends w w'
      \<and> list_all (\<lambda>rq. \<not> is_profile_update rq) (issued w w'))"

definition stage_never_earlier :: "world \<Rightarrow> world \<Rightarrow> bool" where
  "stage_never_earlier w w' =
     (\<forall>u p. profiles_table w u = Some p \<longrightarrow>
        (\<exists>p'. profiles_table w' u = Some p'
              \<and> stage_rank (current_stage p) \<le> stage_rank (current_stage p')))"

text \<open>
  Two conditions for the stage update of the applications page. \<open>stored_stage_condition\<close>
  reads the stage where the remote side stores it: the user has a locked university and
  the stage of the row of the user in \<^verbatim>\<open>profiles\<close> is \<open>committed\<close>.
  \<open>stage_update_condition\<close> reads it where the page does, in \<^verbatim>\<open>profile\<close> of \<^verbatim>\<open>useAuth()\<close>:
  both fetches of the load succeed, the user has a locked university, and the profile
  the page holds, which may be missing or older than the stored row, is in the stage
  \<open>committed\<close>.
\<close>

definition stored_stage_condition :: "world \<Rightarrow> uuid \<Rightarrow> bool" where
  "stored_stage_condition w userId =
     (fetch_locked w userId \<noteq> []
      \<and> map_option current_stage (profiles_table w userId) = Some committed)"

definition stage_update_condition :: "world \<Rightarrow> uuid \<Rightarrow> Profile option \<Rightarrow> bool" where
  "stage_update_condition w userId snapshot =
     (next_fault w = None \<and> next_fault (sent (Select_tasks userId) w) = None
      \<and> fetch_locked w userId \<noteq> []
      \<and> (case snapshot of None \<Rightarrow> False | Some p \<Rightarrow> current_stage p = committed))"

section \<open>Example data\<close>

definition example_profile :: Profile where
  "example_profile =
     \<lparr>profile_id = ''u1'', email = Some ''ada@example.org'', role = user_role,
      full_name = Some ''Ada'', current_stage = applying, onboarding_completed = True,
      current_education_level = Some ''Bachelor'', field_of_study = Some ''Physics'',
      gpa = Some 370, test_scores = [], target_degree = Some ''Masters'',
      preferred_countries = [''USA''], preferred_fields = [''Engineering''],
      budget_min = Some 10000, budget_max = Some 50000,
      exams_taken = [''GRE''], exams_planned = [''TOEFL'']\<rparr>"

definition example_university :: "uuid \<Rightarrow> string \<Rightarrow> string \<Rightarrow> int \<Rightarrow> University" where
  "example_university i n c r =
     \<lparr>uni_id = i, name = n, country = c, city = None, ranking = Some r,
      acceptance_rate = Some 1250, tuition_fee_min = Some 20000, tuition_fee_max = Some 40000,
      currency = ''USD'', programs = [''Engineering''], description = None, website = None\<rparr>"

definition example_world :: world where
  "example_world =
     \<lparr>profiles_table = [''u1'' \<mapsto> example_profile],
      universities_table =
        [example_university ''x2'' ''Beta Institute'' ''USA'' 2,
         example_university ''x1'' ''Alpha University'' ''USA'' 1,
         example_university ''x3'' ''Gamma College'' ''Canada'' 3],
      shortlisted_table = [], locked_table = [], tasks_table = [],
      next_uuid = 0, faults = [], log = []\<rparr>"

text \<open>
  A catalogue of ten universities, nine of them in the country the example profile
  prefers.
\<close>

definition example_catalogue :: world where
  "example_catalogue =
     example_world
       \<lparr>universities_table :=
        [example_university ''x6'' ''Zeta College'' ''USA'' 5,
         example_university ''x1'' ''Alpha University'' ''USA'' 1,
         example_university ''x10'' ''Kappa College'' ''USA'' 9,
         example_university ''x4'' ''Delta Polytechnic'' ''USA'' 3,
         example_university ''x3'' ''Gamma College'' ''Canada'' 0,
         example_university ''x8'' ''Theta Institute'' ''USA'' 7,
         example_university ''x2'' ''Beta Institute'' ''USA'' 2,
         example_university ''x9'' ''Iota University'' ''USA'' 8,
         example_university ''x5'' ''Epsilon University'' ''USA'' 4,
         example_university ''x7'' ''Eta School of Engineering'' ''USA'' 6]\<rparr>"

definition example_world_at :: "UserStage \<Rightarrow> world" where
  "example_world_at stage =
     example_world\<lparr>profiles_table := [''u1'' \<mapsto> example_profile\<lparr>current_stage := stage\<rparr>]\<rparr>"

text \<open>The state of the universities page when it mounts.\<close>

definition example_page :: UniversitiesPage where
  "example_page = \<lparr>st_universities = [], shortlisted = [], locked = [], loading = True\<rparr>"

text \<open>The twelfth request, the first of the reload after the lock, fails.\<close>

definition example_faulty_world :: world where
  "example_faulty_world =
     (example_world_at exploring)
       \<lparr>faults := [None, None, None, None, None, None, None, None, None, None, None,
                   Some (PostgrestError ''503'')]\<rparr>"

definition example_quiet_clicks :: "(moment \<times> Profile option \<times> click) list" where
  "example_quiet_clicks =
     [(After_handler, Some (example_profile\<lparr>current_stage := exploring\<rparr>), Reload),
      (After_handler, Some (example_profile\<lparr>current_stage := exploring\<rparr>),
       Add (example_university ''x1'' ''Alpha University'' ''USA'' 1) dream),
      (After_handler, Some (example_profile\<lparr>current_stage := shortlisting\<rparr>), Lock ''x1'')]"

definition example_clicks :: "(moment \<times> Profile option \<times> click) list" where
  "example_clicks =
     example_quiet_clicks @
     [(After_handler, Some (example_profile\<lparr>current_stage := committed\<rparr>), Remove ''x1'')]"

definition example_hasty_clicks :: "(moment \<times> Profile option \<times> click) list" where
  "example_hasty_clicks =
     example_quiet_clicks @
     [(During_handler, Some (example_profile\<lparr>current_stage := shortlisting\<rparr>), Remove ''x1'')]"

definition example_onboarding :: OnboardingData where
  "example_onboarding =
     \<lparr>o_full_name = ''Ada'', o_current_education_level = ''Bachelor'',
      o_field_of_study = ''Physics'', o_gpa = 370, o_test_scores = [],
      o_target_degree = ''Masters'', o_preferred_countries = [''USA''],
      o_preferred_fields = [''Engineering''], o_budget_min = 10000, o_budget_max = 50000,
      o_exams_taken = [''GRE''], o_exams_planned = [''TOEFL'']\<rparr>"

definition example_locked_world :: world where
  "example_locked_world =
     (example_world_at committed)
       \<lparr>shortlisted_table :=
          [\<lparr>s_id = ''5'', s_user_id = ''u1'', s_university_id = ''x1'', category = dream,
            s_notes = None, s_university = None\<rparr>],
        locked_table :=
          [\<lparr>l_id = ''6'', l_user_id = ''u1'', l_university_id = ''x1'', l_university = None\<rparr>],
        next_uuid := 7\<rparr>"

text \<open>The same tables, with the stage \<open>exploring\<close> in the row of the user.\<close>

definition example_reset_world :: world where
  "example_reset_world =
     example_locked_world
       \<lparr>profiles_table := [''u1'' \<mapsto> example_profile\<lparr>current_stage := exploring\<rparr>]\<rparr>"

definition example_application_page :: ApplicationPage where
  "example_application_page = \<lparr>st_tasks = [], lockedUniversities = [], a_loading = True\<rparr>"


section \<open>Properties of the data-access layer\<close>

lemmas round_trip_defs = counted_def single_round_trip_def rows_or_empty_def fun_eq_iff

lemma getProfile_single:
  "getProfile (\<lambda>u. counted (q u)) userId = single_round_trip (\<lambda>d. d) (q userId)"
  by (simp add: round_trip_defs getProfile_def split: prod.splits option.splits)

lemma updateProfile_single:
  "updateProfile (\<lambda>u p. counted (q u p)) userId updates =
   single_round_trip (\<lambda>d. d) (q userId updates)"
  by (simp add: round_trip_defs updateProfile_def split: prod.splits option.splits)

lemma completeOnboarding_single:
  "completeOnboarding (\<lambda>u p. counted (q u p)) userId d =
   single_round_trip (\<lambda>d. d)
     (q userId (onboarding_columns d @ [Set_onboarding_completed True, Set_current_stage exploring]))"
  by (simp add: round_trip_defs completeOnboarding_def split: prod.splits option.splits)

lemma updateUserStage_single:
  "updateUserStage (\<lambda>u p. counted (q u p)) userId stage =
   single_round_trip (\<lambda>d. ()) (q userId [Set_current_stage stage])"
  by (simp add: round_trip_defs updateUserStage_def split: prod.splits option.splits)

lemma getUniversities_single_None:
  "getUniversities (\<lambda>a b c. counted (q a b c)) None =
   single_round_trip rows_or_empty (q None None None)"
  by (simp add: round_trip_defs getUniversities_def split: prod.splits option.splits)

lemma getUniversities_single_Some:
  "getUniversities (\<lambda>a b c. counted (q a b c)) (Some f) =
   single_round_trip rows_or_empty
     (q (case countries f of None \<Rightarrow> None | Some cs \<Rightarrow> if cs = [] then None else Some cs)
        (case fprograms f of None \<Rightarrow> None | Some ps \<Rightarrow> if ps = [] then None else Some ps)
        (case budgetMax f of None \<Rightarrow> None | Some b \<Rightarrow> if b = 0 then None else Some b))"
  by (simp add: round_trip_defs getUniversities_def Let_def split: prod.splits option.splits)

lemma getUniversity_single:
  "getUniversity (\<lambda>u. counted (q u)) ident = single_round_trip (\<lambda>d. d) (q ident)"
  by (simp add: round_trip_defs getUniversity_def split: prod.splits option.splits)

lemma searchUniversities_single:
  "searchUniversities (\<lambda>f. counted (q f)) searchTerm =
   single_round_trip rows_or_empty
     (q (''name.ilike.%'' @ searchTerm @ ''%,country.ilike.%'' @ searchTerm @
         ''%,city.ilike.%'' @ searchTerm @ ''%''))"
  by (simp add: round_trip_defs searchUniversities_def split: prod.splits option.splits)

lemma getShortlistedUniversities_single:
  "getShortlistedUniversities (\<lambda>u. counted (q u)) userId =
   single_round_trip rows_or_empty (q userId)"
  by (simp add: round_trip_defs getShortlistedUniversities_def split: prod.splits option.splits)

lemma addToShortlist_single:
  "addToShortlist (\<lambda>u x c n. counted (q u x c n)) userId universityId cat note =
   single_round_trip (\<lambda>d. ()) (q userId universityId cat (or_null note))"
  by (simp add: round_trip_defs addToShortlist_def split: prod.splits option.splits)

lemma removeFromShortlist_single:
  "removeFromShortlist (\<lambda>u x. counted (q u x)) userId universityId =
   single_round_trip (\<lambda>d. ()) (q userId universityId)"
  by (simp add: round_trip_defs removeFromShortlist_def split: prod.splits option.splits)

lemma updateShortlistCategory_single:
  "updateShortlistCategory (\<lambda>u x c. counted (q u x c)) userId universityId cat =
   single_round_trip (\<lambda>d. ()) (q userId universityId cat)"
  by (simp add: round_trip_defs updateShortlistCategory_def split: prod.splits option.splits)

lemma getLockedUniversities_single:
  "getLockedUniversities (\<lambda>u. counted (q u)) userId =
   single_round_trip rows_or_empty (q userId)"
  by (simp add: round_trip_defs getLockedUniversities_def split: prod.splits option.splits)

lemma unlockUniversity_single:
  "unlockUniversity (\<lambda>u x. counted (q u x)) userId universityId =
   single_round_trip (\<lambda>d. ()) (q userId universityId)"
  by (simp add: round_trip_defs unlockUniversity_def split: prod.splits option.splits)

lemma getTasks_single:
  "getTasks (\<lambda>u. counted (q u)) userId = single_round_trip rows_or_empty (q userId)"
  by (simp add: round_trip_defs getTasks_def split: prod.splits option.splits)

lemma createTask_single:
  "createTask (\<lambda>t. counted (q t)) userId task =
   single_round_trip (\<lambda>d. d)
     (q \<lparr>i_user_id = userId, i_title = n_title task,
         i_description = or_null (n_description task),
         i_university_id = or_null (n_university_id task),
         i_due_date = n_due_date task,
         i_priority = (case or_null (n_priority task) of None \<Rightarrow> ''medium'' | Some p \<Rightarrow> p)\<rparr>)"
  by (simp add: round_trip_defs createTask_def split: prod.splits option.splits)

lemma updateTask_single:
  "updateTask (\<lambda>t u. counted (q t u)) taskId updates =
   single_round_trip (\<lambda>d. ()) (q taskId updates)"
  by (simp add: round_trip_defs updateTask_def split: prod.splits option.splits)

lemma toggleTaskCompletion_single:
  "toggleTaskCompletion (\<lambda>t c. counted (q t c)) taskId c =
   single_round_trip (\<lambda>d. ()) (q taskId c)"
  by (simp add: round_trip_defs toggleTaskCompletion_def split: prod.splits option.splits)

lemma deleteTask_single:
  "deleteTask (\<lambda>t. counted (q t)) taskId = single_round_trip (\<lambda>d. ()) (q taskId)"
  by (simp add: round_trip_defs deleteTask_def split: prod.splits option.splits)

lemma getChatMessages_single:
  "getChatMessages (\<lambda>u n. counted (q u n)) userId limit =
   single_round_trip rows_or_empty (q userId (case limit of None \<Rightarrow> 50 | Some n \<Rightarrow> n))"
  by (simp add: round_trip_defs getChatMessages_def split: prod.splits option.splits)

lemma createChatMessage_single:
  "createChatMessage (\<lambda>u r t m. counted (q u r t m)) userId r text meta =
   single_round_trip (\<lambda>d. d) (q userId r text (case meta of None \<Rightarrow> [] | Some m \<Rightarrow> m))"
  by (simp add: round_trip_defs createChatMessage_def split: prod.splits option.splits)

lemma lockUniversity_round_trips:
  "lockUniversity (\<lambda>u x. counted (qi u x)) (\<lambda>u. counted (qs u)) (\<lambda>u c. counted (qu u c))
     userId universityId (w, n) =
   (case qi userId universityId w of
      (r1, w1) \<Rightarrow>
        (case error r1 of Some e \<Rightarrow> (Inl e, (w1, n + 1))
         | None \<Rightarrow>
             (case qs userId w1 of
                (r2, w2) \<Rightarrow>
                  (case error r2 of Some e \<Rightarrow> (Inl e, (w2, n + 2))
                   | None \<Rightarrow>
                       (case data r2 of None \<Rightarrow> (Inr (), (w2, n + 2))
                        | Some p \<Rightarrow>
                            if current_stage p = committed \<or> current_stage p = applying
                            then (Inr (), (w2, n + 2))
                            else (case qu userId [Set_current_stage committed] w2 of
                                    (r3, w3) \<Rightarrow>
                                      ((case error r3 of Some e \<Rightarrow> Inl e | None \<Rightarrow> Inr ()),
                                       (w3, n + 3))))))))"
  by (simp add: round_trip_defs lockUniversity_def getProfile_def updateUserStage_def
      split: prod.splits option.splits sum.splits)

text \<open>
  Claim C7, as stated, at \<open>lockUniversity\<close>: the insert reports no error, the profile
  fetch that follows reports one. \<open>lockUniversity\<close> throws after two operations, where
  a single round trip of the insert returns after one.
\<close>

theorem lockUniversity_second_round_trip_throws:
  "lockUniversity
     (\<lambda>u x. counted (\<lambda>w. (Response (Some ()) None, w)))
     (\<lambda>u. counted (\<lambda>w. (Response None (Some (PostgrestError ''503'')), w)))
     (\<lambda>u c. counted (\<lambda>w. (Response (Some ()) None, w)))
     ''u1'' ''x1'' ((), 0)
   = (Inl (PostgrestError ''503''), ((), 2))
   \<and> single_round_trip (\<lambda>d. ()) (\<lambda>w. (Response (Some ()) None, w)) ((), 0) = (Inr (), ((), 1))"
  by (simp add: round_trip_defs lockUniversity_def getProfile_def)

text \<open>
  Claim C7, amended. Every data-access function other than \<open>lockUniversity\<close> performs
  exactly one remote operation, throws the error of that operation exactly when it
  reports one, and otherwise returns its data (the row or null, the rows or the empty
  list when the data is not an array, or nothing); there is no retry and no fallback.
  \<open>lockUniversity\<close> performs the insert, then the profile fetch, then, for a profile
  whose stage is neither \<open>committed\<close> nor \<open>applying\<close>, the stage update; it throws the
  error of the first of these operations that reports one and performs no operation
  after it.
\<close>

theorem data_access_round_trips:
  "getProfile (\<lambda>u. counted (q1 u)) userId = single_round_trip (\<lambda>d. d) (q1 userId)
   \<and> updateProfile (\<lambda>u p. counted (q2 u p)) userId updates =
       single_round_trip (\<lambda>d. d) (q2 userId updates)
   \<and> completeOnboarding (\<lambda>u p. counted (q3 u p)) userId onboardingData =
       single_round_trip (\<lambda>d. d)
         (q3 userId (onboarding_columns onboardingData @
                     [Set_onboarding_completed True, Set_current_stage exploring]))
   \<and> updateUserStage (\<lambda>u p. counted (q4 u p)) userId stage =
       single_round_trip (\<lambda>d. ()) (q4 userId [Set_current_stage stage])
   \<and> getUniversities (\<lambda>a b c. counted (q5 a b c)) None =
       single_round_trip rows_or_empty (q5 None None None)
   \<and> getUniversities (\<lambda>a b c. counted (q5 a b c)) (Some f) =
       single_round_trip rows_or_empty
         (q5 (case countries f of None \<Rightarrow> None | Some cs \<Rightarrow> if cs = [] then None else Some cs)
             (case fprograms f of None \<Rightarrow> None | Some ps \<Rightarrow> if ps = [] then None else Some ps)
             (case budgetMax f of None \<Rightarrow> None | Some b \<Rightarrow> if b = 0 then None else Some b))
   \<and> getUniversity (\<lambda>u. counted (q6 u)) universityId = single_round_trip (\<lambda>d. d) (q6 universityId)
   \<and> searchUniversities (\<lambda>s. counted (q7 s)) searchTerm =
       single_round_trip rows_or_empty
         (q7 (''name.ilike.%'' @ searchTerm @ ''%,country.ilike.%'' @ searchTerm @
              ''%,city.ilike.%'' @ searchTerm @ ''%''))
   \<and> getShortlistedUniversities (\<lambda>u. counted (q8 u)) userId =
       single_round_trip rows_or_empty (q8 userId)
   \<and> addToShortlist (\<lambda>u x c n. counted (q9 u x c n)) userId universityId cat note =
       single_round_trip (\<lambda>d. ()) (q9 userId universityId cat (or_null note))
   \<and> removeFromShortlist (\<lambda>u x. counted (q10 u x)) userId universityId =
       single_round_trip (\<lambda>d. ()) (q10 userId universityId)
   \<and> updateShortlistCategory (\<lambda>u x c. counted (q11 u x c)) userId universityId cat =
       single_round_trip (\<lambda>d. ()) (q11 userId universityId cat)
   \<and> getLockedUniversities (\<lambda>u. counted (q12 u)) userId =
       single_round_trip rows_or_empty (q12 userId)
   \<and> unlockUniversity (\<lambda>u x. counted (q13 u x)) userId universityId =
       single_round_trip (\<lambda>d. ()) (q13 userId universityId)
   \<and> getTasks (\<lambda>u. counted (q14 u)) userId = single_round_trip rows_or_empty (q14 userId)
   \<and> createTask (\<lambda>t. counted (q15 t)) userId task =
       single_round_trip (\<lambda>d. d)
         (q15 \<lparr>i_user_id = userId, i_title = n_title task,
               i_description = or_null (n_description task),
               i_university_id = or_null (n_university_id task),
               i_due_date = n_due_date task,
               i_priority = (case or_null (n_priority task) of None \<Rightarrow> ''medium'' | Some p \<Rightarrow> p)\<rparr>)
   \<and> updateTask (\<lambda>t u. counted (q16 t u)) taskId taskUpdates =
       single_round_trip (\<lambda>d. ()) (q16 taskId taskUpdates)
   \<and> toggleTaskCompletion (\<lambda>t c. counted (q17 t c)) taskId isCompleted =
       single_round_trip (\<lambda>d. ()) (q17 taskId isCompleted)
   \<and> deleteTask (\<lambda>t. counted (q18 t)) taskId = single_round_trip (\<lambda>d. ()) (q18 taskId)
   \<and> getChatMessages (\<lambda>u n. counted (q19 u n)) userId limit =
       single_round_trip rows_or_empty (q19 userId (case limit of None \<Rightarrow> 50 | Some n \<Rightarrow> n))
   \<and> createChatMessage (\<lambda>u r t m. counted (q20 u r t m)) userId chatRole text meta =
       single_round_trip (\<lambda>d. d) (q20 userId chatRole text (case meta of None \<Rightarrow> [] | Some m \<Rightarrow> m))
   \<and> lockUniversity (\<lambda>u x. counted (qi u x)) (\<lambda>u. counted (qs u)) (\<lambda>u c. counted (qu u c))
         userId universityId (w, n) =
       (case qi userId universityId w of
          (r1, w1) \<Rightarrow>
            (case error r1 of Some e \<Rightarrow> (Inl e, (w1, n + 1))
             | None \<Rightarrow>
                 (case qs userId w1 of
                    (r2, w2) \<Rightarrow>
                      (case error r2 of Some e \<Rightarrow> (Inl e, (w2, n + 2))
                       | None \<Rightarrow>
                           (case data r2 of None \<Rightarrow> (Inr (), (w2, n + 2))
                            | Some p \<Rightarrow>
                                if current_stage p = committed \<or> current_stage p = applying
                                then (Inr (), (w2, n + 2))
                                else (case qu userId [Set_current_stage committed] w2 of
                                        (r3, w3) \<Rightarrow>
                                          ((case error r3 of Some e \<Rightarrow> Inl e | None \<Rightarrow> Inr ()),
                                           (w3, n + 3))))))))"
  by (simp only: getProfile_single updateProfile_single completeOnboarding_single
      updateUserStage_single getUniversities_single_None getUniversities_single_Some
      getUniversity_single searchUniversities_single getShortlistedUniversities_single
      addToShortlist_single removeFromShortlist_single updateShortlistCategory_single
      getLockedUniversities_single unlockUniversity_single getTasks_single createTask_single
      updateTask_single toggleTaskCompletion_single deleteTask_single getChatMessages_single
      createChatMessage_single lockUniversity_round_trips simp_thms)

theorem data_access_round_trips_witness:
  "getProfile (\<lambda>u. counted (\<lambda>w. (Response None (Some (PostgrestError ''503'')), w))) ''u1'' ((), 0)
     = (Inl (PostgrestError ''503''), ((), 1))
   \<and> lockUniversity
       (\<lambda>u x. counted (\<lambda>w. (Response (Some ()) None, w)))
       (\<lambda>u. counted (\<lambda>w. (Response None None, w)))
       (\<lambda>u c. counted (\<lambda>w. (Response (Some ()) None, w)))
       ''u1'' ''x1'' ((), 0)
     = (Inr (), ((), 2))"
proof -
  note t = data_access_round_trips
    [where ?q1.0 = "\<lambda>u w. (Response None (Some (PostgrestError ''503'')), w)"
       and userId = "''u1''" and universityId = "''x1''" and w = "()" and n = 0
       and qi = "\<lambda>u x w. (Response (Some ()) None, w)"
       and qs = "\<lambda>u w. (Response None None, w)"
       and qu = "\<lambda>u c w. (Response (Some ()) None, w)"]
  from t have a:
    "getProfile (\<lambda>u. counted (\<lambda>w. (Response None (Some (PostgrestError ''503'')), w))) ''u1''
     = single_round_trip (\<lambda>d. d) (\<lambda>w. (Response None (Some (PostgrestError ''503'')), w))"
    by (rule conjunct1)
  have b:
    "lockUniversity
       (\<lambda>u x. counted (\<lambda>w. (Response (Some ()) None, w)))
       (\<lambda>u. counted (\<lambda>w. (Response None None, w)))
       (\<lambda>u c. counted (\<lambda>w. (Response (Some ()) None, w)))
       ''u1'' ''x1'' ((), 0)
     = (Inr (), ((), 2))"
    by (simp add: lockUniversity_round_trips)
  show ?thesis
    by (simp add: a b single_round_trip_def)
qed

section \<open>Properties of the counsellor\<close>

lemma gm_Recommendation:
  "(str_includes m ''recommend'' \<or> str_includes m ''suggest'' \<or> str_includes m ''university''
    \<or> str_includes m ''universities'') = group_matches m Recommendation"
  by (simp add: group_matches_def)

lemma gm_ProfileAnalysis:
  "(str_includes m ''profile'' \<or> str_includes m ''chances'' \<or> str_includes m ''strength'')
   = group_matches m ProfileAnalysis"
  by (simp add: group_matches_def)

lemma gm_Budget:
  "(str_includes m ''budget'' \<or> str_includes m ''cost'' \<or> str_includes m ''afford''
    \<or> str_includes m ''expensive'') = group_matches m Budget"
  by (simp add: group_matches_def)

lemma gm_Timeline:
  "(str_includes m ''timeline'' \<or> str_includes m ''when'' \<or> str_includes m ''deadline'')
   = group_matches m Timeline"
  by (simp add: group_matches_def)

lemma gm_NextSteps:
  "(str_includes m ''next'' \<or> str_includes m ''what should'' \<or> str_includes m ''help'')
   = group_matches m NextSteps"
  by (simp add: group_matches_def)

lemma first_matching_group_unfold:
  "first_matching_group m =
     (if group_matches m Recommendation then Some Recommendation
      else if group_matches m ProfileAnalysis then Some ProfileAnalysis
      else if group_matches m Budget then Some Budget
      else if group_matches m Timeline then Some Timeline
      else if group_matches m NextSteps then Some NextSteps
      else None)"
  by (simp add: first_matching_group_def)

lemma generateAIResponse_profile:
  "generateAIResponse toLowerCase from_profiles from_universities userMessage userId w =
   (case getProfile from_profiles userId w of
      (Inl e, w1) \<Rightarrow> (Inl e, w1)
    | (Inr None, w1) \<Rightarrow> (Inr no_profile_text, w1)
    | (Inr (Some profile), w1) \<Rightarrow>
        if group_matches (toLowerCase userMessage) Recommendation
        then (case getUniversities from_universities (Some (recommendation_filters profile)) w1 of
                (Inl e, w2) \<Rightarrow> (Inl e, w2)
              | (Inr universities, w2) \<Rightarrow>
                  if length universities = 0 then (Inr broaden_text, w2)
                  else (Inr (recommendations_text profile universities), w2))
        else if group_matches (toLowerCase userMessage) ProfileAnalysis
        then (Inr (profile_analysis_text profile), w1)
        else if group_matches (toLowerCase userMessage) Budget
        then (Inr (budget_text profile), w1)
        else if group_matches (toLowerCase userMessage) Timeline
        then (Inr timeline_text, w1)
        else if group_matches (toLowerCase userMessage) NextSteps
        then (let stage = current_stage profile
              in if stage = exploring then (Inr next_exploring_text, w1)
                 else if stage = shortlisting then (Inr next_shortlisting_text, w1)
                 else if stage = committed then (Inr next_committed_text, w1)
                 else (Inr default_text, w1))
        else (Inr default_text, w1))"
  unfolding generateAIResponse_def Let_def gm_Recommendation gm_ProfileAnalysis gm_Budget
    gm_Timeline gm_NextSteps
  by (rule refl)

lemma counsellor_reply_unfold:
  "counsellor_reply from_universities m profile w =
     (if group_matches m Recommendation
      then (case getUniversities from_universities (Some (recommendation_filters profile)) w of
              (Inl e, w') \<Rightarrow> (Inl e, w')
            | (Inr universities, w') \<Rightarrow>
                (Inr (if universities = [] then broaden_text
                      else recommendations_text profile universities), w'))
      else if group_matches m ProfileAnalysis then (Inr (profile_analysis_text profile), w)
      else if group_matches m Budget then (Inr (budget_text profile), w)
      else if group_matches m Timeline then (Inr timeline_text, w)
      else if group_matches m NextSteps
      then (Inr (if current_stage profile = exploring then next_exploring_text
                 else if current_stage profile = shortlisting then next_shortlisting_text
                 else if current_stage profile = committed then next_committed_text
                 else default_text), w)
      else (Inr default_text, w))"
  by (simp add: counsellor_reply_def first_matching_group_unfold)

lemma generateAIResponse_reply:
  "generateAIResponse toLowerCase from_profiles from_universities userMessage userId w =
   (case getProfile from_profiles userId w of
      (Inl e, w1) \<Rightarrow> (Inl e, w1)
    | (Inr None, w1) \<Rightarrow> (Inr no_profile_text, w1)
    | (Inr (Some profile), w1) \<Rightarrow>
        counsellor_reply from_universities (toLowerCase userMessage) profile w1)"
  unfolding generateAIResponse_profile counsellor_reply_unfold
  by (auto simp: Let_def split: prod.splits sum.splits option.splits)

lemma first_group_examples:
  "first_matching_group (ascii_lower ''Recommend a University'') = Some Recommendation"
  "first_matching_group (ascii_lower ''Please HELP me'') = Some NextSteps"
  "first_matching_group (ascii_lower ''What does it COST?'') = Some Budget"
  by (simp_all add: ascii_lower_def ascii_lower_char_def first_matching_group_def
      group_matches_def)

text \<open>
  Claim C2, as stated, at two inputs. For a user without a profile row the message
  ``Recommend a University'' matches the recommendation group, and the reply is the
  fixed text about the profile, which is neither a reply of that group nor the
  default reply. For a user in the stage \<open>applying\<close> the message ``Please HELP me''
  matches the next-steps group first, and the reply is the default text, not one of
  the next-steps texts.
\<close>

theorem reply_is_not_the_template_of_the_first_group:
  "fst (generateAIResponse ascii_lower
          (\<lambda>u w. (Response None None, w))
          (\<lambda>a b c w. (Response (Some []) None, w)) ''Recommend a University'' ''u1'' ())
     = Inr no_profile_text
   \<and> first_matching_group (ascii_lower ''Recommend a University'') = Some Recommendation
   \<and> no_profile_text \<noteq> broaden_text \<and> no_profile_text \<noteq> default_text
   \<and> fst (generateAIResponse ascii_lower
          (\<lambda>u w. (Response (Some example_profile) None, w))
          (\<lambda>a b c w. (Response (Some []) None, w)) ''Please HELP me'' ''u1'' ())
     = Inr default_text
   \<and> first_matching_group (ascii_lower ''Please HELP me'') = Some NextSteps
   \<and> current_stage example_profile = applying
   \<and> default_text \<noteq> next_exploring_text \<and> default_text \<noteq> next_shortlisting_text
   \<and> default_text \<noteq> next_committed_text"
proof -
  have a: "fst (generateAIResponse ascii_lower
          (\<lambda>u w. (Response None None, w))
          (\<lambda>a b c w. (Response (Some []) None, w)) ''Recommend a University'' ''u1'' ())
     = Inr no_profile_text"
    by (simp add: generateAIResponse_profile getProfile_def)
  have b: "no_profile_text \<noteq> broaden_text \<and> no_profile_text \<noteq> default_text"
    by (simp add: no_profile_text_def broaden_text_def default_text_def)
  have g: "group_matches (ascii_lower ''Please HELP me'') Recommendation = False"
    "group_matches (ascii_lower ''Please HELP me'') ProfileAnalysis = False"
    "group_matches (ascii_lower ''Please HELP me'') Budget = False"
    "group_matches (ascii_lower ''Please HELP me'') Timeline = False"
    "group_matches (ascii_lower ''Please HELP me'') NextSteps = True"
    by (simp_all add: ascii_lower_def ascii_lower_char_def group_matches_def)
  have c: "fst (generateAIResponse ascii_lower
          (\<lambda>u w. (Response (Some example_profile) None, w))
          (\<lambda>a b c w. (Response (Some []) None, w)) ''Please HELP me'' ''u1'' ())
     = Inr default_text"
    by (simp add: generateAIResponse_profile getProfile_def g example_profile_def)
  have d: "default_text \<noteq> next_exploring_text \<and> default_text \<noteq> next_shortlisting_text
           \<and> default_text \<noteq> next_committed_text"
    by (simp add: next_exploring_text_def next_shortlisting_text_def next_committed_text_def
        default_text_def)
  have e: "current_stage example_profile = applying"
    by (simp add: example_profile_def)
  from a b c d e first_group_examples(1,2) show ?thesis
    by (simp only: simp_thms)
qed

text \<open>
  Claim C2, amended. \<open>generateAIResponse\<close> first fetches the profile of the user: it
  throws when the fetch reports an error, and it returns the fixed text about the
  profile, whatever the message, when the user has no profile. For a user with a
  profile it lowercases the message and tests the keyword groups in the order
  recommendation, profile, budget, timeline, next steps; the first group that matches
  decides the reply as \<open>counsellor_reply\<close> describes (the next-steps group gives the
  default reply for a stage other than \<open>exploring\<close>, \<open>shortlisting\<close> and \<open>committed\<close>, and
  the recommendation request throws when the fetch of the universities reports an
  error), and a message that matches no group receives the default reply.
\<close>

theorem generateAIResponse_first_matching_group:
  "generateAIResponse toLowerCase from_profiles from_universities userMessage userId w =
   (case getProfile from_profiles userId w of
      (Inl e, w1) \<Rightarrow> (Inl e, w1)
    | (Inr None, w1) \<Rightarrow> (Inr no_profile_text, w1)
    | (Inr (Some profile), w1) \<Rightarrow>
        counsellor_reply from_universities (toLowerCase userMessage) profile w1)"
  by (rule generateAIResponse_reply)

theorem generateAIResponse_first_matching_group_witness:
  "generateAIResponse ascii_lower
     (\<lambda>u w. (Response (Some example_profile) None, w))
     (\<lambda>a b c w. (Response (Some []) None, w)) ''What does it COST?'' ''u1'' ()
   = (Inr (budget_text example_profile), ())"
  using generateAIResponse_first_matching_group
    [of ascii_lower "\<lambda>u w. (Response (Some example_profile) None, w)"
        "\<lambda>a b c w. (Response (Some []) None, w)" "''What does it COST?''" "''u1''" "()"]
  by (simp add: getProfile_def counsellor_reply_def first_group_examples)

section \<open>Facts about the remote side\<close>

lemma table_sent [simp]:
  "profiles_table (sent rq w) = profiles_table w"
  "universities_table (sent rq w) = universities_table w"
  "shortlisted_table (sent rq w) = shortlisted_table w"
  "locked_table (sent rq w) = locked_table w"
  "tasks_table (sent rq w) = tasks_table w"
  "next_uuid (sent rq w) = next_uuid w"
  by (simp_all add: sent_def)

lemma getProfile_pg:
  "getProfile profiles_select u w =
     (case next_fault w of
        Some e \<Rightarrow> (Inl e, sent (Select_profiles u) w)
      | None \<Rightarrow> (Inr (profiles_table w u), sent (Select_profiles u) w))"
  by (simp add: getProfile_def profiles_select_def round_trip_def split: option.splits)

lemma recommendation_filters_sel:
  "(case countries (recommendation_filters p) of None \<Rightarrow> None
    | Some cs \<Rightarrow> if 0 < length cs then Some cs else None) = countries (recommendation_filters p)"
  "(case fprograms (recommendation_filters p) of None \<Rightarrow> None
    | Some cs \<Rightarrow> if 0 < length cs then Some cs else None) = fprograms (recommendation_filters p)"
  "(case budgetMax (recommendation_filters p) of None \<Rightarrow> None
    | Some b \<Rightarrow> if b \<noteq> 0 then Some b else None) = budgetMax (recommendation_filters p)"
  by (auto simp: recommendation_filters_def split: option.splits)

lemma getUniversities_pg:
  "getUniversities universities_select (Some (recommendation_filters p)) w =
     (case next_fault w of
        Some e \<Rightarrow>
          (Inl e, sent (Select_universities (countries (recommendation_filters p))
                          (fprograms (recommendation_filters p))
                          (budgetMax (recommendation_filters p))) w)
      | None \<Rightarrow>
          (Inr (match_list w p),
           sent (Select_universities (countries (recommendation_filters p))
                   (fprograms (recommendation_filters p))
                   (budgetMax (recommendation_filters p))) w))"
  by (simp add: getUniversities_def recommendation_filters_sel universities_select_def
      round_trip_def match_list_def Let_def split: option.splits)


lemma counsellor_reply_no_fetch:
  "\<not> group_matches m Recommendation \<Longrightarrow>
   counsellor_reply q m p w =
     (Inr (if group_matches m ProfileAnalysis then profile_analysis_text p
           else if group_matches m Budget then budget_text p
           else if group_matches m Timeline then timeline_text
           else if group_matches m NextSteps
           then (if current_stage p = exploring then next_exploring_text
                 else if current_stage p = shortlisting then next_shortlisting_text
                 else if current_stage p = committed then next_committed_text
                 else default_text)
           else default_text), w)"
  by (simp add: counsellor_reply_unfold)

lemma generateAIResponse_pg:
  "fst (generateAIResponse lc profiles_select universities_select msg u w) =
     (case next_fault w of
        Some e \<Rightarrow> Inl e
      | None \<Rightarrow>
          (case profiles_table w u of
             None \<Rightarrow> Inr no_profile_text
           | Some p \<Rightarrow>
               if group_matches (lc msg) Recommendation
               then (case next_fault (sent (Select_profiles u) w) of
                       Some e \<Rightarrow> Inl e
                     | None \<Rightarrow>
                         Inr (if match_list w p = [] then broaden_text
                              else recommendations_text p (match_list w p)))
               else fst (counsellor_reply universities_select (lc msg) p w)))"
proof (cases "next_fault w")
  case (Some e)
  then show ?thesis
    by (simp add: generateAIResponse_reply getProfile_pg)
next
  case None
  show ?thesis
  proof (cases "profiles_table w u")
    case n: None
    with None show ?thesis
      by (simp add: generateAIResponse_reply getProfile_pg)
  next
    case (Some p)
    show ?thesis
    proof (cases "group_matches (lc msg) Recommendation")
      case True
      with \<open>next_fault w = None\<close> Some show ?thesis
        by (simp add: generateAIResponse_reply getProfile_pg
            counsellor_reply_unfold getUniversities_pg match_list_def split: option.splits)
    next
      case False
      with \<open>next_fault w = None\<close> Some show ?thesis
        by (simp add: generateAIResponse_reply getProfile_pg
            counsellor_reply_no_fetch)
    qed
  qed
qed

lemma match_list_cong:
  "universities_table w1 = universities_table w2 \<Longrightarrow> match_list w1 p = match_list w2 p"
  by (simp add: match_list_def)

lemma example_match_list:
  "match_list example_world example_profile =
     [example_university ''x1'' ''Alpha University'' ''USA'' 1,
      example_university ''x2'' ''Beta Institute'' ''USA'' 2]"
  by (simp add: match_list_def example_world_def example_profile_def recommendation_filters_def
      matches_filters_def example_university_def ranking_key_def)

lemma example_world_facts:
  "next_fault example_world = None"
  "next_fault (sent rq example_world) = None"
  "profiles_table example_world ''u1'' = Some example_profile"
  by (simp_all add: next_fault_def sent_def example_world_def)

lemma example_distinct: "distinct (universities_table example_world)"
  by (simp add: example_world_def example_university_def)


section \<open>The displayed list of universities\<close>

lemma startsWith_iff: "startsWith s t \<longleftrightarrow> (\<exists>b. s = t @ b)"
  by (induction s t rule: startsWith.induct) auto

lemma str_includes_iff: "str_includes s t \<longleftrightarrow> occurs_in t s"
proof (induction s)
  case Nil
  show ?case by (auto simp: occurs_in_def)
next
  case (Cons c s)
  have "occurs_in t (c # s) \<longleftrightarrow> (\<exists>b. c # s = t @ b) \<or> occurs_in t s"
  proof
    assume "occurs_in t (c # s)"
    then obtain a b where ab: "c # s = a @ t @ b" by (auto simp: occurs_in_def)
    show "(\<exists>b. c # s = t @ b) \<or> occurs_in t s"
    proof (cases a)
      case Nil
      with ab show ?thesis by auto
    next
      case (Cons d a')
      with ab have "s = a' @ t @ b" by simp
      then show ?thesis by (auto simp: occurs_in_def)
    qed
  next
    assume "(\<exists>b. c # s = t @ b) \<or> occurs_in t s"
    then show "occurs_in t (c # s)"
    proof
      assume "\<exists>b. c # s = t @ b"
      then obtain b where "c # s = [] @ t @ b" by auto
      then show ?thesis unfolding occurs_in_def by blast
    next
      assume "occurs_in t s"
      then obtain a b where "s = a @ t @ b" by (auto simp: occurs_in_def)
      then have "c # s = (c # a) @ t @ b" by simp
      then show ?thesis unfolding occurs_in_def by blast
    qed
  qed
  with Cons show ?case by (simp add: startsWith_iff)
qed

lemma str_includes_Nil: "str_includes s []"
  by (cases s) simp_all

text \<open>
  Claim C10. A fetched university is in the filtered list exactly when the lowercased
  search term occurs in its lowercased name, country or city (a university without a
  city can pass by its name or country only) and the country filter is ``all'' or its
  country. When the lowercased search term is empty, the list is the fetched list
  filtered by country alone. A university whose name and country do not contain the
  term and which has no city is not in the list.
\<close>

theorem filteredUniversities_membership:
  "(uni \<in> set (filteredUniversities toLowerCase universities searchTerm countryFilter) \<longleftrightarrow>
      uni \<in> set universities
      \<and> (occurs_in (toLowerCase searchTerm) (toLowerCase (name uni))
         \<or> occurs_in (toLowerCase searchTerm) (toLowerCase (country uni))
         \<or> (\<exists>c. city uni = Some c \<and> occurs_in (toLowerCase searchTerm) (toLowerCase c)))
      \<and> (countryFilter = ''all'' \<or> country uni = countryFilter))
   \<and> (toLowerCase searchTerm = [] \<longrightarrow>
        filteredUniversities toLowerCase universities searchTerm countryFilter =
        filter (\<lambda>uni. countryFilter = ''all'' \<or> country uni = countryFilter) universities)
   \<and> (\<not> occurs_in (toLowerCase searchTerm) (toLowerCase (name uni))
        \<and> \<not> occurs_in (toLowerCase searchTerm) (toLowerCase (country uni))
        \<and> city uni = None \<longrightarrow>
        uni \<notin> set (filteredUniversities toLowerCase universities searchTerm countryFilter))"
  by (auto simp: filteredUniversities_def Let_def str_includes_iff [symmetric] str_includes_Nil
      split: option.splits)

theorem filteredUniversities_membership_witness:
  "example_university ''x1'' ''Alpha University'' ''USA'' 1
     \<in> set (filteredUniversities ascii_lower (universities_table example_world) ''ALPHA'' ''all'')
   \<and> filteredUniversities ascii_lower (universities_table example_world) [] ''Canada''
     = [example_university ''x3'' ''Gamma College'' ''Canada'' 3]
   \<and> example_university ''x3'' ''Gamma College'' ''Canada'' 3
     \<notin> set (filteredUniversities ascii_lower (universities_table example_world) ''ALPHA'' ''all'')"
proof -
  let ?us = "universities_table example_world"
  have o1: "occurs_in (ascii_lower ''ALPHA'') (ascii_lower ''Alpha University'')"
    by (simp add: str_includes_iff [symmetric] ascii_lower_def ascii_lower_char_def)
  have o2: "\<not> occurs_in (ascii_lower ''ALPHA'') (ascii_lower ''Gamma College'')"
    "\<not> occurs_in (ascii_lower ''ALPHA'') (ascii_lower ''Canada'')"
    by (simp_all add: str_includes_iff [symmetric] ascii_lower_def ascii_lower_char_def)
  have a: "example_university ''x1'' ''Alpha University'' ''USA'' 1
     \<in> set (filteredUniversities ascii_lower ?us ''ALPHA'' ''all'')"
    using filteredUniversities_membership
      [of "example_university ''x1'' ''Alpha University'' ''USA'' 1" ascii_lower ?us
          "''ALPHA''" "''all''"] o1
    by (simp add: example_world_def example_university_def)
  have b: "filteredUniversities ascii_lower ?us [] ''Canada''
     = [example_university ''x3'' ''Gamma College'' ''Canada'' 3]"
    using filteredUniversities_membership
      [of "example_university ''x3'' ''Gamma College'' ''Canada'' 3" ascii_lower ?us
          "[]" "''Canada''"]
    by (simp add: example_world_def example_university_def ascii_lower_def)
  have c: "example_university ''x3'' ''Gamma College'' ''Canada'' 3
     \<notin> set (filteredUniversities ascii_lower ?us ''ALPHA'' ''all'')"
    using filteredUniversities_membership
      [of "example_university ''x3'' ''Gamma College'' ''Canada'' 3" ascii_lower ?us
          "''ALPHA''" "''all''"] o2
    by (simp add: example_university_def)
  from a b c show ?thesis by (intro conjI)
qed

section \<open>Determinism and the recommendation list\<close>

text \<open>
  Claim C8. Two evaluations of \<open>generateAIResponse\<close> on the same message and user,
  on remote sides that agree on the profile row of the user and on the rows of the
  universities (and may differ in everything else), return the same text whenever
  both return one.
\<close>

theorem generateAIResponse_deterministic:
  assumes "profiles_table w1 userId = profiles_table w2 userId"
    and "universities_table w1 = universities_table w2"
    and "fst (generateAIResponse toLowerCase profiles_select universities_select userMessage userId w1)
         = Inr s1"
    and "fst (generateAIResponse toLowerCase profiles_select universities_select userMessage userId w2)
         = Inr s2"
  shows "s1 = s2"
proof -
  note m = match_list_cong [OF assms(2)]
  from assms(3,4,1) show ?thesis
    unfolding generateAIResponse_pg
    by (auto simp: m counsellor_reply_no_fetch split: option.splits if_splits)
qed

theorem generateAIResponse_deterministic_witness:
  "profiles_table example_world ''u1''
     = profiles_table (example_world\<lparr>next_uuid := 5, log := [Select_tasks ''u1'']\<rparr>) ''u1''
   \<and> universities_table example_world
     = universities_table (example_world\<lparr>next_uuid := 5, log := [Select_tasks ''u1'']\<rparr>)
   \<and> fst (generateAIResponse ascii_lower profiles_select universities_select
            ''What does it COST?'' ''u1'' example_world)
     = Inr (budget_text example_profile)
   \<and> fst (generateAIResponse ascii_lower profiles_select universities_select
            ''What does it COST?'' ''u1''
            (example_world\<lparr>next_uuid := 5, log := [Select_tasks ''u1'']\<rparr>))
     = Inr (budget_text example_profile)"
proof -
  let ?w2 = "example_world\<lparr>next_uuid := 5, log := [Select_tasks ''u1'']\<rparr>"
  have g: "group_matches (ascii_lower ''What does it COST?'') Recommendation = False"
    "group_matches (ascii_lower ''What does it COST?'') ProfileAnalysis = False"
    "group_matches (ascii_lower ''What does it COST?'') Budget = True"
    by (simp_all add: ascii_lower_def ascii_lower_char_def group_matches_def)
  have h1: "profiles_table example_world ''u1'' = profiles_table ?w2 ''u1''" by simp
  have h2: "universities_table example_world = universities_table ?w2" by simp
  have h3: "fst (generateAIResponse ascii_lower profiles_select universities_select
            ''What does it COST?'' ''u1'' example_world) = Inr (budget_text example_profile)"
    by (simp add: generateAIResponse_pg example_world_facts g counsellor_reply_no_fetch)
  have n2: "next_fault ?w2 = None" "profiles_table ?w2 ''u1'' = Some example_profile"
    by (simp_all add: next_fault_def example_world_def)
  have h4: "fst (generateAIResponse ascii_lower profiles_select universities_select
            ''What does it COST?'' ''u1'' ?w2)
            = Inr (budget_text (the (profiles_table ?w2 ''u1'')))"
    by (simp add: generateAIResponse_pg n2 g counsellor_reply_no_fetch example_world_facts)
  from generateAIResponse_deterministic [OF h1 h2 h3 h4]
  have "budget_text example_profile = budget_text (the (profiles_table ?w2 ''u1''))" .
  with h1 h2 h3 h4 show ?thesis by simp
qed

lemma slices:
  "dream_schools us = take 2 us" "target_schools us = take 3 (drop 2 us)"
  "safe_schools us = take 3 (drop 5 us)"
  by (simp_all add: dream_schools_def target_schools_def safe_schools_def slice_def)

lemma groups_take8: "take 2 us @ take 3 (drop 2 us) @ take 3 (drop 5 us) = take 8 us"
proof -
  have "take 8 us = take 2 us @ take 6 (drop 2 us)"
    using take_add [of 2 6 us] by simp
  also have "take 6 (drop 2 us) = take 3 (drop 2 us) @ take 3 (drop 3 (drop 2 us))"
    using take_add [of 3 3 "drop 2 us"] by simp
  finally show ?thesis by simp
qed

lemma distinct_match_list: "distinct (universities_table w) \<Longrightarrow> distinct (match_list w p)"
  by (simp add: match_list_def)

lemma groups_disjoint:
  assumes "distinct us"
  shows "set (take 2 us) \<inter> set (take 3 (drop 2 us)) = {}
       \<and> set (take 2 us) \<inter> set (take 3 (drop 5 us)) = {}
       \<and> set (take 3 (drop 2 us)) \<inter> set (take 3 (drop 5 us)) = {}"
proof -
  from assms have "distinct (take 8 us)" by simp
  then have "distinct (take 2 us @ take 3 (drop 2 us) @ take 3 (drop 5 us))"
    by (simp only: groups_take8)
  then show ?thesis by auto
qed

lemma lines_unfold:
  "dream_line profile =
     (\<lambda>uni. ''- **'' @ name uni @ ''** ('' @ country uni @ ''): Acceptance rate '' @
        (case acceptance_rate uni of None \<Rightarrow> ''null'' | Some h \<Rightarrow> show_hundredths h) @
        ''%. This is a reach school but your '' @
        (case field_of_study profile of None \<Rightarrow> ''background''
         | Some f \<Rightarrow> if f = [] then ''background'' else f) @
        '' makes you competitive.\<newline>'')"
  "target_line =
     (\<lambda>uni. ''- **'' @ name uni @ ''** ('' @ country uni @ ''): Acceptance rate '' @
        (case acceptance_rate uni of None \<Rightarrow> ''null'' | Some h \<Rightarrow> show_hundredths h) @
        ''%. Your profile aligns well with their requirements.\<newline>'')"
  "safe_line =
     (\<lambda>uni. ''- **'' @ name uni @ ''** ('' @ country uni @ ''): Acceptance rate '' @
        (case acceptance_rate uni of None \<Rightarrow> ''null'' | Some h \<Rightarrow> show_hundredths h) @
        ''%. Strong likelihood of admission.\<newline>'')"
  by (simp_all add: fun_eq_iff dream_line_def target_line_def safe_line_def uni_line_head_def
      show_rate_def field_or_background_def)

lemma recommendations_text_unfold:
  "recommendations_text profile universities =
     ''Based on your profile (GPA: '' @
     (case gpa profile of None \<Rightarrow> ''N/A''
      | Some h \<Rightarrow> if h = 0 then ''N/A'' else show_hundredths h) @
     '', Budget: $'' @
     show_int (case budget_min profile of None \<Rightarrow> 0 | Some n \<Rightarrow> n) @ ''-'' @
     show_int (case budget_max profile of None \<Rightarrow> 0 | Some n \<Rightarrow> n) @
     ''), here are my recommendations:\<newline>\<newline>'' @
     [CHR 0xF0, CHR 0x9F, CHR 0x8C, CHR 0x9F] @ '' **Dream Schools** (Reach):\<newline>'' @
     concat (map (dream_line profile) (take 2 universities)) @
     ''\<newline>'' @ [CHR 0xF0, CHR 0x9F, CHR 0x8E, CHR 0xAF] @
     '' **Target Schools** (Match):\<newline>'' @
     concat (map target_line (take 3 (drop 2 universities))) @
     ''\<newline>'' @ [CHR 0xE2, CHR 0x9C, CHR 0x85] @
     '' **Safe Schools** (Likely):\<newline>'' @
     concat (map safe_line (take 3 (drop 5 universities))) @
     ''\<newline>Would you like me to add any of these to your shortlist?''"
  by (simp add: recommendations_text_def recommendations_intro_def dream_heading_def
      target_heading_def safe_heading_def recommendations_outro_def gpa_or_NA_def or_zero_def
      slices)

lemma ranking_key_unfold:
  "ranking_key = (\<lambda>u. case ranking u of None \<Rightarrow> (1 :: nat, 0 :: int) | Some r \<Rightarrow> (0, r))"
  by (simp add: fun_eq_iff ranking_key_def)

lemma example_catalogue_match_list:
  "match_list example_catalogue example_profile =
     [example_university ''x1'' ''Alpha University'' ''USA'' 1,
      example_university ''x2'' ''Beta Institute'' ''USA'' 2,
      example_university ''x4'' ''Delta Polytechnic'' ''USA'' 3,
      example_university ''x5'' ''Epsilon University'' ''USA'' 4,
      example_university ''x6'' ''Zeta College'' ''USA'' 5,
      example_university ''x7'' ''Eta School of Engineering'' ''USA'' 6,
      example_university ''x8'' ''Theta Institute'' ''USA'' 7,
      example_university ''x9'' ''Iota University'' ''USA'' 8,
      example_university ''x10'' ''Kappa College'' ''USA'' 9]"
  by (simp add: match_list_def example_catalogue_def example_world_def example_profile_def
      recommendation_filters_def matches_filters_def example_university_def ranking_key_def)

text \<open>
  Claim C9. When the profile and the universities are fetched without an error and
  the message is a recommendation request, the reply for an empty match list is the
  invitation to broaden the search; for a non-empty one it is the text that lists,
  by name, country and acceptance rate, the first two universities of the match list
  under the heading of the Dream schools, the next three under the heading of the
  Target schools and the next three under the heading of the Safe schools. The match
  list is in the order of the ranking, the universities without a ranking last; the
  three groups together are the first eight universities of the list at most, and
  they are pairwise disjoint when the rows of the table are pairwise different.
\<close>

theorem recommendation_groups:
  assumes "next_fault w = None" and "next_fault (sent (Select_profiles userId) w) = None"
    and "profiles_table w userId = Some profile"
    and "group_matches (toLowerCase userMessage) Recommendation"
  shows "fst (generateAIResponse toLowerCase profiles_select universities_select
               userMessage userId w) =
         Inr (if match_list w profile = []
              then ''I couldn't find universities matching your exact criteria. '' @
                ''Let me broaden the search. Could you tell me more about what's '' @
                ''most important to you - location, program, or budget?''
              else ''Based on your profile (GPA: '' @
                   (case gpa profile of None \<Rightarrow> ''N/A''
                    | Some h \<Rightarrow> if h = 0 then ''N/A'' else show_hundredths h) @
                   '', Budget: $'' @
                   show_int (case budget_min profile of None \<Rightarrow> 0 | Some n \<Rightarrow> n) @ ''-'' @
                   show_int (case budget_max profile of None \<Rightarrow> 0 | Some n \<Rightarrow> n) @
                   ''), here are my recommendations:\<newline>\<newline>'' @
                   [CHR 0xF0, CHR 0x9F, CHR 0x8C, CHR 0x9F] @ '' **Dream Schools** (Reach):\<newline>'' @
                   concat (map (\<lambda>uni. ''- **'' @ name uni @ ''** ('' @ country uni @ ''): Acceptance rate '' @
                                (case acceptance_rate uni of None \<Rightarrow> ''null'' | Some h \<Rightarrow> show_hundredths h) @
                                ''%. This is a reach school but your '' @
                                (case field_of_study profile of None \<Rightarrow> ''background''
                            | Some f \<Rightarrow> if f = [] then ''background'' else f) @
                                '' makes you competitive.\<newline>'')
                             (take 2 (match_list w profile))) @
                   ''\<newline>'' @ [CHR 0xF0, CHR 0x9F, CHR 0x8E, CHR 0xAF] @
                   '' **Target Schools** (Match):\<newline>'' @
                   concat (map (\<lambda>uni. ''- **'' @ name uni @ ''** ('' @ country uni @ ''): Acceptance rate '' @
                                (case acceptance_rate uni of None \<Rightarrow> ''null'' | Some h \<Rightarrow> show_hundredths h) @
                                ''%. Your profile aligns well with their requirements.\<newline>'')
                             (take 3 (drop 2 (match_list w profile)))) @
                   ''\<newline>'' @ [CHR 0xE2, CHR 0x9C, CHR 0x85] @
                   '' **Safe Schools** (Likely):\<newline>'' @
                   concat (map (\<lambda>uni. ''- **'' @ name uni @ ''** ('' @ country uni @ ''): Acceptance rate '' @
                                (case acceptance_rate uni of None \<Rightarrow> ''null'' | Some h \<Rightarrow> show_hundredths h) @
                                ''%. Strong likelihood of admission.\<newline>'')
                             (take 3 (drop 5 (match_list w profile)))) @
                   ''\<newline>Would you like me to add any of these to your shortlist?'')
       \<and> sorted (map (\<lambda>u. case ranking u of None \<Rightarrow> (1 :: nat, 0 :: int) | Some r \<Rightarrow> (0, r))
                     (match_list w profile))
       \<and> take 2 (match_list w profile) @ take 3 (drop 2 (match_list w profile)) @
           take 3 (drop 5 (match_list w profile)) = take 8 (match_list w profile)
       \<and> length (take 2 (match_list w profile) @ take 3 (drop 2 (match_list w profile)) @
                 take 3 (drop 5 (match_list w profile))) \<le> 8
       \<and> (distinct (universities_table w) \<longrightarrow>
            set (take 2 (match_list w profile)) \<inter> set (take 3 (drop 2 (match_list w profile))) = {}
          \<and> set (take 2 (match_list w profile)) \<inter> set (take 3 (drop 5 (match_list w profile))) = {}
          \<and> set (take 3 (drop 2 (match_list w profile)))
              \<inter> set (take 3 (drop 5 (match_list w profile))) = {})"
proof -
  have a: "fst (generateAIResponse toLowerCase profiles_select universities_select
               userMessage userId w) =
         Inr (if match_list w profile = [] then broaden_text
              else recommendations_text profile (match_list w profile))"
    using assms by (simp add: generateAIResponse_pg)
  have b: "sorted (map ranking_key (match_list w profile))"
    by (simp add: match_list_def)
  have c: "take 2 (match_list w profile) @ take 3 (drop 2 (match_list w profile)) @
           take 3 (drop 5 (match_list w profile)) = take 8 (match_list w profile)"
    by (rule groups_take8)
  have d: "length (take 2 (match_list w profile) @ take 3 (drop 2 (match_list w profile)) @
                 take 3 (drop 5 (match_list w profile))) \<le> 8"
    by (simp only: c) simp
  have e: "distinct (universities_table w) \<longrightarrow>
            set (take 2 (match_list w profile)) \<inter> set (take 3 (drop 2 (match_list w profile))) = {}
          \<and> set (take 2 (match_list w profile)) \<inter> set (take 3 (drop 5 (match_list w profile))) = {}
          \<and> set (take 3 (drop 2 (match_list w profile)))
              \<inter> set (take 3 (drop 5 (match_list w profile))) = {}"
    using groups_disjoint [OF distinct_match_list] by blast
  from a have a': "fst (generateAIResponse toLowerCase profiles_select universities_select
               userMessage userId w) =
         Inr (if match_list w profile = []
              then ''I couldn't find universities matching your exact criteria. '' @
                ''Let me broaden the search. Could you tell me more about what's '' @
                ''most important to you - location, program, or budget?''
              else ''Based on your profile (GPA: '' @
                   (case gpa profile of None \<Rightarrow> ''N/A''
                    | Some h \<Rightarrow> if h = 0 then ''N/A'' else show_hundredths h) @
                   '', Budget: $'' @
                   show_int (case budget_min profile of None \<Rightarrow> 0 | Some n \<Rightarrow> n) @ ''-'' @
                   show_int (case budget_max profile of None \<Rightarrow> 0 | Some n \<Rightarrow> n) @
                   ''), here are my recommendations:\<newline>\<newline>'' @
                   [CHR 0xF0, CHR 0x9F, CHR 0x8C, CHR 0x9F] @ '' **Dream Schools** (Reach):\<newline>'' @
                   concat (map (\<lambda>uni. ''- **'' @ name uni @ ''** ('' @ country uni @ ''): Acceptance rate '' @
                                (case acceptance_rate uni of None \<Rightarrow> ''null'' | Some h \<Rightarrow> show_hundredths h) @
                                ''%. This is a reach school but your '' @
                                (case field_of_study profile of None \<Rightarrow> ''background''
                            | Some f \<Rightarrow> if f = [] then ''background'' else f) @
                                '' makes you competitive.\<newline>'')
                             (take 2 (match_list w profile))) @
                   ''\<newline>'' @ [CHR 0xF0, CHR 0x9F, CHR 0x8E, CHR 0xAF] @
                   '' **Target Schools** (Match):\<newline>'' @
                   concat (map (\<lambda>uni. ''- **'' @ name uni @ ''** ('' @ country uni @ ''): Acceptance rate '' @
                                (case acceptance_rate uni of None \<Rightarrow> ''null'' | Some h \<Rightarrow> show_hundredths h) @
                                ''%. Your profile aligns well with their requirements.\<newline>'')
                             (take 3 (drop 2 (match_list w profile)))) @
                   ''\<newline>'' @ [CHR 0xE2, CHR 0x9C, CHR 0x85] @
                   '' **Safe Schools** (Likely):\<newline>'' @
                   concat (map (\<lambda>uni. ''- **'' @ name uni @ ''** ('' @ country uni @ ''): Acceptance rate '' @
                                (case acceptance_rate uni of None \<Rightarrow> ''null'' | Some h \<Rightarrow> show_hundredths h) @
                                ''%. Strong likelihood of admission.\<newline>'')
                             (take 3 (drop 5 (match_list w profile)))) @
                   ''\<newline>Would you like me to add any of these to your shortlist?'')"
    by (simp add: recommendations_text_unfold lines_unfold broaden_text_def)
  from b have b': "sorted (map (\<lambda>u. case ranking u of None \<Rightarrow> (1 :: nat, 0 :: int) | Some r \<Rightarrow> (0, r))
                     (match_list w profile))"
    by (simp only: ranking_key_unfold)
  from a' b' c d e show ?thesis by (intro conjI)
qed

theorem recommendation_groups_witness:
  "next_fault example_catalogue = None
   \<and> next_fault (sent (Select_profiles ''u1'') example_catalogue) = None
   \<and> profiles_table example_catalogue ''u1'' = Some example_profile
   \<and> group_matches (ascii_lower ''Please RECOMMEND something'') Recommendation
   \<and> distinct (universities_table example_catalogue)
   \<and> length (match_list example_catalogue example_profile) = 9
   \<and> fst (generateAIResponse ascii_lower profiles_select universities_select
            ''Please RECOMMEND something'' ''u1'' example_catalogue)
     = Inr (''Based on your profile (GPA: 3.7, Budget: $10000-50000), here '' @
            ''are my recommendations:\<newline>\<newline>'' @
            [CHR 0xF0, CHR 0x9F, CHR 0x8C, CHR 0x9F] @
            '' **Dream Schools** (Reach):\<newline>- **Alpha University** '' @
            ''(USA): Acceptance rate 12.5%. This is a reach school but your '' @
            ''Physics makes you competitive.\<newline>- **Beta Institute** '' @
            ''(USA): Acceptance rate 12.5%. This is a reach school but your '' @
            ''Physics makes you competitive.\<newline>\<newline>'' @
            [CHR 0xF0, CHR 0x9F, CHR 0x8E, CHR 0xAF] @
            '' **Target Schools** (Match):\<newline>- **Delta Polytechnic** '' @
            ''(USA): Acceptance rate 12.5%. Your profile aligns well with '' @
            ''their requirements.\<newline>- **Epsilon University** (USA): '' @
            ''Acceptance rate 12.5%. Your profile aligns well with their '' @
            ''requirements.\<newline>- **Zeta College** (USA): Acceptance '' @
            ''rate 12.5%. Your profile aligns well with their requirements.\<newline>\<newline>'' @
            [CHR 0xE2, CHR 0x9C, CHR 0x85] @
            '' **Safe Schools** (Likely):\<newline>- **Eta School of Engineering** '' @
            ''(USA): Acceptance rate 12.5%. Strong likelihood of admission.\<newline>- '' @
            ''**Theta Institute** (USA): Acceptance rate 12.5%. Strong likelihood '' @
            ''of admission.\<newline>- **Iota University** (USA): Acceptance '' @
            ''rate 12.5%. Strong likelihood of admission.\<newline>\<newline>Would '' @
            ''you like me to add any of these to your shortlist?'')
   \<and> set (take 3 (drop 2 (match_list example_catalogue example_profile)))
       \<inter> set (take 3 (drop 5 (match_list example_catalogue example_profile))) = {}"
proof -
  have g: "group_matches (ascii_lower ''Please RECOMMEND something'') Recommendation"
    by (simp add: ascii_lower_def ascii_lower_char_def group_matches_def)
  have f: "next_fault example_catalogue = None"
    "next_fault (sent (Select_profiles ''u1'') example_catalogue) = None"
    "profiles_table example_catalogue ''u1'' = Some example_profile"
    by (simp_all add: example_catalogue_def next_fault_def sent_def example_world_def)
  have dst: "distinct (universities_table example_catalogue)"
    by (simp add: example_catalogue_def example_university_def)
  have len: "length (match_list example_catalogue example_profile) = 9"
    by (simp add: example_catalogue_match_list)
  note t = recommendation_groups
      [where toLowerCase = ascii_lower and userMessage = "''Please RECOMMEND something''"
         and w = example_catalogue and userId = "''u1''" and profile = example_profile,
       OF f(1) f(2) f(3) g]
  from t have a: "fst (generateAIResponse ascii_lower profiles_select universities_select
            ''Please RECOMMEND something'' ''u1'' example_catalogue)
     = Inr (''Based on your profile (GPA: 3.7, Budget: $10000-50000), here '' @
            ''are my recommendations:\<newline>\<newline>'' @
            [CHR 0xF0, CHR 0x9F, CHR 0x8C, CHR 0x9F] @
            '' **Dream Schools** (Reach):\<newline>- **Alpha University** '' @
            ''(USA): Acceptance rate 12.5%. This is a reach school but your '' @
            ''Physics makes you competitive.\<newline>- **Beta Institute** '' @
            ''(USA): Acceptance rate 12.5%. This is a reach school but your '' @
            ''Physics makes you competitive.\<newline>\<newline>'' @
            [CHR 0xF0, CHR 0x9F, CHR 0x8E, CHR 0xAF] @
            '' **Target Schools** (Match):\<newline>- **Delta Polytechnic** '' @
            ''(USA): Acceptance rate 12.5%. Your profile aligns well with '' @
            ''their requirements.\<newline>- **Epsilon University** (USA): '' @
            ''Acceptance rate 12.5%. Your profile aligns well with their '' @
            ''requirements.\<newline>- **Zeta College** (USA): Acceptance '' @
            ''rate 12.5%. Your profile aligns well with their requirements.\<newline>\<newline>'' @
            [CHR 0xE2, CHR 0x9C, CHR 0x85] @
            '' **Safe Schools** (Likely):\<newline>- **Eta School of Engineering** '' @
            ''(USA): Acceptance rate 12.5%. Strong likelihood of admission.\<newline>- '' @
            ''**Theta Institute** (USA): Acceptance rate 12.5%. Strong likelihood '' @
            ''of admission.\<newline>- **Iota University** (USA): Acceptance '' @
            ''rate 12.5%. Strong likelihood of admission.\<newline>\<newline>Would '' @
            ''you like me to add any of these to your shortlist?'')"
    by (simp add: example_catalogue_match_list [unfolded example_profile_def]
        example_university_def example_profile_def
        show_hundredths_def show_int_def show_nat.simps digit_char_def Let_def)
  from t dst
  have b: "set (take 3 (drop 2 (match_list example_catalogue example_profile)))
       \<inter> set (take 3 (drop 5 (match_list example_catalogue example_profile))) = {}"
    by blast
  from f g dst len a b show ?thesis by (intro conjI)
qed

section \<open>Locking a university\<close>

lemma sent_fields [simp]:
  "faults (sent rq w) = tl (faults w)"
  "log (sent rq w) = log w @ [rq]"
  by (simp_all add: sent_def)

lemma is_locked_sent [simp]: "is_locked (sent rq w) = is_locked w"
  by (simp add: is_locked_def fun_eq_iff)

lemma is_shortlisted_sent [simp]: "is_shortlisted (sent rq w) = is_shortlisted w"
  by (simp add: is_shortlisted_def fun_eq_iff)

lemma find_university_sent [simp]: "find_university (sent rq w) = find_university w"
  by (simp add: find_university_def fun_eq_iff)

lemma update_profile_row_fields [simp]:
  "universities_table (update_profile_row u cols w) = universities_table w"
  "shortlisted_table (update_profile_row u cols w) = shortlisted_table w"
  "locked_table (update_profile_row u cols w) = locked_table w"
  "tasks_table (update_profile_row u cols w) = tasks_table w"
  "next_uuid (update_profile_row u cols w) = next_uuid w"
  "faults (update_profile_row u cols w) = faults w"
  "log (update_profile_row u cols w) = log w"
  by (simp_all add: update_profile_row_def split: option.splits)

lemma update_profile_row_profiles:
  "profiles_table (update_profile_row u cols w) v =
     (if v = u then map_option (apply_columns cols) (profiles_table w u) else profiles_table w v)"
  by (simp add: update_profile_row_def split: option.splits)

lemma updateUserStage_pg:
  "updateUserStage profiles_update u st w =
     (case next_fault w of
        Some e \<Rightarrow> (Inl e, sent (Update_profiles u [Set_current_stage st]) w)
      | None \<Rightarrow> (Inr (), update_profile_row u [Set_current_stage st]
                           (sent (Update_profiles u [Set_current_stage st]) w)))"
  by (simp add: updateUserStage_def profiles_update_def round_trip_def split: option.splits)

text \<open>
  Claim C3. A call of \<open>lockUniversity\<close> that returns has inserted the pair of the user
  and the university into the locked table, where it was not before, and has then
  set the stage of the user to \<open>committed\<close>, unless the stage was \<open>committed\<close> or
  \<open>applying\<close>, in which case the profile is as it was and no update was sent.
\<close>

theorem lockUniversity_commits:
  assumes "lockUniversity locked_insert profiles_select profiles_update userId universityId w
           = (Inr (), w')"
  shows "\<not> is_locked w userId universityId
       \<and> locked_table w' = locked_table w @ [new_locked_row w userId universityId]
       \<and> is_locked w' userId universityId
       \<and> (\<exists>p. profiles_table w userId = Some p
              \<and> profiles_table w' userId =
                  Some (if current_stage p = committed \<or> current_stage p = applying then p
                        else p\<lparr>current_stage := committed\<rparr>)
              \<and> log w' = log w @ [Insert_locked userId universityId, Select_profiles userId] @
                    (if current_stage p = committed \<or> current_stage p = applying then []
                     else [Update_profiles userId [Set_current_stage committed]]))"
  using assms
  by (auto simp: lockUniversity_def locked_insert_def round_trip_def getProfile_pg
      updateUserStage_pg new_locked_row_def is_locked_def update_profile_row_profiles
      split: option.splits if_splits)


theorem lockUniversity_commits_witness:
  "fst (lockUniversity locked_insert profiles_select profiles_update ''u1'' ''x1''
          (example_world_at shortlisting)) = Inr ()
   \<and> is_locked (snd (lockUniversity locked_insert profiles_select profiles_update ''u1'' ''x1''
          (example_world_at shortlisting))) ''u1'' ''x1''
   \<and> map_option current_stage
       (profiles_table (snd (lockUniversity locked_insert profiles_select profiles_update
          ''u1'' ''x1'' (example_world_at shortlisting))) ''u1'') = Some committed"
proof -
  let ?w = "example_world_at shortlisting"
  let ?r = "lockUniversity locked_insert profiles_select profiles_update ''u1'' ''x1'' ?w"
  have a: "fst ?r = Inr ()"
    by (simp add: lockUniversity_def locked_insert_def round_trip_def getProfile_pg
        updateUserStage_pg next_fault_def example_world_at_def example_world_def is_locked_def
        find_university_def example_university_def)
  then have h: "?r = (Inr (), snd ?r)"
    by (metis prod.collapse)
  have p: "profiles_table ?w ''u1'' = Some (example_profile\<lparr>current_stage := shortlisting\<rparr>)"
    by (simp add: example_world_at_def)
  from lockUniversity_commits [OF h] p
  have "is_locked (snd ?r) ''u1'' ''x1''"
    and "map_option current_stage (profiles_table (snd ?r) ''u1'') = Some committed"
    by auto
  with a show ?thesis by simp
qed

section \<open>The shortlist is a set\<close>

lemma round_trip_keeps:
  assumes "\<And>v. f (snd (run v)) = f v" and "\<And>rq v. f (sent rq v) = f v"
  shows "f (snd (round_trip rq run w)) = f w"
  using assms by (simp add: round_trip_def split: option.splits)

lemma shortlist_keys_sent [simp]: "shortlist_keys (sent rq w) = shortlist_keys w"
  by (simp add: shortlist_keys_def)

lemma shortlist_keys_update_profile_row [simp]:
  "shortlist_keys (update_profile_row u cols w) = shortlist_keys w"
  by (simp add: shortlist_keys_def)

lemma keys_profiles_select: "shortlist_keys (snd (profiles_select u w)) = shortlist_keys w"
  unfolding profiles_select_def by (rule round_trip_keeps) simp_all

lemma keys_profiles_update: "shortlist_keys (snd (profiles_update u c w)) = shortlist_keys w"
  unfolding profiles_update_def by (rule round_trip_keeps) simp_all

lemma keys_profiles_update_select:
  "shortlist_keys (snd (profiles_update_select u c w)) = shortlist_keys w"
  unfolding profiles_update_select_def by (rule round_trip_keeps) simp_all

lemma keys_universities_select:
  "shortlist_keys (snd (universities_select a b c w)) = shortlist_keys w"
  unfolding universities_select_def by (rule round_trip_keeps) simp_all

lemma keys_shortlisted_select: "shortlist_keys (snd (shortlisted_select u w)) = shortlist_keys w"
  unfolding shortlisted_select_def by (rule round_trip_keeps) simp_all

lemma keys_locked_select: "shortlist_keys (snd (locked_select u w)) = shortlist_keys w"
  unfolding locked_select_def by (rule round_trip_keeps) simp_all

lemma keys_locked_insert: "shortlist_keys (snd (locked_insert u x w)) = shortlist_keys w"
  unfolding locked_insert_def by (rule round_trip_keeps) (simp_all add: shortlist_keys_def)

lemma keys_locked_delete: "shortlist_keys (snd (locked_delete u x w)) = shortlist_keys w"
  unfolding locked_delete_def by (rule round_trip_keeps) (simp_all add: shortlist_keys_def)

lemma keys_tasks_select: "shortlist_keys (snd (tasks_select u w)) = shortlist_keys w"
  unfolding tasks_select_def by (rule round_trip_keeps) simp_all

lemma keys_tasks_insert: "shortlist_keys (snd (tasks_insert_select t w)) = shortlist_keys w"
  unfolding tasks_insert_select_def by (rule round_trip_keeps) (simp_all add: shortlist_keys_def)

lemma keys_shortlisted_update:
  "shortlist_keys (snd (shortlisted_update_category u x c w)) = shortlist_keys w"
  unfolding shortlisted_update_category_def
  by (rule round_trip_keeps) (simp_all add: shortlist_keys_def comp_def)

lemma filter_keys:
  "map (\<lambda>s. (s_user_id s, s_university_id s))
     (filter (\<lambda>s. \<not> (s_user_id s = u \<and> s_university_id s = x)) rows)
   = filter (\<lambda>k. k \<noteq> (u, x)) (map (\<lambda>s. (s_user_id s, s_university_id s)) rows)"
  by (induction rows) auto

lemma filter_keys':
  "map (\<lambda>s. (s_user_id s, s_university_id s))
     (filter (\<lambda>s. s_user_id s = u \<longrightarrow> s_university_id s \<noteq> x) rows)
   = filter (\<lambda>k. k \<noteq> (u, x)) (map (\<lambda>s. (s_user_id s, s_university_id s)) rows)"
  by (induction rows) auto

lemma keys_shortlisted_delete:
  "shortlist_keys (snd (shortlisted_delete u x w)) = shortlist_keys w
   \<or> shortlist_keys (snd (shortlisted_delete u x w)) = filter (\<lambda>k. k \<noteq> (u, x)) (shortlist_keys w)"
  by (simp add: shortlisted_delete_def round_trip_def shortlist_keys_def filter_keys'
      split: option.splits)

lemma keys_shortlisted_insert:
  "shortlist_keys (snd (shortlisted_insert u x c n w)) = shortlist_keys w
   \<or> (u, x) \<notin> set (shortlist_keys w)
     \<and> shortlist_keys (snd (shortlisted_insert u x c n w)) = shortlist_keys w @ [(u, x)]"
  by (auto simp: shortlisted_insert_def round_trip_def shortlist_keys_def is_shortlisted_def
      split: option.splits)


lemma snd_case_response:
  "snd (case q of (r, w') \<Rightarrow> (case error r of Some e \<Rightarrow> (Inl e, w') | None \<Rightarrow> (g r, w'))) = snd q"
  by (simp split: prod.splits option.splits)

lemma execute_keys:
  "shortlist_keys (execute operation w) = shortlist_keys w
   \<or> (\<exists>k. shortlist_keys (execute operation w) = filter (\<lambda>j. j \<noteq> k) (shortlist_keys w))
   \<or> (\<exists>k. k \<notin> set (shortlist_keys w) \<and> shortlist_keys (execute operation w) = shortlist_keys w @ [k])"
proof (cases operation)
  case (GetProfile u)
  then show ?thesis
    by (simp add: getProfile_def snd_case_response keys_profiles_select)
next
  case (CompleteOnboarding u d)
  then show ?thesis
    by (simp add: completeOnboarding_def snd_case_response keys_profiles_update_select)
next
  case (UpdateUserStage u st)
  then show ?thesis
    by (simp add: updateUserStage_def snd_case_response keys_profiles_update)
next
  case (GetUniversities f)
  then show ?thesis
    by (simp add: getUniversities_def Let_def snd_case_response keys_universities_select)
next
  case (GetShortlistedUniversities u)
  then show ?thesis
    by (simp add: getShortlistedUniversities_def snd_case_response keys_shortlisted_select)
next
  case (AddToShortlist u x c n)
  with keys_shortlisted_insert [of u x c "or_null n" w] show ?thesis
    by (auto simp add: addToShortlist_def snd_case_response)
next
  case (RemoveFromShortlist u x)
  with keys_shortlisted_delete [of u x w] show ?thesis
    by (auto simp add: removeFromShortlist_def snd_case_response)
next
  case (UpdateShortlistCategory u x c)
  then show ?thesis
    by (simp add: updateShortlistCategory_def snd_case_response keys_shortlisted_update)
next
  case (GetLockedUniversities u)
  then show ?thesis
    by (simp add: getLockedUniversities_def snd_case_response keys_locked_select)
next
  case (LockUniversity u x)
  have "shortlist_keys (snd (lockUniversity locked_insert profiles_select profiles_update u x w))
        = shortlist_keys w"
    using keys_locked_insert [of u x w]
    by (auto simp: lockUniversity_def getProfile_pg updateUserStage_pg
        split: prod.splits option.splits)
  with LockUniversity show ?thesis by simp
next
  case (UnlockUniversity u x)
  then show ?thesis
    by (simp add: unlockUniversity_def snd_case_response keys_locked_delete)
next
  case (GetTasks u)
  then show ?thesis
    by (simp add: getTasks_def snd_case_response keys_tasks_select)
next
  case (CreateTask u t)
  then show ?thesis
    by (simp add: createTask_def snd_case_response keys_tasks_insert)
qed

lemma execute_distinct:
  "distinct (shortlist_keys w) \<Longrightarrow> distinct (shortlist_keys (execute operation w))"
  using execute_keys [of operation w] by auto

lemma execute_all_distinct:
  "distinct (shortlist_keys w) \<Longrightarrow> distinct (shortlist_keys (execute_all ops w))"
  by (induction ops arbitrary: w) (auto intro: execute_distinct)

lemma addToShortlist_duplicate:
  assumes "is_shortlisted w u x"
  shows "fst (addToShortlist shortlisted_insert u x c n w) =
           Inl (case next_fault w of None \<Rightarrow> unique_violation | Some e \<Rightarrow> e)
         \<and> shortlisted_table (snd (addToShortlist shortlisted_insert u x c n w))
           = shortlisted_table w"
  using assms
  by (simp add: addToShortlist_def shortlisted_insert_def round_trip_def split: option.splits)


text \<open>
  Claim C6. \<open>addToShortlist\<close> for a pair the shortlist holds throws and leaves the
  table as it is; and when no pair occurs twice in the shortlist, no pair occurs twice
  after any sequence of operations of the data-access layer.
\<close>

theorem shortlist_is_a_set:
  "(is_shortlisted w userId universityId \<longrightarrow>
      (\<exists>e. fst (addToShortlist shortlisted_insert userId universityId cat note w) = Inl e)
      \<and> shortlisted_table (snd (addToShortlist shortlisted_insert userId universityId cat note w))
        = shortlisted_table w)
   \<and> (distinct (shortlist_keys w) \<longrightarrow> distinct (shortlist_keys (execute_all ops w)))"
  using addToShortlist_duplicate [of w userId universityId cat "note"]
    execute_all_distinct [of w ops]
  by auto

theorem shortlist_is_a_set_witness:
  "is_shortlisted (execute (AddToShortlist ''u1'' ''x1'' dream None) example_world) ''u1'' ''x1''
   \<and> fst (addToShortlist shortlisted_insert ''u1'' ''x1'' target None
            (execute (AddToShortlist ''u1'' ''x1'' dream None) example_world))
     = Inl unique_violation
   \<and> distinct (shortlist_keys example_world)
   \<and> shortlist_keys
       (execute_all [AddToShortlist ''u1'' ''x1'' dream None,
                     AddToShortlist ''u1'' ''x1'' target None,
                     AddToShortlist ''u1'' ''x2'' safe None] example_world)
     = [(''u1'', ''x1''), (''u1'', ''x2'')]
   \<and> distinct (shortlist_keys
       (execute_all [AddToShortlist ''u1'' ''x1'' dream None,
                     AddToShortlist ''u1'' ''x1'' target None,
                     AddToShortlist ''u1'' ''x2'' safe None] example_world))"
proof -
  let ?w1 = "execute (AddToShortlist ''u1'' ''x1'' dream None) example_world"
  let ?ops = "[AddToShortlist ''u1'' ''x1'' dream None, AddToShortlist ''u1'' ''x1'' target None,
               AddToShortlist ''u1'' ''x2'' safe None]"
  note ev = addToShortlist_def shortlisted_insert_def round_trip_def next_fault_def sent_def
    example_world_def is_shortlisted_def find_university_def example_university_def
    shortlist_keys_def or_null_def unique_violation_def
  have a: "is_shortlisted ?w1 ''u1'' ''x1''"
    by (simp add: ev)
  have b: "fst (addToShortlist shortlisted_insert ''u1'' ''x1'' target None ?w1)
           = Inl unique_violation"
    by (simp add: ev)
  have c: "distinct (shortlist_keys example_world)"
    by (simp add: ev)
  have d: "shortlist_keys (execute_all ?ops example_world) = [(''u1'', ''x1''), (''u1'', ''x2'')]"
    by (simp add: ev)
  from shortlist_is_a_set [of example_world "''u1''" "''x1''" target None ?ops] c
  have e: "distinct (shortlist_keys (execute_all ?ops example_world))"
    by blast
  from a b c d e show ?thesis by (intro conjI)
qed

section \<open>Locked universities and the shortlist\<close>

lemma next_fault_quiet: "faults w = [] \<Longrightarrow> next_fault w = None"
  by (simp add: next_fault_def)

lemma fetch_sent [simp]:
  "fetch_shortlisted (sent rq w) = fetch_shortlisted w"
  "fetch_locked (sent rq w) = fetch_locked w"
  by (simp_all add: fetch_shortlisted_def fetch_locked_def fun_eq_iff)

lemma locked_are_shortlisted_iff:
  "locked_are_shortlisted w u \<longleftrightarrow> (\<forall>x. is_locked w u x \<longrightarrow> is_shortlisted w u x)"
  by (auto simp: locked_are_shortlisted_def is_locked_def list_all_iff)

lemma isShortlisted_in_sync:
  "in_sync page w u \<Longrightarrow> isShortlisted page x = is_shortlisted w u x"
  by (auto simp: in_sync_def isShortlisted_def fetch_shortlisted_def is_shortlisted_def
      list_ex_iff)

lemma isLocked_in_sync:
  "in_sync page w u \<Longrightarrow> isLocked page x = is_locked w u x"
  by (auto simp: in_sync_def isLocked_def fetch_locked_def is_locked_def list_ex_iff)

lemma loadData_quiet:
  assumes "faults w = []"
  shows "Universities_loadData \<lparr>auth_user = Some u, auth_profile = p\<rparr> page w =
    (page\<lparr>st_universities := sort_key ranking_key
             (filter (matches_filters None None None) (universities_table w)),
          shortlisted := fetch_shortlisted w u, locked := fetch_locked w u, loading := False\<rparr>,
     sent (Select_locked u) (sent (Select_shortlisted u) (sent (Select_universities None None None) w)))"
  using assms
  by (simp add: Universities_loadData_def getUniversities_def getShortlistedUniversities_def
      getLockedUniversities_def universities_select_def shortlisted_select_def locked_select_def
      round_trip_def next_fault_quiet)

text \<open>What the page and the remote side satisfy between two clicks of a quiet session.\<close>

lemma fetch_cong:
  "shortlisted_table w' = shortlisted_table w \<Longrightarrow> universities_table w' = universities_table w \<Longrightarrow>
   fetch_shortlisted w' u = fetch_shortlisted w u"
  "locked_table w' = locked_table w \<Longrightarrow> universities_table w' = universities_table w \<Longrightarrow>
   fetch_locked w' u = fetch_locked w u"
  by (simp_all add: fetch_shortlisted_def fetch_locked_def find_university_def)

lemma is_cong:
  "shortlisted_table w' = shortlisted_table w \<Longrightarrow> is_shortlisted w' = is_shortlisted w"
  "locked_table w' = locked_table w \<Longrightarrow> is_locked w' = is_locked w"
  by (simp_all add: is_shortlisted_def is_locked_def fun_eq_iff)

lemma loadData_restores:
  assumes "faults w = []"
    and "Universities_loadData \<lparr>auth_user = Some u, auth_profile = p\<rparr> page w = (page', w')"
  shows "faults w' = [] \<and> in_sync page' w' u
       \<and> shortlisted_table w' = shortlisted_table w \<and> locked_table w' = locked_table w
       \<and> universities_table w' = universities_table w \<and> profiles_table w' = profiles_table w"
  using assms(2) unfolding loadData_quiet [OF assms(1)]
  by (auto simp: in_sync_def assms(1))

lemma lockUniversity_quiet:
  assumes "faults w = []"
    and "lockUniversity locked_insert profiles_select profiles_update u x w = (r, w1)"
  shows "faults w1 = [] \<and> shortlisted_table w1 = shortlisted_table w
       \<and> universities_table w1 = universities_table w
       \<and> (case r of Inl e \<Rightarrow> locked_table w1 = locked_table w
           | Inr v \<Rightarrow> locked_table w1 = locked_table w @ [new_locked_row w u x])"
  using assms
  by (auto simp: lockUniversity_def locked_insert_def round_trip_def getProfile_pg
      updateUserStage_pg new_locked_row_def next_fault_quiet
      split: option.splits if_splits)

lemma addToShortlist_quiet:
  assumes "faults w = []"
    and "addToShortlist shortlisted_insert u x c n w = (r, w1)"
  shows "faults w1 = [] \<and> locked_table w1 = locked_table w
       \<and> universities_table w1 = universities_table w
       \<and> (case r of Inl e \<Rightarrow> shortlisted_table w1 = shortlisted_table w
           | Inr v \<Rightarrow> (\<exists>row. s_user_id row = u \<and> s_university_id row = x
                          \<and> shortlisted_table w1 = shortlisted_table w @ [row]))"
  using assms
  by (auto simp: addToShortlist_def shortlisted_insert_def round_trip_def next_fault_quiet
      split: option.splits if_splits)

lemma removeFromShortlist_quiet:
  assumes "faults w = []"
    and "removeFromShortlist shortlisted_delete u x w = (r, w1)"
  shows "faults w1 = [] \<and> locked_table w1 = locked_table w
       \<and> universities_table w1 = universities_table w
       \<and> shortlisted_table w1 =
           filter (\<lambda>s. \<not> (s_user_id s = u \<and> s_university_id s = x)) (shortlisted_table w)"
  using assms
  by (auto simp: removeFromShortlist_def shortlisted_delete_def round_trip_def next_fault_quiet
      split: option.splits if_splits)

lemma unlockUniversity_quiet:
  assumes "faults w = []"
    and "unlockUniversity locked_delete u x w = (r, w1)"
  shows "faults w1 = [] \<and> shortlisted_table w1 = shortlisted_table w
       \<and> universities_table w1 = universities_table w
       \<and> locked_table w1 =
           filter (\<lambda>l. \<not> (l_user_id l = u \<and> l_university_id l = x)) (locked_table w)"
  using assms
  by (auto simp: unlockUniversity_def locked_delete_def round_trip_def next_fault_quiet
      split: option.splits if_splits)

lemma updateUserStage_quiet:
  assumes "faults w = []"
  shows "faults (snd (updateUserStage profiles_update u st w)) = []
       \<and> shortlisted_table (snd (updateUserStage profiles_update u st w)) = shortlisted_table w
       \<and> locked_table (snd (updateUserStage profiles_update u st w)) = locked_table w
       \<and> universities_table (snd (updateUserStage profiles_update u st w)) = universities_table w"
  using assms by (simp add: updateUserStage_pg next_fault_quiet)


lemma in_sync_cong:
  "in_sync page w u \<Longrightarrow> shortlisted_table w' = shortlisted_table w \<Longrightarrow>
   locked_table w' = locked_table w \<Longrightarrow> universities_table w' = universities_table w \<Longrightarrow>
   in_sync page w' u"
  using fetch_cong(1) [of w' w u] fetch_cong(2) [of w' w u] by (simp add: in_sync_def)

lemma is_shortlisted_iff:
  "is_shortlisted w u x \<longleftrightarrow>
   (\<exists>s \<in> set (shortlisted_table w). s_user_id s = u \<and> s_university_id s = x)"
  unfolding is_shortlisted_def by (simp add: image_iff) blast

lemma is_locked_iff:
  "is_locked w u x \<longleftrightarrow> (\<exists>l \<in> set (locked_table w). l_user_id l = u \<and> l_university_id l = x)"
  unfolding is_locked_def by (simp add: image_iff) blast

lemma is_shortlisted_mono:
  "set (shortlisted_table w) \<subseteq> set (shortlisted_table w') \<Longrightarrow> is_shortlisted w u x \<Longrightarrow>
   is_shortlisted w' u x"
  unfolding is_shortlisted_iff by blast

lemma is_shortlisted_filter:
  assumes "shortlisted_table w' =
           filter (\<lambda>s. \<not> (s_user_id s = u \<and> s_university_id s = x)) (shortlisted_table w)"
  shows "is_shortlisted w' u y \<longleftrightarrow> is_shortlisted w u y \<and> y \<noteq> x"
  unfolding is_shortlisted_iff assms by (simp only: set_filter mem_Collect_eq) blast

lemma is_locked_filter:
  assumes "locked_table w' =
           filter (\<lambda>l. \<not> (l_user_id l = u \<and> l_university_id l = x)) (locked_table w)"
  shows "is_locked w' u y \<longleftrightarrow> is_locked w u y \<and> y \<noteq> x"
  unfolding is_locked_iff assms by (simp only: set_filter mem_Collect_eq) blast

lemma is_locked_append:
  assumes "locked_table w' = locked_table w @ [new_locked_row w u x]"
  shows "is_locked w' u y \<longleftrightarrow> is_locked w u y \<or> y = x"
  unfolding is_locked_iff assms by (simp add: new_locked_row_def) blast

lemma inv_grow:
  assumes "locked_are_shortlisted w u" and "locked_table w' = locked_table w"
    and "set (shortlisted_table w) \<subseteq> set (shortlisted_table w')"
  shows "locked_are_shortlisted w' u"
  using assms(1) is_shortlisted_mono [OF assms(3)]
  unfolding locked_are_shortlisted_iff is_cong(2) [OF assms(2)] by blast

lemma inv_remove:
  assumes "locked_are_shortlisted w u" and "locked_table w' = locked_table w"
    and "\<not> is_locked w u x"
    and "shortlisted_table w' =
           filter (\<lambda>s. \<not> (s_user_id s = u \<and> s_university_id s = x)) (shortlisted_table w)"
  shows "locked_are_shortlisted w' u"
  using assms(1,3)
  unfolding locked_are_shortlisted_iff is_cong(2) [OF assms(2)] is_shortlisted_filter [OF assms(4)]
  by blast

lemma inv_lock:
  assumes "locked_are_shortlisted w u" and "shortlisted_table w' = shortlisted_table w"
    and "is_shortlisted w u x"
    and "locked_table w' = locked_table w @ [new_locked_row w u x]"
  shows "locked_are_shortlisted w' u"
  using assms(1,3)
  unfolding locked_are_shortlisted_iff is_cong(1) [OF assms(2)] is_locked_append [OF assms(4)]
  by blast

lemma inv_unlock:
  assumes "locked_are_shortlisted w u" and "shortlisted_table w' = shortlisted_table w"
    and "locked_table w' =
           filter (\<lambda>l. \<not> (l_user_id l = u \<and> l_university_id l = x)) (locked_table w)"
  shows "locked_are_shortlisted w' u"
  using assms(1)
  unfolding locked_are_shortlisted_iff is_cong(1) [OF assms(2)] is_locked_filter [OF assms(3)]
  by blast

lemma perform_preserves:
  assumes q: "faults w = []" and sy: "in_sync page w u" and inv: "locked_are_shortlisted w u"
    and off: "offered page c"
    and run: "perform \<lparr>auth_user = Some u, auth_profile = p\<rparr> c page w = (page', w')"
  shows "faults w' = [] \<and> in_sync page' w' u \<and> locked_are_shortlisted w' u"
proof (cases c)
  case (Add university cat)
  obtain r w1 where a: "addToShortlist shortlisted_insert u (uni_id university) cat None w = (r, w1)"
    by (cases "addToShortlist shortlisted_insert u (uni_id university) cat None w")
  note a1 = addToShortlist_quiet [OF q a]
  show ?thesis
  proof (cases r)
    case (Inl e)
    with a run Add have "page' = page" "w' = w1"
      by (simp_all add: handleAddToShortlist_def)
    with a1 Inl sy inv show ?thesis
      by (auto intro!: in_sync_cong [of page w u] inv_grow [of w u])
  next
    case (Inr v)
    obtain page1 w2 where l: "Universities_loadData \<lparr>auth_user = Some u, auth_profile = p\<rparr> page w1
        = (page1, w2)"
      by (cases "Universities_loadData \<lparr>auth_user = Some u, auth_profile = p\<rparr> page w1")
    from a1 have q1: "faults w1 = []" by simp
    note l1 = loadData_restores [OF q1 l]
    from l1 have q2: "faults w2 = []" by simp
    note u1 = updateUserStage_quiet [OF q2, of u shortlisting]
    from a l run Add Inr have pw: "page' = page1"
      "w' = w2 \<or> w' = snd (updateUserStage profiles_update u shortlisting w2)"
      by (auto simp: handleAddToShortlist_def split: if_splits)
    from pw(2) l1 u1 have t: "faults w' = []" "shortlisted_table w' = shortlisted_table w2"
      "locked_table w' = locked_table w2" "universities_table w' = universities_table w2"
      by auto
    from l1 have "in_sync page1 w2 u" by simp
    from in_sync_cong [OF this t(2) t(3) t(4)] pw(1) have s': "in_sync page' w' u" by simp
    from a1 Inr l1 t have "locked_table w' = locked_table w"
      "set (shortlisted_table w) \<subseteq> set (shortlisted_table w')"
      by auto
    from inv_grow [OF inv this] t(1) s' show ?thesis by simp
  qed
next
  case (Remove x)
  obtain r w1 where a: "removeFromShortlist shortlisted_delete u x w = (r, w1)"
    by (cases "removeFromShortlist shortlisted_delete u x w")
  note a1 = removeFromShortlist_quiet [OF q a]
  from off Remove sy have nl: "\<not> is_locked w u x"
    by (simp add: isLocked_in_sync)
  from a1 have q1: "faults w1 = []" by simp
  from a1 have i1: "locked_are_shortlisted w1 u"
    by (intro inv_remove [OF inv _ nl]) simp_all
  show ?thesis
  proof (cases r)
    case (Inl e)
    with a have False
      by (auto simp: removeFromShortlist_def shortlisted_delete_def round_trip_def
          next_fault_quiet [OF q] split: option.splits)
    then show ?thesis ..
  next
    case (Inr v)
    with a run Remove have l: "Universities_loadData \<lparr>auth_user = Some u, auth_profile = p\<rparr> page w1
        = (page', w')"
      by (simp add: handleRemoveFromShortlist_def)
    note l1 = loadData_restores [OF q1 l]
    from l1 have "locked_table w' = locked_table w1"
      "set (shortlisted_table w1) \<subseteq> set (shortlisted_table w')" by auto
    from inv_grow [OF i1 this] l1 show ?thesis by simp
  qed
next
  case (Lock x)
  obtain r w1 where a: "lockUniversity locked_insert profiles_select profiles_update u x w = (r, w1)"
    by (cases "lockUniversity locked_insert profiles_select profiles_update u x w")
  note a1 = lockUniversity_quiet [OF q a]
  from off Lock sy have sh: "is_shortlisted w u x"
    by (simp add: isShortlisted_in_sync)
  from a1 have q1: "faults w1 = []" by simp
  show ?thesis
  proof (cases r)
    case (Inl e)
    with a run Lock have "page' = page" "w' = w1"
      by (simp_all add: handleLock_def)
    with a1 Inl sy inv show ?thesis
      by (auto intro!: in_sync_cong [of page w u] inv_grow [of w u])
  next
    case (Inr v)
    with a1 have i1: "locked_are_shortlisted w1 u"
      by (intro inv_lock [OF inv _ sh]) simp_all
    from Inr a run Lock have l: "Universities_loadData \<lparr>auth_user = Some u, auth_profile = p\<rparr> page w1
        = (page', w')"
      by (simp add: handleLock_def)
    note l1 = loadData_restores [OF q1 l]
    from l1 have "locked_table w' = locked_table w1"
      "set (shortlisted_table w1) \<subseteq> set (shortlisted_table w')" by auto
    from inv_grow [OF i1 this] l1 show ?thesis by simp
  qed
next
  case (Unlock x)
  show ?thesis
  proof (cases "x = []")
    case True
    with run Unlock have "page' = page" "w' = w"
      by (simp_all add: handleUnlock_def or_null_def)
    with q sy inv show ?thesis by simp
  next
    case False
    obtain r w1 where a: "unlockUniversity locked_delete u x w = (r, w1)"
      by (cases "unlockUniversity locked_delete u x w")
    note a1 = unlockUniversity_quiet [OF q a]
    from a1 have q1: "faults w1 = []" by simp
    from a1 have i1: "locked_are_shortlisted w1 u"
      by (intro inv_unlock [OF inv]) simp_all
    have r: "r = Inr ()"
      using a by (auto simp: unlockUniversity_def locked_delete_def round_trip_def
          next_fault_quiet [OF q] split: option.splits)
    with False a run Unlock
    have l: "Universities_loadData \<lparr>auth_user = Some u, auth_profile = p\<rparr> page w1 = (page', w')"
      by (simp add: handleUnlock_def or_null_def)
    note l1 = loadData_restores [OF q1 l]
    from l1 have "locked_table w' = locked_table w1"
      "set (shortlisted_table w1) \<subseteq> set (shortlisted_table w')" by auto
    from inv_grow [OF i1 this] l1 show ?thesis by simp
  qed
next
  case Reload
  with run have l: "Universities_loadData \<lparr>auth_user = Some u, auth_profile = p\<rparr> page w
      = (page', w')" by simp
  note l1 = loadData_restores [OF q l]
  from l1 have "locked_table w' = locked_table w"
    "set (shortlisted_table w) \<subseteq> set (shortlisted_table w')" by auto
  from inv_grow [OF inv this] l1 show ?thesis by simp
qed

lemma offered_not_loading: "offered page c \<Longrightarrow> c \<noteq> Reload \<Longrightarrow> \<not> loading page"
  by (cases c) (auto simp: cards_def split: if_splits)

lemma perform_restores:
  assumes q: "faults w = []" and sy: "loading page \<or> in_sync page w u"
    and inv: "locked_are_shortlisted w u" and off: "offered page c"
    and run: "perform \<lparr>auth_user = Some u, auth_profile = p\<rparr> c page w = (page', w')"
  shows "faults w' = [] \<and> in_sync page' w' u \<and> locked_are_shortlisted w' u"
proof (cases "c = Reload")
  case True
  with run have l: "Universities_loadData \<lparr>auth_user = Some u, auth_profile = p\<rparr> page w
      = (page', w')" by simp
  note l1 = loadData_restores [OF q l]
  from l1 have "locked_table w' = locked_table w"
    "set (shortlisted_table w) \<subseteq> set (shortlisted_table w')" by auto
  from inv_grow [OF inv this] l1 show ?thesis by simp
next
  case False
  from offered_not_loading [OF off False] sy have "in_sync page w u" by simp
  from perform_preserves [OF q this inv off run] show ?thesis .
qed

lemma session_preserves:
  "faults w = [] \<Longrightarrow> loading page \<or> in_sync page w u \<Longrightarrow> locked_are_shortlisted w u \<Longrightarrow>
   list_all (\<lambda>step. fst step = After_handler) steps \<Longrightarrow>
   session u steps seen (page, w) = Some (page', w') \<Longrightarrow>
   faults w' = [] \<and> locked_are_shortlisted w' u
   \<and> (steps \<noteq> [] \<or> in_sync page w u \<longrightarrow> in_sync page' w' u)"
proof (induction steps arbitrary: page w seen)
  case Nil
  then show ?case by simp
next
  case (Cons step steps)
  obtain m p c where step: "step = (m, p, c)" by (cases step)
  from Cons.prems(4) step have m: "m = After_handler"
    and rest_after: "list_all (\<lambda>step. fst step = After_handler) steps" by simp_all
  from Cons.prems(5) step m have off: "offered page c"
    by (simp split: if_splits)
  obtain page1 w1 where r: "perform \<lparr>auth_user = Some u, auth_profile = p\<rparr> c page w = (page1, w1)"
    by (cases "perform \<lparr>auth_user = Some u, auth_profile = p\<rparr> c page w")
  from Cons.prems(5) step m off r have rest: "session u steps page (page1, w1) = Some (page', w')"
    by simp
  from perform_restores [OF Cons.prems(1) Cons.prems(2) Cons.prems(3) off r]
  have h: "faults w1 = []" "in_sync page1 w1 u" "locked_are_shortlisted w1 u" by simp_all
  from h(2) have "loading page1 \<or> in_sync page1 w1 u" by simp
  from Cons.IH [OF h(1) this h(3) rest_after rest] h(2) show ?case by simp
qed


lemmas evaluation =
  handleAddToShortlist_def handleRemoveFromShortlist_def handleLock_def handleUnlock_def
  Universities_loadData_def addToShortlist_def removeFromShortlist_def lockUniversity_def
  unlockUniversity_def getProfile_def updateUserStage_def getUniversities_def
  getShortlistedUniversities_def getLockedUniversities_def
  shortlisted_insert_def shortlisted_delete_def locked_insert_def locked_delete_def
  profiles_select_def profiles_update_def universities_select_def shortlisted_select_def
  locked_select_def round_trip_def next_fault_def sent_def update_profile_row_def
  is_shortlisted_def is_locked_def find_university_def fetch_shortlisted_def fetch_locked_def
  isShortlisted_def isLocked_def or_null_def matches_filters_def ranking_key_def
  example_world_at_def example_world_def example_university_def example_page_def
  example_profile_def cards_def List.map_filter_simps

text \<open>
  Claim C4, as stated, on two sessions that start when the page mounts, with nothing
  locked. In both the user adds a university to the shortlist and locks it. In the
  first the reload after the lock fails (its first request reports an error), so the
  page still shows the university as shortlisted and not locked and offers ``Remove'';
  the user removes it. In the second no request fails, and the user clicks ``Remove''
  while the handler of ``Lock Choice'' is still running, on the page that offered both
  buttons. In both the university is then locked and not on the shortlist.
\<close>

theorem locked_and_not_shortlisted:
  "locked_are_shortlisted example_faulty_world ''u1''
   \<and> map_option (\<lambda>(page', w'). (is_locked w' ''u1'' ''x1'', is_shortlisted w' ''u1'' ''x1'',
                                  locked_are_shortlisted w' ''u1''))
        (session ''u1'' example_clicks example_page (example_page, example_faulty_world))
     = Some (True, False, False)
   \<and> faults (example_world_at exploring) = []
   \<and> locked_are_shortlisted (example_world_at exploring) ''u1''
   \<and> map_option (\<lambda>(page', w'). (is_locked w' ''u1'' ''x1'', is_shortlisted w' ''u1'' ''x1'',
                                  locked_are_shortlisted w' ''u1''))
        (session ''u1'' example_hasty_clicks example_page (example_page, example_world_at exploring))
     = Some (True, False, False)"
  by (simp add: locked_are_shortlisted_def example_faulty_world_def
      example_clicks_def example_hasty_clicks_def example_quiet_clicks_def evaluation)

text \<open>
  Claim C4, amended. The page shows ``Lock Choice'' only on the card of a university
  its lists show as shortlisted and not locked, and ``Remove'' only on the card of one
  they show as not locked; the buttons stay enabled while a handler runs, and neither
  \<open>lockUniversity\<close> nor \<open>removeFromShortlist\<close> nor the schema checks the other table.
  Consider a session on the universities page in which no request reports an error
  from outside the tables and every click is made after the handler of the previous
  click has finished, on the page that shows its result. When it starts as the page
  mounts, or where the lists of the page agree with the tables, and every locked
  university of the user is on the shortlist, then after every click every locked
  university of the user is on the shortlist, the lists of the page agree with the
  tables, and the page shows ``Lock Choice'' only for universities that are on the
  shortlist and not locked, and ``Remove'' only for universities that are not locked.
\<close>

theorem locked_are_shortlisted_in_quiet_sessions:
  assumes "faults w = []" and "loading page \<or> in_sync page w userId"
    and "locked_are_shortlisted w userId"
    and "list_all (\<lambda>step. fst step = After_handler) steps"
    and "session userId steps seen (page, w) = Some (page', w')"
  shows "locked_are_shortlisted w' userId
       \<and> (steps \<noteq> [] \<or> in_sync page w userId \<longrightarrow>
            in_sync page' w' userId
          \<and> (\<forall>x. offered page' (Lock x) \<longrightarrow>
                   is_shortlisted w' userId x \<and> \<not> is_locked w' userId x)
          \<and> (\<forall>x. offered page' (Remove x) \<longrightarrow> \<not> is_locked w' userId x))"
proof -
  note s = session_preserves [OF assms]
  have "in_sync page' w' userId \<Longrightarrow>
        (\<forall>x. offered page' (Lock x) \<longrightarrow> is_shortlisted w' userId x \<and> \<not> is_locked w' userId x)
      \<and> (\<forall>x. offered page' (Remove x) \<longrightarrow> \<not> is_locked w' userId x)"
    by (simp add: isShortlisted_in_sync isLocked_in_sync)
  with s show ?thesis by blast
qed

theorem locked_are_shortlisted_in_quiet_sessions_witness:
  "faults (example_world_at exploring) = []
   \<and> loading example_page
   \<and> locked_are_shortlisted (example_world_at exploring) ''u1''
   \<and> list_all (\<lambda>step. fst step = After_handler) example_quiet_clicks
   \<and> map_option (\<lambda>(page', w'). (is_locked w' ''u1'' ''x1'', locked_are_shortlisted w' ''u1'',
                                  in_sync page' w' ''u1''))
        (session ''u1'' example_quiet_clicks example_page (example_page, example_world_at exploring))
     = Some (True, True, True)"
proof -
  let ?w = "example_world_at exploring"
  have h1: "faults ?w = []"
    by (simp add: example_world_at_def example_world_def)
  have h2: "loading example_page"
    by (simp add: example_page_def)
  have h3: "locked_are_shortlisted ?w ''u1''"
    by (simp add: locked_are_shortlisted_def evaluation)
  have h4: "list_all (\<lambda>step. fst step = After_handler) example_quiet_clicks"
    by (simp add: example_quiet_clicks_def)
  have n: "example_quiet_clicks \<noteq> []"
    by (simp add: example_quiet_clicks_def)
  have e: "map_option (\<lambda>(page', w'). is_locked w' ''u1'' ''x1'')
        (session ''u1'' example_quiet_clicks example_page (example_page, ?w)) = Some True"
    by (simp add: example_quiet_clicks_def evaluation)
  then obtain page' w' where s: "session ''u1'' example_quiet_clicks example_page (example_page, ?w)
      = Some (page', w')"
    by (cases "session ''u1'' example_quiet_clicks example_page (example_page, ?w)") auto
  from h2 have "loading example_page \<or> in_sync example_page ?w ''u1''" by simp
  from locked_are_shortlisted_in_quiet_sessions [OF h1 this h3 h4 s] n
  have "locked_are_shortlisted w' ''u1''" "in_sync page' w' ''u1''" by simp_all
  with e s have "map_option (\<lambda>(page', w'). (is_locked w' ''u1'' ''x1'', locked_are_shortlisted w' ''u1'',
                                  in_sync page' w' ''u1''))
        (session ''u1'' example_quiet_clicks example_page (example_page, ?w)) = Some (True, True, True)"
    by simp
  with h1 h2 h3 h4 show ?thesis by (intro conjI)
qed

section \<open>The stage of the user\<close>

lemma createDefaultTasks_relates:
  fixes R :: "world \<Rightarrow> world \<Rightarrow> bool"
  assumes refl: "\<And>w. R w w" and trans: "\<And>a b c. R a b \<Longrightarrow> R b c \<Longrightarrow> R a c"
    and c: "\<And>u t w. R w (snd (createTask tasks_insert_select u t w))"
  shows "R w (snd (createDefaultTasks u x ts w))"
proof (induction ts arbitrary: w)
  case Nil
  show ?case by (simp add: refl)
next
  case (Cons t ts)
  obtain r1 w1 where g: "createTask tasks_insert_select u (t\<lparr>n_university_id := Some x\<rparr>) w = (r1, w1)"
    by (cases "createTask tasks_insert_select u (t\<lparr>n_university_id := Some x\<rparr>) w")
  from c [of w u "t\<lparr>n_university_id := Some x\<rparr>"] g have r1: "R w w1" by simp
  show ?case
  proof (cases r1)
    case (Inl e)
    with g r1 show ?thesis by simp
  next
    case (Inr v)
    with g have "snd (createDefaultTasks u x (t # ts) w) = snd (createDefaultTasks u x ts w1)"
      by simp
    with trans [OF r1 Cons.IH [of w1]] show ?thesis by simp
  qed
qed

lemma loadData_relates:
  fixes R :: "world \<Rightarrow> world \<Rightarrow> bool" and G :: "Auth \<Rightarrow> bool"
  assumes refl: "\<And>w. R w w" and trans: "\<And>a b c. R a b \<Longrightarrow> R b c \<Longrightarrow> R a c"
    and t: "\<And>u w. R w (snd (getTasks tasks_select u w))"
    and l: "\<And>u w. R w (snd (getLockedUniversities locked_select u w))"
    and s: "\<And>r a u ls w. G a \<Longrightarrow> R w (snd (update_stage_to_applying r a u ls w))"
    and c: "\<And>u t w. R w (snd (createTask tasks_insert_select u t w))"
  shows "G auth \<Longrightarrow> R w (snd (Application_loadData refreshProfile auth page w))"
    and "G auth \<Longrightarrow>
         R w (snd (generateDefaultTasks refreshProfile auth userId lockedList page w))"
proof (induction refreshProfile auth page w and refreshProfile auth userId lockedList page w
    rule: Application_loadData_generateDefaultTasks.induct)
  case (1 refreshProfile auth page w)
  show ?case
  proof (cases "auth_user auth")
    case None
    then show ?thesis by (simp add: Application_loadData.simps refl)
  next
    case (Some uid)
    obtain r1 w1 where g1: "getTasks tasks_select uid w = (r1, w1)"
      by (cases "getTasks tasks_select uid w")
    obtain r2 w2 where g2: "getLockedUniversities locked_select uid w1 = (r2, w2)"
      by (cases "getLockedUniversities locked_select uid w1")
    from t [of w uid] g1 have a1: "R w w1" by simp
    from l [of w1 uid] g2 have a2: "R w1 w2" by simp
    note a12 = trans [OF a1 a2]
    show ?thesis
    proof (cases r1)
      case (Inl e)
      with Some g1 g2 a12 show ?thesis by (simp add: Application_loadData.simps)
    next
      case r1: (Inr tasksList)
      show ?thesis
      proof (cases r2)
        case (Inl e)
        with r1 Some g1 g2 a12 show ?thesis by (simp add: Application_loadData.simps)
      next
        case r2: (Inr lockedList)
        obtain r3 w3 where g3:
          "update_stage_to_applying refreshProfile auth uid lockedList w2 = (r3, w3)"
          by (cases "update_stage_to_applying refreshProfile auth uid lockedList w2")
        from s [OF "1.prems", of w2 refreshProfile uid lockedList] g3 have a3: "R w2 w3" by simp
        note a13 = trans [OF a12 a3]
        show ?thesis
        proof (cases r3)
          case (Inl e)
          with r1 r2 Some g1 g2 g3 a13 show ?thesis by (simp add: Application_loadData.simps)
        next
          case r3: (Inr v)
          show ?thesis
          proof (cases "length tasksList = 0 \<and> 0 < length lockedList")
            case False
            with r1 r2 r3 Some g1 g2 g3 a13 show ?thesis
              by (auto simp add: Application_loadData.simps)
          next
            case True
            have ih: "R w3 (snd (generateDefaultTasks refreshProfile auth uid lockedList
                (page\<lparr>st_tasks := tasksList, lockedUniversities := lockedList\<rparr>) w3))"
              using "1.IH" [OF Some g1 [symmetric] g2 [symmetric] HOL.refl r1 r2 g3 [symmetric] r3 True
                  "1.prems"] .
            have "snd (Application_loadData refreshProfile auth page w) =
                  snd (generateDefaultTasks refreshProfile auth uid lockedList
                    (page\<lparr>st_tasks := tasksList, lockedUniversities := lockedList\<rparr>) w3)"
              using r1 r2 r3 Some g1 g2 g3 True
              by (simp add: Application_loadData.simps split: prod.splits)
            with trans [OF a13 ih] show ?thesis by simp
          qed
        qed
      qed
    qed
  qed
next
  case (2 refreshProfile auth userId lockedList page w)
  show ?case
  proof (cases lockedList)
    case Nil
    then show ?thesis by (simp add: generateDefaultTasks.simps refl)
  next
    case (Cons l1 rest)
    obtain r1 w1 where g: "createDefaultTasks userId (l_university_id l1) defaultTasks w = (r1, w1)"
      by (cases "createDefaultTasks userId (l_university_id l1) defaultTasks w")
    have a1: "R w w1"
      using createDefaultTasks_relates
        [where R = R and w = w and u = userId and x = "l_university_id l1" and ts = defaultTasks,
         OF refl trans c] g
      by simp
    show ?thesis
    proof (cases r1)
      case (Inl e)
      with Cons g a1 show ?thesis by (simp add: generateDefaultTasks.simps)
    next
      case (Inr v)
      from "2.IH" [OF Cons g [symmetric] Inr "2.prems"]
      have "R w1 (snd (Application_loadData refreshProfile auth page w1))" .
      with Inr Cons g trans [OF a1] show ?thesis by (simp add: generateDefaultTasks.simps)
    qed
  qed
qed


lemma log_extends_iff: "log_extends w w' \<longleftrightarrow> (\<exists>new. log w' = log w @ new)"
proof
  assume "log_extends w w'"
  then have "log w' = log w @ drop (length (log w)) (log w')"
    unfolding log_extends_def by (metis append_take_drop_id)
  then show "\<exists>new. log w' = log w @ new" ..
next
  assume "\<exists>new. log w' = log w @ new"
  then show "log_extends w w'" by (auto simp: log_extends_def)
qed

lemma log_extends_refl: "log_extends w w"
  by (simp add: log_extends_def)

lemma log_extends_trans: "log_extends a b \<Longrightarrow> log_extends b c \<Longrightarrow> log_extends a c"
  unfolding log_extends_iff by auto

lemma issued_append:
  assumes "log_extends a b" and "log_extends b c"
  shows "issued a c = issued a b @ issued b c"
proof -
  from assms obtain n1 n2 where "log b = log a @ n1" "log c = log b @ n2"
    unfolding log_extends_iff by auto
  then show ?thesis by (simp add: issued_def)
qed

lemma no_profile_update_refl: "no_profile_update w w"
  by (simp add: no_profile_update_def log_extends_refl issued_def)

lemma no_profile_update_trans:
  assumes "no_profile_update a b" and "no_profile_update b c"
  shows "no_profile_update a c"
proof -
  from assms have e: "log_extends a b" "log_extends b c"
    by (simp_all add: no_profile_update_def)
  from assms show ?thesis
    by (simp add: no_profile_update_def issued_append [OF e] log_extends_trans [OF e])
qed

lemma stage_never_earlier_refl: "stage_never_earlier w w"
  by (simp add: stage_never_earlier_def)

lemma stage_never_earlier_trans:
  assumes "stage_never_earlier a b" and "stage_never_earlier b c"
  shows "stage_never_earlier a c"
  unfolding stage_never_earlier_def
proof (intro allI impI)
  fix u p
  assume "profiles_table a u = Some p"
  with assms(1) obtain p1 where p1: "profiles_table b u = Some p1"
    "stage_rank (current_stage p) \<le> stage_rank (current_stage p1)"
    unfolding stage_never_earlier_def by blast
  with assms(2) obtain p2 where "profiles_table c u = Some p2"
    "stage_rank (current_stage p1) \<le> stage_rank (current_stage p2)"
    unfolding stage_never_earlier_def by blast
  with p1 show "\<exists>p'. profiles_table c u = Some p'
      \<and> stage_rank (current_stage p) \<le> stage_rank (current_stage p')"
    by auto
qed

lemma same_profiles_never_earlier:
  "profiles_table w' = profiles_table w \<Longrightarrow> stage_never_earlier w w'"
  by (simp add: stage_never_earlier_def)

lemma getTasks_world: "snd (getTasks tasks_select u w) = sent (Select_tasks u) w"
  by (simp add: getTasks_def tasks_select_def round_trip_def split: option.splits)

lemma getLockedUniversities_world:
  "snd (getLockedUniversities locked_select u w) = sent (Select_locked u) w"
  by (simp add: getLockedUniversities_def locked_select_def round_trip_def split: option.splits)

lemma createTask_world:
  "profiles_table (snd (createTask tasks_insert_select u t w)) = profiles_table w
   \<and> (\<exists>ins. log (snd (createTask tasks_insert_select u t w)) = log w @ [Insert_tasks ins])"
  by (simp add: createTask_def tasks_insert_select_def round_trip_def split: option.splits)

lemma no_profile_update_sent:
  "\<not> is_profile_update rq \<Longrightarrow> no_profile_update w (sent rq w)"
  by (simp add: no_profile_update_def log_extends_def issued_def)

lemma createTask_no_profile_update:
  "no_profile_update w (snd (createTask tasks_insert_select u t w))"
  using createTask_world [of u t w]
  by (auto simp: no_profile_update_def log_extends_def issued_def)

lemma rank_applying: "stage_rank s \<le> 5"
  by (cases s) simp_all

lemma update_stage_to_applying_world:
  "update_stage_to_applying r a u ls w = (res, w') \<Longrightarrow>
   w' = w
   \<or> w' = sent (Update_profiles u [Set_current_stage applying]) w
   \<or> w' = update_profile_row u [Set_current_stage applying]
            (sent (Update_profiles u [Set_current_stage applying]) w)"
  by (auto simp: update_stage_to_applying_def updateUserStage_pg split: if_splits option.splits)

lemma update_row_never_earlier:
  "stage_never_earlier w (update_profile_row u [Set_current_stage applying] (sent rq w))"
  by (auto simp: stage_never_earlier_def update_profile_row_profiles rank_applying)

lemma update_stage_to_applying_never_earlier:
  "stage_never_earlier w (snd (update_stage_to_applying r a u ls w))"
proof -
  obtain res w' where g: "update_stage_to_applying r a u ls w = (res, w')"
    by (cases "update_stage_to_applying r a u ls w")
  from update_stage_to_applying_world [OF g] show ?thesis
    unfolding g using update_row_never_earlier [of w u]
    by (auto simp: same_profiles_never_earlier)
qed

lemma update_stage_to_applying_skipped:
  assumes "\<not> (case auth_profile a of None \<Rightarrow> False | Some p \<Rightarrow> current_stage p = committed)"
  shows "update_stage_to_applying r a u ls w = (Inr (), w)"
  using assms by (simp add: update_stage_to_applying_def)


lemma loadData_never_earlier:
  "stage_never_earlier w (snd (Application_loadData refreshProfile auth page w))"
proof -
  have "(\<lambda>a. True) auth \<Longrightarrow>
        stage_never_earlier w (snd (Application_loadData refreshProfile auth page w))"
  proof (rule loadData_relates(1) [where R = stage_never_earlier and G = "\<lambda>a. True"])
    show "\<And>w. stage_never_earlier w w" by (rule stage_never_earlier_refl)
    show "\<And>a b c. stage_never_earlier a b \<Longrightarrow> stage_never_earlier b c \<Longrightarrow> stage_never_earlier a c"
      by (rule stage_never_earlier_trans)
    show "\<And>u w. stage_never_earlier w (snd (getTasks tasks_select u w))"
      by (simp add: getTasks_world same_profiles_never_earlier)
    show "\<And>u w. stage_never_earlier w (snd (getLockedUniversities locked_select u w))"
      by (simp add: getLockedUniversities_world same_profiles_never_earlier)
    show "\<And>r a u ls w. True \<Longrightarrow> stage_never_earlier w (snd (update_stage_to_applying r a u ls w))"
      by (rule update_stage_to_applying_never_earlier)
    show "\<And>u t w. stage_never_earlier w (snd (createTask tasks_insert_select u t w))"
      using createTask_world by (simp add: same_profiles_never_earlier)
  qed simp
  then show ?thesis by simp
qed

lemma loadData_log_extends:
  "log_extends w (snd (Application_loadData refreshProfile auth page w))"
  "log_extends w (snd (generateDefaultTasks refreshProfile auth userId lockedList page w))"
proof -
  have r: "\<And>u w. log_extends w (snd (getTasks tasks_select u w))"
    "\<And>u w. log_extends w (snd (getLockedUniversities locked_select u w))"
    "\<And>r a u ls w. True \<Longrightarrow> log_extends w (snd (update_stage_to_applying r a u ls w))"
    "\<And>u t w. log_extends w (snd (createTask tasks_insert_select u t w))"
  proof -
    show "\<And>u w. log_extends w (snd (getTasks tasks_select u w))"
      by (simp add: getTasks_world log_extends_def)
    show "\<And>u w. log_extends w (snd (getLockedUniversities locked_select u w))"
      by (simp add: getLockedUniversities_world log_extends_def)
    show "\<And>r a u ls w. True \<Longrightarrow> log_extends w (snd (update_stage_to_applying r a u ls w))"
    proof -
      fix r a u ls w
      obtain res w' where g: "update_stage_to_applying r a u ls w = (res, w')"
        by (cases "update_stage_to_applying r a u ls w")
      from update_stage_to_applying_world [OF g]
      show "log_extends w (snd (update_stage_to_applying r a u ls w))"
        unfolding g by (auto simp: log_extends_def)
    qed
    show "\<And>u t w. log_extends w (snd (createTask tasks_insert_select u t w))"
      using createTask_no_profile_update by (simp add: no_profile_update_def)
  qed
  have "(\<lambda>a. True) auth \<Longrightarrow>
        log_extends w (snd (Application_loadData refreshProfile auth page w))"
    by (rule loadData_relates(1) [where R = log_extends and G = "\<lambda>a. True",
          OF log_extends_refl log_extends_trans r])
  then show "log_extends w (snd (Application_loadData refreshProfile auth page w))" by simp
  have "(\<lambda>a. True) auth \<Longrightarrow>
        log_extends w (snd (generateDefaultTasks refreshProfile auth userId lockedList page w))"
    by (rule loadData_relates(2) [where R = log_extends and G = "\<lambda>a. True",
          OF log_extends_refl log_extends_trans r])
  then show "log_extends w (snd (generateDefaultTasks refreshProfile auth userId lockedList page w))"
    by simp
qed

lemma loadData_no_profile_update:
  assumes "\<not> (case auth_profile auth of None \<Rightarrow> False | Some p \<Rightarrow> current_stage p = committed)"
  shows "no_profile_update w (snd (Application_loadData refreshProfile auth page w))"
proof -
  let ?G = "\<lambda>a. \<not> (case auth_profile a of None \<Rightarrow> False | Some p \<Rightarrow> current_stage p = committed)"
  have "?G auth \<Longrightarrow> no_profile_update w (snd (Application_loadData refreshProfile auth page w))"
  proof (rule loadData_relates(1) [where R = no_profile_update and G = ?G])
    show "\<And>w. no_profile_update w w" by (rule no_profile_update_refl)
    show "\<And>a b c. no_profile_update a b \<Longrightarrow> no_profile_update b c \<Longrightarrow> no_profile_update a c"
      by (rule no_profile_update_trans)
    show "\<And>u w. no_profile_update w (snd (getTasks tasks_select u w))"
      by (simp add: getTasks_world no_profile_update_sent)
    show "\<And>u w. no_profile_update w (snd (getLockedUniversities locked_select u w))"
      by (simp add: getLockedUniversities_world no_profile_update_sent)
    show "\<And>r a u ls w. ?G a \<Longrightarrow> no_profile_update w (snd (update_stage_to_applying r a u ls w))"
      by (simp add: update_stage_to_applying_skipped no_profile_update_refl)
    show "\<And>u t w. no_profile_update w (snd (createTask tasks_insert_select u t w))"
      by (rule createTask_no_profile_update)
  qed
  with assms show ?thesis by simp
qed


lemma generateDefaultTasks_never_earlier:
  "stage_never_earlier w (snd (generateDefaultTasks refreshProfile auth userId lockedList page w))"
proof -
  have "(\<lambda>a. True) auth \<Longrightarrow>
        stage_never_earlier w
          (snd (generateDefaultTasks refreshProfile auth userId lockedList page w))"
  proof (rule loadData_relates(2) [where R = stage_never_earlier and G = "\<lambda>a. True"])
    show "\<And>w. stage_never_earlier w w" by (rule stage_never_earlier_refl)
    show "\<And>a b c. stage_never_earlier a b \<Longrightarrow> stage_never_earlier b c \<Longrightarrow> stage_never_earlier a c"
      by (rule stage_never_earlier_trans)
    show "\<And>u w. stage_never_earlier w (snd (getTasks tasks_select u w))"
      by (simp add: getTasks_world same_profiles_never_earlier)
    show "\<And>u w. stage_never_earlier w (snd (getLockedUniversities locked_select u w))"
      by (simp add: getLockedUniversities_world same_profiles_never_earlier)
    show "\<And>r a u ls w. True \<Longrightarrow> stage_never_earlier w (snd (update_stage_to_applying r a u ls w))"
      by (rule update_stage_to_applying_never_earlier)
    show "\<And>u t w. stage_never_earlier w (snd (createTask tasks_insert_select u t w))"
      using createTask_world by (simp add: same_profiles_never_earlier)
  qed simp
  then show ?thesis by simp
qed

lemma getTasks_pg:
  "getTasks tasks_select u w =
     (case next_fault w of Some e \<Rightarrow> Inl e | None \<Rightarrow> Inr (fetch_tasks w u),
      sent (Select_tasks u) w)"
  by (simp add: getTasks_def tasks_select_def round_trip_def fetch_tasks_def sent_def
      find_university_def split: option.splits)

lemma getLockedUniversities_pg:
  "getLockedUniversities locked_select u w =
     (case next_fault w of Some e \<Rightarrow> Inl e | None \<Rightarrow> Inr (fetch_locked w u),
      sent (Select_locked u) w)"
  by (simp add: getLockedUniversities_def locked_select_def round_trip_def
      split: option.splits)

text \<open>A load whose fetches fail stops after them.\<close>

lemma loadData_fetch_failed:
  assumes "next_fault w \<noteq> None \<or> next_fault (sent (Select_tasks u) w) \<noteq> None"
  shows "snd (Application_loadData r \<lparr>auth_user = Some u, auth_profile = sp\<rparr> page w) =
         sent (Select_locked u) (sent (Select_tasks u) w)"
  using assms
  by (auto simp: Application_loadData.simps getTasks_pg getLockedUniversities_pg
      split: option.splits)

lemma loadData_nothing_locked:
  assumes "next_fault w = None" and "next_fault (sent (Select_tasks u) w) = None"
    and "fetch_locked w u = []"
  shows "snd (Application_loadData r \<lparr>auth_user = Some u, auth_profile = sp\<rparr> page w) =
         sent (Select_locked u) (sent (Select_tasks u) w)"
  using assms
  by (simp add: Application_loadData.simps getTasks_pg getLockedUniversities_pg
      update_stage_to_applying_def)

lemma loadData_after_update:
  assumes "next_fault w = None" and "next_fault (sent (Select_tasks u) w) = None"
  shows "log_extends
           (snd (update_stage_to_applying r \<lparr>auth_user = Some u, auth_profile = sp\<rparr> u
                   (fetch_locked w u) (sent (Select_locked u) (sent (Select_tasks u) w))))
           (snd (Application_loadData r \<lparr>auth_user = Some u, auth_profile = sp\<rparr> page w))
       \<and> stage_never_earlier
           (snd (update_stage_to_applying r \<lparr>auth_user = Some u, auth_profile = sp\<rparr> u
                   (fetch_locked w u) (sent (Select_locked u) (sent (Select_tasks u) w))))
           (snd (Application_loadData r \<lparr>auth_user = Some u, auth_profile = sp\<rparr> page w))"
proof -
  let ?a = "\<lparr>auth_user = Some u, auth_profile = sp\<rparr>"
  let ?w2 = "sent (Select_locked u) (sent (Select_tasks u) w)"
  obtain r3 w3 where g3: "update_stage_to_applying r ?a u (fetch_locked w u) ?w2 = (r3, w3)"
    by (cases "update_stage_to_applying r ?a u (fetch_locked w u) ?w2")
  let ?page1 = "page\<lparr>st_tasks := fetch_tasks w u, lockedUniversities := fetch_locked w u\<rparr>"
  have "snd (Application_loadData r ?a page w) = w3
        \<or> snd (Application_loadData r ?a page w)
            = snd (generateDefaultTasks r ?a u (fetch_locked w u) ?page1 w3)"
    using assms g3
    by (auto simp: Application_loadData.simps getTasks_pg getLockedUniversities_pg
        split: sum.splits prod.splits)
  then show ?thesis
    unfolding g3
    using loadData_log_extends(2) [of w3 r ?a u "fetch_locked w u" ?page1]
      generateDefaultTasks_never_earlier [of w3 r ?a u "fetch_locked w u" ?page1]
    by (auto simp: log_extends_refl stage_never_earlier_refl)
qed


lemma rank_5: "5 \<le> stage_rank s \<Longrightarrow> s = applying"
  by (cases s) simp_all

lemma update_stage_to_applying_sent:
  assumes "ls \<noteq> []" and "auth_profile a = Some sp" and "current_stage sp = committed"
  shows "snd (update_stage_to_applying r a u ls w2) =
         (case next_fault w2 of
            Some e \<Rightarrow> sent (Update_profiles u [Set_current_stage applying]) w2
          | None \<Rightarrow> update_profile_row u [Set_current_stage applying]
                      (sent (Update_profiles u [Set_current_stage applying]) w2))"
  using assms
  by (simp add: update_stage_to_applying_def updateUserStage_pg split: option.splits)

lemma completeOnboarding_pg:
  "completeOnboarding profiles_update_select u d w =
     (case next_fault w of
        Some e \<Rightarrow>
          (Inl e, sent (Update_profiles u (onboarding_columns d @
                     [Set_onboarding_completed True, Set_current_stage exploring])) w)
      | None \<Rightarrow>
          if list_ex out_of_range (onboarding_columns d)
          then (Inl numeric_value_out_of_range,
                sent (Update_profiles u (onboarding_columns d @
                     [Set_onboarding_completed True, Set_current_stage exploring])) w)
          else (Inr (map_option
                       (apply_columns (onboarding_columns d @
                          [Set_onboarding_completed True, Set_current_stage exploring]))
                       (profiles_table w u)),
                update_profile_row u
                  (onboarding_columns d @ [Set_onboarding_completed True, Set_current_stage exploring])
                  (sent (Update_profiles u (onboarding_columns d @
                     [Set_onboarding_completed True, Set_current_stage exploring])) w)))"
  by (simp add: completeOnboarding_def profiles_update_select_def round_trip_def
      update_profile_row_def split: option.splits)

lemma example_onboarding_fits: "list_ex out_of_range (onboarding_columns example_onboarding) = False"
  by (simp add: onboarding_columns_def example_onboarding_def)

lemma onboarding_stage:
  "current_stage (apply_columns (onboarding_columns d @
      [Set_onboarding_completed True, Set_current_stage exploring]) p) = exploring"
  by (simp add: onboarding_columns_def)

lemma Universities_loadData_profiles:
  "profiles_table (snd (Universities_loadData auth page w)) = profiles_table w"
  by (simp add: Universities_loadData_def getUniversities_def getShortlistedUniversities_def
      getLockedUniversities_def universities_select_def shortlisted_select_def locked_select_def
      round_trip_def split: option.splits prod.splits sum.splits)

lemma rank_4: "s \<noteq> applying \<Longrightarrow> stage_rank s \<le> 4"
  by (cases s) simp_all

lemma rank_3: "s = exploring \<Longrightarrow> stage_rank s \<le> 3"
  by simp

lemma lockUniversity_never_earlier:
  "stage_never_earlier w
     (snd (lockUniversity locked_insert profiles_select profiles_update u x w))"
  by (auto simp: stage_never_earlier_def lockUniversity_def locked_insert_def round_trip_def
      getProfile_pg updateUserStage_pg update_profile_row_profiles
      rank_4 split: option.splits if_splits)


lemma loadData_stage_update:
  assumes w': "w' = snd (Application_loadData refreshProfile
                          \<lparr>auth_user = Some userId, auth_profile = snapshot\<rparr> page w)"
  shows "(Update_profiles userId [Set_current_stage applying] \<in> set (issued w w'))
           = stage_update_condition w userId snapshot
       \<and> (stage_update_condition w userId snapshot
            \<and> next_fault (sent (Select_locked userId) (sent (Select_tasks userId) w)) = None
            \<and> profiles_table w userId \<noteq> None
          \<longrightarrow> map_option current_stage (profiles_table w' userId) = Some applying)
       \<and> (\<not> stage_update_condition w userId snapshot \<longrightarrow> no_profile_update w w')"
proof -
  let ?a = "\<lparr>auth_user = Some userId, auth_profile = snapshot\<rparr>"
  let ?w2 = "sent (Select_locked userId) (sent (Select_tasks userId) w)"
  let ?U = "Update_profiles userId [Set_current_stage applying]"
  have w2: "no_profile_update w ?w2"
    by (rule no_profile_update_trans [of w "sent (Select_tasks userId) w"])
      (simp_all add: no_profile_update_sent)
  have part3: "no_profile_update w w'" if n: "\<not> stage_update_condition w userId snapshot"
  proof (cases "next_fault w \<noteq> None \<or> next_fault (sent (Select_tasks userId) w) \<noteq> None")
    case True
    from loadData_fetch_failed [OF True] w2 w' show ?thesis by simp
  next
    case ok: False
    show ?thesis
    proof (cases "fetch_locked w userId = []")
      case True
      with ok loadData_nothing_locked [of w userId refreshProfile snapshot page] w2 w'
      show ?thesis by simp
    next
      case False
      with ok n have "\<not> (case auth_profile ?a of None \<Rightarrow> False
                          | Some p \<Rightarrow> current_stage p = committed)"
        by (simp add: stage_update_condition_def)
      from loadData_no_profile_update [OF this] w' show ?thesis by simp
    qed
  qed
  have part1a: "?U \<in> set (issued w w')
      \<and> (next_fault ?w2 = None \<and> profiles_table w userId \<noteq> None
          \<longrightarrow> map_option current_stage (profiles_table w' userId) = Some applying)"
    if c: "stage_update_condition w userId snapshot"
  proof -
    from c obtain sp where sp: "snapshot = Some sp" "current_stage sp = committed"
      by (auto simp: stage_update_condition_def split: option.splits)
    from c have ok: "next_fault w = None" "next_fault (sent (Select_tasks userId) w) = None"
      and ne: "fetch_locked w userId \<noteq> []"
      by (simp_all add: stage_update_condition_def)
    let ?w3 = "snd (update_stage_to_applying refreshProfile ?a userId (fetch_locked w userId) ?w2)"
    have w3: "?w3 = (case next_fault ?w2 of
            Some e \<Rightarrow> sent ?U ?w2
          | None \<Rightarrow> update_profile_row userId [Set_current_stage applying] (sent ?U ?w2))"
      by (rule update_stage_to_applying_sent [OF ne, of ?a sp]) (simp_all add: sp)
    from loadData_after_update [OF ok, of refreshProfile snapshot page] w'
    have e: "log_extends ?w3 w'" and m: "stage_never_earlier ?w3 w'" by simp_all
    have l3: "log ?w3 = log w @ [Select_tasks userId, Select_locked userId, ?U]"
      unfolding w3 by (simp split: option.splits)
    from e obtain new where "log w' = log ?w3 @ new"
      unfolding log_extends_iff by blast
    with l3 have "issued w w' = [Select_tasks userId, Select_locked userId, ?U] @ new"
      by (simp add: issued_def)
    then have i: "?U \<in> set (issued w w')" by simp
    have s: "map_option current_stage (profiles_table w' userId) = Some applying"
      if q: "next_fault ?w2 = None" and p: "profiles_table w userId \<noteq> None"
    proof -
      from p obtain p0 where p0: "profiles_table w userId = Some p0" by auto
      from q p0 have "profiles_table ?w3 userId = Some (p0\<lparr>current_stage := applying\<rparr>)"
        unfolding w3 by (simp add: update_profile_row_profiles)
      with m obtain p' where "profiles_table w' userId = Some p'"
        "stage_rank (current_stage (p0\<lparr>current_stage := applying\<rparr>)) \<le> stage_rank (current_stage p')"
        unfolding stage_never_earlier_def by blast
      then show ?thesis by (simp add: rank_5)
    qed
    from i s show ?thesis by blast
  qed
  have part1b: "\<not> stage_update_condition w userId snapshot \<Longrightarrow> ?U \<notin> set (issued w w')"
  proof
    assume n: "\<not> stage_update_condition w userId snapshot" and i: "?U \<in> set (issued w w')"
    from part3 [OF n] have "list_all (\<lambda>rq. \<not> is_profile_update rq) (issued w w')"
      by (simp add: no_profile_update_def)
    with i have "\<not> is_profile_update ?U" unfolding list_all_iff by blast
    then show False by simp
  qed
  from part1a part1b part3 show ?thesis by blast
qed


text \<open>
  Claim C5, as stated, on two loads of the applications page by a user with a locked
  university, none of whose requests fails. In the first the stored stage is
  \<open>committed\<close> and the profile the page holds is older, with the stage \<open>shortlisting\<close>: the
  load sends no update of a profile and the stage stays \<open>committed\<close>. In the second
  the stored stage is \<open>exploring\<close> and the profile the page holds has the stage
  \<open>committed\<close>: the load sends the update and the stored stage becomes \<open>applying\<close>.
\<close>

theorem loadData_tests_the_profile_of_the_page:
  "faults example_locked_world = []
   \<and> stored_stage_condition example_locked_world ''u1''
   \<and> no_profile_update example_locked_world
       (snd (Application_loadData (\<lambda>w. None)
               \<lparr>auth_user = Some ''u1'',
                  auth_profile = Some (example_profile\<lparr>current_stage := shortlisting\<rparr>)\<rparr>
               example_application_page example_locked_world))
   \<and> map_option current_stage
       (profiles_table
          (snd (Application_loadData (\<lambda>w. None)
                  \<lparr>auth_user = Some ''u1'',
                     auth_profile = Some (example_profile\<lparr>current_stage := shortlisting\<rparr>)\<rparr>
                  example_application_page example_locked_world)) ''u1'') = Some committed
   \<and> faults example_reset_world = []
   \<and> \<not> stored_stage_condition example_reset_world ''u1''
   \<and> Update_profiles ''u1'' [Set_current_stage applying]
       \<in> set (issued example_reset_world
               (snd (Application_loadData (\<lambda>w. None)
                       \<lparr>auth_user = Some ''u1'',
                          auth_profile = Some (example_profile\<lparr>current_stage := committed\<rparr>)\<rparr>
                       example_application_page example_reset_world)))
   \<and> map_option current_stage
       (profiles_table
          (snd (Application_loadData (\<lambda>w. None)
                  \<lparr>auth_user = Some ''u1'',
                     auth_profile = Some (example_profile\<lparr>current_stage := committed\<rparr>)\<rparr>
                  example_application_page example_reset_world)) ''u1'') = Some applying"
proof -
  let ?old = "Some (example_profile\<lparr>current_stage := shortlisting\<rparr>)"
  let ?new = "Some (example_profile\<lparr>current_stage := committed\<rparr>)"
  let ?w1 = "snd (Application_loadData (\<lambda>w. None) \<lparr>auth_user = Some ''u1'', auth_profile = ?old\<rparr>
                    example_application_page example_locked_world)"
  let ?w2 = "snd (Application_loadData (\<lambda>w. None) \<lparr>auth_user = Some ''u1'', auth_profile = ?new\<rparr>
                    example_application_page example_reset_world)"
  have f: "faults example_locked_world = []" "faults example_reset_world = []"
    by (simp_all add: example_reset_world_def example_locked_world_def example_world_at_def
        example_world_def)
  have c1: "stored_stage_condition example_locked_world ''u1''"
    by (simp add: stored_stage_condition_def example_locked_world_def example_world_at_def
        example_world_def fetch_locked_def)
  have c2: "\<not> stored_stage_condition example_reset_world ''u1''"
    by (simp add: stored_stage_condition_def example_reset_world_def)
  have n1: "\<not> stage_update_condition example_locked_world ''u1'' ?old"
    by (simp add: stage_update_condition_def)
  have n2: "stage_update_condition example_reset_world ''u1'' ?new"
    "next_fault (sent (Select_locked ''u1'') (sent (Select_tasks ''u1'') example_reset_world)) = None"
    "profiles_table example_reset_world ''u1'' \<noteq> None"
    by (simp_all add: stage_update_condition_def example_reset_world_def example_locked_world_def
        example_world_at_def example_world_def next_fault_def sent_def fetch_locked_def)
  note t1 = loadData_stage_update [OF HOL.refl,
      where refreshProfile = "\<lambda>w. None" and userId = "''u1''" and snapshot = ?old
        and page = example_application_page and w = example_locked_world]
  note t2 = loadData_stage_update [OF HOL.refl,
      where refreshProfile = "\<lambda>w. None" and userId = "''u1''" and snapshot = ?new
        and page = example_application_page and w = example_reset_world]
  from t1 n1 have a: "no_profile_update example_locked_world ?w1" by blast
  then have "profiles_table ?w1 = profiles_table example_locked_world"
    by (simp add: no_profile_update_def)
  then have b: "map_option current_stage (profiles_table ?w1 ''u1'') = Some committed"
    by (simp add: example_locked_world_def example_world_at_def)
  from t2 n2 have c: "Update_profiles ''u1'' [Set_current_stage applying]
       \<in> set (issued example_reset_world ?w2)" by blast
  from t2 n2 have d: "map_option current_stage (profiles_table ?w2 ''u1'') = Some applying"
    by blast
  from f c1 a b c2 c d show ?thesis by (intro conjI)
qed

text \<open>
  Claim C5, amended. The load of the applications page reads the stage in the profile
  the page holds from the context of the signed-in user when it renders, not in the
  stored row. A load by a signed-in user sends the update of the stage to \<open>applying\<close>
  exactly when both of its fetches succeed, the fetch of the locked universities
  returns at least one, and the stage of the profile the page holds is \<open>committed\<close>;
  when this update reports no error, the stored stage is \<open>applying\<close> after the load.
  In every other case the load sends no update of a profile and leaves the profiles
  as they are.
\<close>

theorem loadData_updates_stage_to_applying:
  assumes w': "w' = snd (Application_loadData refreshProfile
                          \<lparr>auth_user = Some userId, auth_profile = snapshot\<rparr> page w)"
  shows "(Update_profiles userId [Set_current_stage applying] \<in> set (issued w w'))
           = stage_update_condition w userId snapshot
       \<and> (stage_update_condition w userId snapshot
            \<and> next_fault (sent (Select_locked userId) (sent (Select_tasks userId) w)) = None
            \<and> profiles_table w userId \<noteq> None
          \<longrightarrow> map_option current_stage (profiles_table w' userId) = Some applying)
       \<and> (\<not> stage_update_condition w userId snapshot \<longrightarrow> no_profile_update w w')"
  using w' by (rule loadData_stage_update)

theorem loadData_updates_stage_to_applying_witness:
  "stage_update_condition example_locked_world ''u1''
     (Some (example_profile\<lparr>current_stage := committed\<rparr>))
   \<and> Update_profiles ''u1'' [Set_current_stage applying]
       \<in> set (issued example_locked_world
               (snd (Application_loadData (\<lambda>w. None)
                       \<lparr>auth_user = Some ''u1'',
                          auth_profile = Some (example_profile\<lparr>current_stage := committed\<rparr>)\<rparr>
                       example_application_page example_locked_world)))
   \<and> map_option current_stage
       (profiles_table
          (snd (Application_loadData (\<lambda>w. None)
                  \<lparr>auth_user = Some ''u1'',
                     auth_profile = Some (example_profile\<lparr>current_stage := committed\<rparr>)\<rparr>
                  example_application_page example_locked_world)) ''u1'') = Some applying"
proof -
  let ?sp = "Some (example_profile\<lparr>current_stage := committed\<rparr>)"
  let ?w' = "snd (Application_loadData (\<lambda>w. None) \<lparr>auth_user = Some ''u1'', auth_profile = ?sp\<rparr>
                    example_application_page example_locked_world)"
  have c: "stage_update_condition example_locked_world ''u1'' ?sp"
    by (simp add: stage_update_condition_def example_locked_world_def example_world_at_def
        example_world_def next_fault_def sent_def fetch_locked_def)
  have q: "next_fault (sent (Select_locked ''u1'') (sent (Select_tasks ''u1'') example_locked_world))
           = None"
    "profiles_table example_locked_world ''u1'' \<noteq> None"
    by (simp_all add: example_locked_world_def example_world_at_def example_world_def
        next_fault_def sent_def)
  note t = loadData_updates_stage_to_applying [OF HOL.refl,
      where refreshProfile = "\<lambda>w. None" and userId = "''u1''" and snapshot = ?sp
        and page = example_application_page and w = example_locked_world]
  from t c have a: "Update_profiles ''u1'' [Set_current_stage applying]
       \<in> set (issued example_locked_world ?w')" by blast
  from t c q have b: "map_option current_stage (profiles_table ?w' ''u1'') = Some applying"
    by blast
  from a b c show ?thesis by (intro conjI)
qed

text \<open>
  Claim C1, as stated, at the completion of the onboarding by a user whose stage is
  \<open>applying\<close>: the stage after the operation is \<open>exploring\<close>, which is earlier.
\<close>

theorem completeOnboarding_moves_stage_back:
  "map_option current_stage (profiles_table example_world ''u1'') = Some applying
   \<and> map_option current_stage
       (profiles_table
          (handleSubmit \<lparr>auth_user = Some ''u1'', auth_profile = Some example_profile\<rparr>
             example_onboarding example_world) ''u1'') = Some exploring
   \<and> stage_rank exploring < stage_rank applying"
  by (simp add: handleSubmit_def completeOnboarding_pg example_world_facts
      example_onboarding_fits update_profile_row_profiles onboarding_stage example_profile_def)


text \<open>
  Claim C1, as stated, at adding a university to the shortlist by a user whose stage
  is \<open>applying\<close>, on a page that has loaded its lists and holds an older profile of the
  user, with the stage \<open>exploring\<close>: the stage after the operation is \<open>shortlisting\<close>,
  which is earlier.
\<close>

theorem handleAddToShortlist_moves_stage_back:
  "map_option current_stage (profiles_table example_world ''u1'') = Some applying
   \<and> (case Universities_loadData
             \<lparr>auth_user = Some ''u1'',
                auth_profile = Some (example_profile\<lparr>current_stage := exploring\<rparr>)\<rparr>
             example_page example_world of
        (page, w) \<Rightarrow>
          map_option current_stage
            (profiles_table
               (snd (handleAddToShortlist
                       \<lparr>auth_user = Some ''u1'',
                          auth_profile = Some (example_profile\<lparr>current_stage := exploring\<rparr>)\<rparr>
                       (example_university ''x1'' ''Alpha University'' ''USA'' 1) dream page w))
               ''u1'')) = Some shortlisting
   \<and> stage_rank shortlisting < stage_rank applying"
  by (simp add: evaluation)

text \<open>
  Claim C1, amended. For a user with a profile: after locking a university on the
  universities page and after a load of the applications page the stage is never
  earlier than before; after adding a university to the shortlist it is never earlier
  than before when the stage of the profile the page holds is the stored one.
  Completing the onboarding sets the stage to \<open>exploring\<close> whenever
  \<open>completeOnboarding\<close> returns, whatever the stage was, and leaves it as it was when
  \<open>completeOnboarding\<close> throws.
\<close>

theorem stage_after_operations:
  assumes p: "profiles_table w userId = Some p"
    and sp: "current_stage sp = current_stage p"
  shows "(\<exists>p'. profiles_table
               (snd (handleLock \<lparr>auth_user = Some userId, auth_profile = snapshot\<rparr>
                       universityId upage w)) userId = Some p'
             \<and> stage_rank (current_stage p) \<le> stage_rank (current_stage p'))
       \<and> (\<exists>p'. profiles_table
               (snd (handleAddToShortlist \<lparr>auth_user = Some userId, auth_profile = Some sp\<rparr>
                       university cat upage w)) userId = Some p'
             \<and> stage_rank (current_stage p) \<le> stage_rank (current_stage p'))
       \<and> (\<exists>p'. profiles_table
               (snd (Application_loadData refreshProfile
                       \<lparr>auth_user = Some userId, auth_profile = snapshot\<rparr> apage w)) userId = Some p'
             \<and> stage_rank (current_stage p) \<le> stage_rank (current_stage p'))
       \<and> (\<exists>p'. profiles_table
               (handleSubmit \<lparr>auth_user = Some userId, auth_profile = snapshot\<rparr> formData w)
               userId = Some p'
             \<and> current_stage p' =
                 (case fst (completeOnboarding profiles_update_select userId formData w) of
                    Inl e \<Rightarrow> current_stage p
                  | Inr r \<Rightarrow> exploring))"
proof -
  let ?a = "\<lparr>auth_user = Some userId, auth_profile = snapshot\<rparr>"
  have lock: "stage_never_earlier w (snd (handleLock ?a universityId upage w))"
  proof -
    obtain r w1 where g: "lockUniversity locked_insert profiles_select profiles_update
        userId universityId w = (r, w1)"
      by (cases "lockUniversity locked_insert profiles_select profiles_update userId universityId w")
    from lockUniversity_never_earlier [of w userId universityId] g
    have n: "stage_never_earlier w w1" by simp
    have "profiles_table (snd (handleLock ?a universityId upage w)) = profiles_table w1"
      using g by (cases r) (simp_all add: handleLock_def Universities_loadData_profiles)
    with n show ?thesis by (simp add: stage_never_earlier_def)
  qed
  have a: "\<exists>p'. profiles_table (snd (handleLock ?a universityId upage w)) userId = Some p'
             \<and> stage_rank (current_stage p) \<le> stage_rank (current_stage p')"
    using lock p unfolding stage_never_earlier_def by blast
  let ?b = "\<lparr>auth_user = Some userId, auth_profile = Some sp\<rparr>"
  have b: "\<exists>p'. profiles_table (snd (handleAddToShortlist ?b university cat upage w)) userId = Some p'
             \<and> stage_rank (current_stage p) \<le> stage_rank (current_stage p')"
  proof -
    obtain r w1 where g: "addToShortlist shortlisted_insert userId (uni_id university) cat None w
        = (r, w1)"
      by (cases "addToShortlist shortlisted_insert userId (uni_id university) cat None w")
    then have p1: "profiles_table w1 = profiles_table w"
      by (auto simp: addToShortlist_def shortlisted_insert_def round_trip_def
          split: option.splits if_splits)
    show ?thesis
    proof (cases r)
      case (Inl e)
      with g p p1 show ?thesis by (simp add: handleAddToShortlist_def)
    next
      case (Inr v)
      obtain page1 w2 where l: "Universities_loadData ?b upage w1 = (page1, w2)"
        by (cases "Universities_loadData ?b upage w1")
      from Universities_loadData_profiles [of ?b upage w1] l p1
      have p2: "profiles_table w2 = profiles_table w" by simp
      show ?thesis
      proof (cases "current_stage sp = exploring")
        case False
        with Inr g l p p2 show ?thesis by (simp add: handleAddToShortlist_def)
      next
        case True
        with sp have "stage_rank (current_stage p) \<le> 3" by simp
        with True Inr g l p p2 show ?thesis
          by (simp add: handleAddToShortlist_def updateUserStage_pg update_profile_row_profiles
              split: option.splits)
      qed
    qed
  qed
  have c: "\<exists>p'. profiles_table (snd (Application_loadData refreshProfile ?a apage w)) userId = Some p'
             \<and> stage_rank (current_stage p) \<le> stage_rank (current_stage p')"
    using loadData_never_earlier [of w refreshProfile ?a apage] p
    unfolding stage_never_earlier_def by blast
  have d: "\<exists>p'. profiles_table (handleSubmit ?a formData w) userId = Some p'
             \<and> current_stage p' =
                 (case fst (completeOnboarding profiles_update_select userId formData w) of
                    Inl e \<Rightarrow> current_stage p
                  | Inr r \<Rightarrow> exploring)"
    using p
    by (simp add: handleSubmit_def completeOnboarding_pg update_profile_row_profiles
        onboarding_stage split: option.splits)
  from a b c d show ?thesis by (intro conjI)
qed

theorem stage_after_operations_witness:
  "profiles_table (example_world_at exploring) ''u1''
     = Some (example_profile\<lparr>current_stage := exploring\<rparr>)
   \<and> map_option current_stage
       (profiles_table
          (snd (handleAddToShortlist
                  \<lparr>auth_user = Some ''u1'',
                     auth_profile = Some (example_profile\<lparr>current_stage := exploring\<rparr>)\<rparr>
                  (example_university ''x1'' ''Alpha University'' ''USA'' 1) dream
                  example_page (example_world_at exploring))) ''u1'') = Some shortlisting
   \<and> stage_rank exploring
       \<le> stage_rank (current_stage (the (profiles_table
            (snd (handleLock \<lparr>auth_user = Some ''u1'', auth_profile = None\<rparr> ''x1''
                    example_page (example_world_at exploring))) ''u1'')))
   \<and> profiles_table (example_world_at committed) ''u1''
     = Some (example_profile\<lparr>current_stage := committed\<rparr>)
   \<and> map_option current_stage
       (profiles_table
          (handleSubmit \<lparr>auth_user = Some ''u1'', auth_profile = None\<rparr>
             example_onboarding (example_world_at committed)) ''u1'')
     = Some exploring
   \<and> map_option current_stage
       (profiles_table
          (handleSubmit \<lparr>auth_user = Some ''u1'', auth_profile = None\<rparr>
             (example_onboarding\<lparr>o_gpa := 1000\<rparr>) (example_world_at committed)) ''u1'')
     = Some committed"
proof -
  let ?p = "example_profile\<lparr>current_stage := exploring\<rparr>"
  let ?w = "example_world_at exploring"
  have h: "profiles_table ?w ''u1'' = Some ?p"
    by (simp add: example_world_at_def)
  note t = stage_after_operations [OF h HOL.refl,
      where snapshot = None and universityId = "''x1''" and upage = example_page]
  let ?q = "example_profile\<lparr>current_stage := committed\<rparr>"
  let ?v = "example_world_at committed"
  have k: "profiles_table ?v ''u1'' = Some ?q"
    by (simp add: example_world_at_def)
  have returned: "fst (completeOnboarding profiles_update_select ''u1'' example_onboarding ?v)
                = Inr (Some (apply_columns
                               (onboarding_columns example_onboarding @
                                [Set_onboarding_completed True, Set_current_stage exploring]) ?q))"
    by (simp add: completeOnboarding_pg next_fault_def example_world_at_def example_world_def
        example_onboarding_fits)
  have thrown: "fst (completeOnboarding profiles_update_select ''u1''
                       (example_onboarding\<lparr>o_gpa := 1000\<rparr>) ?v)
                = Inl numeric_value_out_of_range"
    by (simp add: completeOnboarding_pg next_fault_def example_world_at_def example_world_def
        onboarding_columns_def)
  from stage_after_operations [OF k HOL.refl,
      where snapshot = None and formData = example_onboarding] returned
  have c: "map_option current_stage
       (profiles_table
          (handleSubmit \<lparr>auth_user = Some ''u1'', auth_profile = None\<rparr>
             example_onboarding ?v) ''u1'') = Some exploring"
    by auto
  from stage_after_operations [OF k HOL.refl,
      where snapshot = None and formData = "example_onboarding\<lparr>o_gpa := 1000\<rparr>"] thrown
  have d: "map_option current_stage
       (profiles_table
          (handleSubmit \<lparr>auth_user = Some ''u1'', auth_profile = None\<rparr>
             (example_onboarding\<lparr>o_gpa := 1000\<rparr>) ?v) ''u1'') = Some committed"
    by auto
  from t obtain p' where
    "profiles_table (snd (handleLock \<lparr>auth_user = Some ''u1'', auth_profile = None\<rparr> ''x1''
       example_page ?w)) ''u1'' = Some p'"
    "stage_rank (current_stage ?p) \<le> stage_rank (current_stage p')"
    by blast
  then have a: "stage_rank exploring
       \<le> stage_rank (current_stage (the (profiles_table
            (snd (handleLock \<lparr>auth_user = Some ''u1'', auth_profile = None\<rparr> ''x1''
                    example_page ?w)) ''u1'')))"
    by simp
  have b: "map_option current_stage
       (profiles_table
          (snd (handleAddToShortlist \<lparr>auth_user = Some ''u1'', auth_profile = Some ?p\<rparr>
                  (example_university ''x1'' ''Alpha University'' ''USA'' 1) dream
                  example_page ?w)) ''u1'') = Some shortlisting"
    by (simp add: evaluation)
  from h a b k c d show ?thesis by (intro conjI)
qed

end
